theory Spec2Isabelle
  imports Main "HOL-Library.Char_ord" "HOL-Library.List_Lexorder" "HOL-Library.Multiset"
begin

section \<open>Go values used by the controllers\<close>

subsection \<open>Strings\<close>

text \<open>
  Go strings are byte sequences; \<open>string\<close> (a list of 8-bit characters) has the same
  length, slicing and bytewise comparison. The helpers below are the functions of package
  \<open>strings\<close> that the controllers call. \<open>Split\<close> and \<open>Contains\<close> are only ever called
  with a one-byte separator, which is what the model takes.
\<close>

definition HasPrefix :: "string \<Rightarrow> string \<Rightarrow> bool" where
  "HasPrefix s p = (take (length p) s = p)"

definition TrimPrefix :: "string \<Rightarrow> string \<Rightarrow> string" where
  "TrimPrefix s p = (if HasPrefix s p then drop (length p) s else s)"

definition Contains :: "string \<Rightarrow> char \<Rightarrow> bool" where
  "Contains s c = (c \<in> set s)"

fun Split :: "string \<Rightarrow> char \<Rightarrow> string list" where
  "Split [] c = [[]]"
| "Split (x # xs) c =
     (if x = c then [] # Split xs c
      else (case Split xs c of [] \<Rightarrow> [[x]] | h # t \<Rightarrow> (x # h) # t))"

subsection \<open>Errors\<close>

text \<open>
  An \<open>error\<close> value is a sentinel, a fresh error with a message, an error wrapping another
  one (\<open>fmt.Errorf\<close> with \<open>%w\<close>), or one of the typed errors of the repository
  (\<open>serror.Generic\<close>, \<open>serror.Stalling\<close>, \<open>serror.Event\<close>, each an error with a reason, and
  \<open>invalidOCIURLError\<close>). The other kinds are those the controllers tell apart: a
  \<open>url.Error\<close>, the not-found answer of the API server, a \<open>chart.BuildError\<close> with its
  reason, and an aggregate of errors. \<open>errors_Is\<close> walks the chain of wrapped errors.
\<close>

datatype error =
    ErrUnconfiguredProvider
  | New string
  | Errorf string error
  | Generic error string
  | Stalling error string
  | Event error string
  | invalidOCIURLError error
  | url_Error string
  | NotFound string
  | BuildError string error
  | Aggregate "error list"

fun Error :: "error \<Rightarrow> string" where
  "Error ErrUnconfiguredProvider = ''registry provider not configured for login''"
| "Error (New m) = m"
| "Error (Errorf m e) = m @ Error e"
| "Error (Generic e r) = Error e"
| "Error (Stalling e r) = Error e"
| "Error (Event e r) = Error e"
| "Error (invalidOCIURLError e) = Error e"
| "Error (url_Error m) = m"
| "Error (NotFound m) = m"
| "Error (BuildError r e) = r @ '': '' @ Error e"
| "Error (Aggregate es) = concat (map Error es)"

fun errors_Is :: "error \<Rightarrow> error \<Rightarrow> bool" where
  "errors_Is (Errorf m e) t = (Errorf m e = t \<or> errors_Is e t)"
| "errors_Is (Generic e r) t = (Generic e r = t \<or> errors_Is e t)"
| "errors_Is (Stalling e r) t = (Stalling e r = t \<or> errors_Is e t)"
| "errors_Is (Event e r) t = (Event e r = t \<or> errors_Is e t)"
| "errors_Is (BuildError r e) t = (BuildError r e = t \<or> errors_Is e t)"
| "errors_Is (Aggregate es) t = (Aggregate es = t \<or> (\<exists>e \<in> set es. errors_Is e t))"
| "errors_Is e t = (e = t)"

text \<open>A function that may panic either panics or returns.\<close>

datatype 'a outcome = Panic | Return 'a

section \<open>Semantic-version tag resolution (OCIRepository)\<close>

text \<open>
  The semantic-version library (\<open>Masterminds/semver\<close>, \<open>fluxcd/pkg/version\<close>) is not
  part of the repository. \<open>getTagBySemver\<close> uses four of its operations, taken here as
  a record of functions over an arbitrary type of versions: parsing a tag
  (\<open>None\<close> when the tag is no semantic version), parsing a constraint into the
  predicate that \<open>Check\<close> evaluates (an error when the expression is invalid), the
  order \<open>LessThan\<close> that \<open>semver.Collection\<close> sorts by, and \<open>Original\<close>.
\<close>

record 'v semver =
  ParseVersion :: "string \<Rightarrow> 'v option"
  NewConstraint :: "string \<Rightarrow> error + ('v \<Rightarrow> bool)"
  LessThan :: "'v \<Rightarrow> 'v \<Rightarrow> bool"
  Original :: "'v \<Rightarrow> string"

text \<open>
  The loop over the tags: a tag that fails to parse is skipped (\<open>continue\<close>), a version
  that passes the constraint is appended.
\<close>

fun matchingVersions :: "'v semver \<Rightarrow> ('v \<Rightarrow> bool) \<Rightarrow> 'v list \<Rightarrow> string list \<Rightarrow> 'v list" where
  "matchingVersions lib constraint acc [] = acc"
| "matchingVersions lib constraint acc (t # ts) =
     (case ParseVersion lib t of
        None \<Rightarrow> matchingVersions lib constraint acc ts
      | Some v \<Rightarrow>
          if constraint v then matchingVersions lib constraint (acc @ [v]) ts
          else matchingVersions lib constraint acc ts)"

text \<open>
  \<open>sort.Sort(sort.Reverse(semver.Collection(vs)))\<close>: the order handed to the sort is
  \<open>Less i j = LessThan (vs ! j) (vs ! i)\<close>. On a slice of at most 12 elements
  \<open>sort.Sort\<close> is an insertion sort: each element in turn moves left while it is
  \<open>Less\<close> than its left neighbour. \<open>moveLeft\<close> takes the element and its left neighbours,
  nearest first, and returns the new prefix in the same (reversed) order. On longer
  slices \<open>sort.Sort\<close> is another, unstable, sort; no statement below depends on the
  order among versions that compare equal.
\<close>

fun moveLeft :: "'v semver \<Rightarrow> 'v \<Rightarrow> 'v list \<Rightarrow> 'v list" where
  "moveLeft lib v [] = [v]"
| "moveLeft lib v (w # ws) =
     (if LessThan lib w v then w # moveLeft lib v ws else v # w # ws)"

fun insertionSort :: "'v semver \<Rightarrow> 'v list \<Rightarrow> 'v list \<Rightarrow> 'v list" where
  "insertionSort lib placed [] = rev placed"
| "insertionSort lib placed (v # vs) = insertionSort lib (moveLeft lib v placed) vs"

definition sortReverse :: "'v semver \<Rightarrow> 'v list \<Rightarrow> 'v list" where
  "sortReverse lib vs = insertionSort lib [] vs"

definition getTagBySemver ::
  "'v semver \<Rightarrow> (string \<Rightarrow> error + string list) \<Rightarrow> string \<Rightarrow> string \<Rightarrow> error + string" where
  "getTagBySemver lib listTags url exp =
     (case listTags url of
        Inl err \<Rightarrow> Inl err
      | Inr tags \<Rightarrow>
          (case NewConstraint lib exp of
             Inl err \<Rightarrow> Inl (Errorf (''semver '' @ exp @ '' parse error: '') err)
           | Inr constraint \<Rightarrow>
               (case sortReverse lib (matchingVersions lib constraint [] tags) of
                  [] \<Rightarrow> Inl (New (''no match found for semver: '' @ exp))
                | v # _ \<Rightarrow> Inr (Original lib v))))"

text \<open>
  The claims about tag resolution are stated against these definitions, which follow the
  words of the specification: the candidates are the tags that parse and match, a
  list is in descending order when no element is less than a later one, and the
  order of the library is a strict weak order (what a sort needs of its \<open>Less\<close>).
\<close>

definition semver_candidates :: "'v semver \<Rightarrow> ('v \<Rightarrow> bool) \<Rightarrow> string list \<Rightarrow> 'v list" where
  "semver_candidates lib constraint tags = filter constraint (List.map_filter (ParseVersion lib) tags)"

definition descending :: "'v semver \<Rightarrow> 'v list \<Rightarrow> bool" where
  "descending lib vs = sorted_wrt (\<lambda>a b. \<not> LessThan lib a b) vs"

definition strict_weak_order :: "('v \<Rightarrow> 'v \<Rightarrow> bool) \<Rightarrow> bool" where
  "strict_weak_order lt =
     ((\<forall>a. \<not> lt a a) \<and>
      (\<forall>a b c. lt a b \<and> lt b c \<longrightarrow> lt a c) \<and>
      (\<forall>a b c. \<not> lt a b \<and> \<not> lt b c \<longrightarrow> \<not> lt a c))"

definition matching_tags :: "'v semver \<Rightarrow> ('v \<Rightarrow> bool) \<Rightarrow> string list \<Rightarrow> string list" where
  "matching_tags lib constraint tags =
     filter (\<lambda>t. case ParseVersion lib t of None \<Rightarrow> False | Some v \<Rightarrow> constraint v) tags"

definition lexicographic_maximum :: "string list \<Rightarrow> string" where
  "lexicographic_maximum ts = Max (set ts)"

subsection \<open>A model of the library on release versions\<close>

text \<open>
  For concrete runs: the versions \<open>MAJOR.MINOR.PATCH\<close> (decimal, no leading zero, an
  optional leading \<open>v\<close>), ordered by major, minor and patch number, and the constraints
  \<open>>=MAJOR.MINOR.PATCH\<close>. Every other tag and every other constraint is rejected by
  this model.
\<close>

record CoreVersion =
  major :: nat
  minor :: nat
  patch :: nat
  original :: string

definition digit :: "char \<Rightarrow> nat option" where
  "digit c = (if CHR ''0'' \<le> c \<and> c \<le> CHR ''9'' then Some (of_char c - 48) else None)"

fun parseUint :: "nat \<Rightarrow> string \<Rightarrow> nat option" where
  "parseUint acc [] = Some acc"
| "parseUint acc (c # cs) =
     (case digit c of None \<Rightarrow> None | Some d \<Rightarrow> parseUint (10 * acc + d) cs)"

definition numeric :: "string \<Rightarrow> nat option" where
  "numeric s =
     (if s = [] \<or> (1 < length s \<and> hd s = CHR ''0'') then None
      else (case parseUint 0 s of
              None \<Rightarrow> None
            | Some n \<Rightarrow> if n < 2 ^ 64 then Some n else None))"

definition core_parse :: "string \<Rightarrow> CoreVersion option" where
  "core_parse t =
     (case Split (TrimPrefix t ''v'') (CHR ''.'') of
        [a, b, c] \<Rightarrow>
          (case (numeric a, numeric b, numeric c) of
             (Some x, Some y, Some z) \<Rightarrow>
               Some \<lparr>major = x, minor = y, patch = z, original = t\<rparr>
           | _ \<Rightarrow> None)
      | _ \<Rightarrow> None)"

definition core_less :: "CoreVersion \<Rightarrow> CoreVersion \<Rightarrow> bool" where
  "core_less v w =
     (major v < major w \<or>
      (major v = major w \<and> (minor v < minor w \<or> (minor v = minor w \<and> patch v < patch w))))"

definition core_constraint :: "string \<Rightarrow> error + (CoreVersion \<Rightarrow> bool)" where
  "core_constraint e =
     (if HasPrefix e ''>='' then
        (case core_parse (drop 2 e) of
           None \<Rightarrow> Inl (New (''improper constraint: '' @ e))
         | Some v \<Rightarrow> Inr (\<lambda>w. \<not> core_less w v))
      else Inl (New (''improper constraint: '' @ e)))"

definition core_semver :: "CoreVersion semver" where
  "core_semver =
     \<lparr>ParseVersion = core_parse, NewConstraint = core_constraint,
      LessThan = core_less, Original = original\<rparr>"

section \<open>API objects\<close>

subsection \<open>Conditions\<close>

datatype ConditionStatus = ConditionTrue | ConditionFalse | ConditionUnknown

datatype ConditionType =
    ReadyCondition
  | ReconcilingCondition
  | StalledCondition
  | StorageOperationFailedCondition
  | FetchFailedCondition
  | BuildFailedCondition
  | ArtifactOutdatedCondition
  | ArtifactInStorageCondition
  | SourceVerifiedCondition

record Condition =
  Status :: ConditionStatus
  Reason :: string
  Message :: string
  ConditionObservedGeneration :: int

subsection \<open>Artifact and the fields common to the reconciled kinds\<close>

record Artifact =
  Path :: string
  URL :: string
  Revision :: string
  Checksum :: string
  Metadata :: "(string \<times> string) list option"

text \<open>
  The fields the three kinds share (\<open>metav1.ObjectMeta\<close>, \<open>spec.suspend\<close> and the
  common part of the status). \<open>DeletionTimestamp\<close> is \<open>0\<close> when unset, and
  \<open>Annotations\<close> holds the annotation that requests a reconciliation, if any.
\<close>

record Object =
  Kind :: string
  Namespace :: string
  Name :: string
  Generation :: int
  Finalizers :: "string list"
  DeletionTimestamp :: nat
  Annotations :: "(string \<times> string) list"
  Spec_Suspend :: bool
  Status_Conditions :: "ConditionType \<Rightarrow> Condition option"
  Status_Artifact :: "Artifact option"
  Status_URL :: string
  Status_ObservedGeneration :: int
  Status_LastHandledReconcileAt :: string

definition IsZero :: "nat \<Rightarrow> bool" where
  "IsZero t = (t = 0)"

definition SourceFinalizer :: string where
  "SourceFinalizer = ''finalizers.fluxcd.io''"

definition ContainsFinalizer :: "'a Object_scheme \<Rightarrow> string \<Rightarrow> bool" where
  "ContainsFinalizer obj f = (f \<in> set (Finalizers obj))"

definition AddFinalizer :: "'a Object_scheme \<Rightarrow> string \<Rightarrow> 'a Object_scheme" where
  "AddFinalizer obj f =
     (if f \<in> set (Finalizers obj) then obj else obj\<lparr>Finalizers := Finalizers obj @ [f]\<rparr>)"

definition RemoveFinalizer :: "'a Object_scheme \<Rightarrow> string \<Rightarrow> 'a Object_scheme" where
  "RemoveFinalizer obj f = obj\<lparr>Finalizers := filter (\<lambda>g. g \<noteq> f) (Finalizers obj)\<rparr>"

definition ReconcileRequestAnnotation :: string where
  "ReconcileRequestAnnotation = ''reconcile.fluxcd.io/requestedAt''"

definition ReconcileAnnotationValue :: "(string \<times> string) list \<Rightarrow> string option" where
  "ReconcileAnnotationValue annotations = map_of annotations ReconcileRequestAnnotation"

text \<open>\<open>object.SetStatusLastHandledReconcileAt\<close> writes \<open>status.lastHandledReconcileAt\<close>.\<close>

definition SetStatusLastHandledReconcileAt :: "'a Object_scheme \<Rightarrow> string \<Rightarrow> 'a Object_scheme" where
  "SetStatusLastHandledReconcileAt obj val = obj\<lparr>Status_LastHandledReconcileAt := val\<rparr>"

text \<open>
  Modelled from the spec: \<open>Artifact.HasRevision\<close> of package \<open>api/v1beta2\<close>, which is not
  among the sources. It is the test for a revision that has not changed: a nil artifact
  has no revision, any other has the revision it records.
\<close>

definition HasRevision :: "Artifact option \<Rightarrow> string \<Rightarrow> bool" where
  "HasRevision a revision = (case a of None \<Rightarrow> False | Some x \<Rightarrow> Revision x = revision)"

subsection \<open>The condition helpers (package \<open>conditions\<close>)\<close>

text \<open>Setting a condition stamps it with the generation of the object.\<close>

definition conditions_Set :: "'a Object_scheme \<Rightarrow> ConditionType \<Rightarrow> Condition \<Rightarrow> 'a Object_scheme" where
  "conditions_Set obj t c =
     obj\<lparr>Status_Conditions :=
       (Status_Conditions obj)(t \<mapsto> c\<lparr>ConditionObservedGeneration := Generation obj\<rparr>)\<rparr>"

definition MarkTrue :: "'a Object_scheme \<Rightarrow> ConditionType \<Rightarrow> string \<Rightarrow> string \<Rightarrow> 'a Object_scheme" where
  "MarkTrue obj t reason msg =
     conditions_Set obj t
       \<lparr>Status = ConditionTrue, Reason = reason, Message = msg, ConditionObservedGeneration = 0\<rparr>"

definition MarkFalse :: "'a Object_scheme \<Rightarrow> ConditionType \<Rightarrow> string \<Rightarrow> string \<Rightarrow> 'a Object_scheme" where
  "MarkFalse obj t reason msg =
     conditions_Set obj t
       \<lparr>Status = ConditionFalse, Reason = reason, Message = msg, ConditionObservedGeneration = 0\<rparr>"

definition Delete :: "'a Object_scheme \<Rightarrow> ConditionType \<Rightarrow> 'a Object_scheme" where
  "Delete obj t = obj\<lparr>Status_Conditions := (Status_Conditions obj)(t := None)\<rparr>"

definition MarkStalled :: "'a Object_scheme \<Rightarrow> string \<Rightarrow> string \<Rightarrow> 'a Object_scheme" where
  "MarkStalled obj reason msg = MarkTrue (Delete obj ReconcilingCondition) StalledCondition reason msg"

definition IsTrue :: "'a Object_scheme \<Rightarrow> ConditionType \<Rightarrow> bool" where
  "IsTrue obj t = (case Status_Conditions obj t of None \<Rightarrow> False | Some c \<Rightarrow> Status c = ConditionTrue)"

definition IsFalse :: "'a Object_scheme \<Rightarrow> ConditionType \<Rightarrow> bool" where
  "IsFalse obj t = (case Status_Conditions obj t of None \<Rightarrow> False | Some c \<Rightarrow> Status c = ConditionFalse)"

definition IsReady :: "'a Object_scheme \<Rightarrow> bool" where
  "IsReady obj = IsTrue obj ReadyCondition"

definition IsStalled :: "'a Object_scheme \<Rightarrow> bool" where
  "IsStalled obj = IsTrue obj StalledCondition"

definition IsReconciling :: "'a Object_scheme \<Rightarrow> bool" where
  "IsReconciling obj = IsTrue obj ReconcilingCondition"

definition GetMessage :: "'a Object_scheme \<Rightarrow> ConditionType \<Rightarrow> string" where
  "GetMessage obj t = (case Status_Conditions obj t of None \<Rightarrow> [] | Some c \<Rightarrow> Message c)"

definition GetObservedGeneration :: "'a Object_scheme \<Rightarrow> ConditionType \<Rightarrow> int" where
  "GetObservedGeneration obj t =
     (case Status_Conditions obj t of None \<Rightarrow> 0 | Some c \<Rightarrow> ConditionObservedGeneration c)"

subsection \<open>Reasons, event types and providers\<close>

definition AuthenticationFailedReason :: string where "AuthenticationFailedReason = ''AuthenticationFailed''"
definition VerificationError :: string where "VerificationError = ''VerificationError''"
definition URLInvalidReason :: string where "URLInvalidReason = ''URLInvalid''"
definition ReadOperationFailedReason :: string where "ReadOperationFailedReason = ''ReadOperationFailed''"
definition OCIPullFailedReason :: string where "OCIPullFailedReason = ''OCIArtifactPullFailed''"
definition OCILayerOperationFailedReason :: string where "OCILayerOperationFailedReason = ''OCIArtifactLayerOperationFailed''"
definition DirCreationFailedReason :: string where "DirCreationFailedReason = ''DirCreationFailed''"
definition StatOperationFailedReason :: string where "StatOperationFailedReason = ''StatOperationFailed''"
definition InvalidPathReason :: string where "InvalidPathReason = ''InvalidPath''"
definition ArchiveOperationFailedReason :: string where "ArchiveOperationFailedReason = ''ArchiveOperationFailed''"
definition SymlinkUpdateFailedReason :: string where "SymlinkUpdateFailedReason = ''SymlinkUpdateFailed''"
definition ArtifactUpToDateReason :: string where "ArtifactUpToDateReason = ''ArtifactUpToDate''"
definition FailedReason :: string where "FailedReason = ''Failed''"
definition SucceededReason :: string where "SucceededReason = ''Succeeded''"
definition ProgressingReason :: string where "ProgressingReason = ''Progressing''"
definition ProgressingWithRetryReason :: string where "ProgressingWithRetryReason = ''ProgressingWithRetry''"

definition EventTypeNormal :: string where "EventTypeNormal = ''Normal''"
definition EventTypeWarning :: string where "EventTypeWarning = ''Warning''"
definition EventTypeTrace :: string where "EventTypeTrace = ''Trace''"

definition GenericOCIProvider :: string where "GenericOCIProvider = ''generic''"
definition AmazonOCIProvider :: string where "AmazonOCIProvider = ''aws''"
definition AzureOCIProvider :: string where "AzureOCIProvider = ''azure''"
definition GoogleOCIProvider :: string where "GoogleOCIProvider = ''gcp''"

definition OCIRepositoryPrefix :: string where "OCIRepositoryPrefix = ''oci://''"
definition HelmRepositoryTypeOCI :: string where "HelmRepositoryTypeOCI = ''oci''"

datatype Result = ResultEmpty | ResultRequeue | ResultSuccess

section \<open>The world outside a reconciliation\<close>

text \<open>
  What a reconciliation does to the world is kept in two parts: the files of the
  artifact storage (paths relative to the storage root), and the trace of the calls
  that change it or that the claims speak of, in order: patches sent to the API
  server (with or without the option that stamps the observed generation), events,
  registry logins, pulls and signature verifications, chart builds, and writes to the
  storage.
\<close>

datatype effect =
    E_Patch bool
  | E_SummarizeAndPatch
  | E_Event string string
  | E_Login
  | E_VerifySignature string
  | E_Pull string
  | E_CopyFromPath string
  | E_Archive string
  | E_Symlink string
  | E_RemoveAll string
  | E_GarbageCollect string
  | E_Build

record World =
  Files :: "string list"
  Trace :: "effect list"

definition emit :: "effect \<Rightarrow> World \<Rightarrow> World" where
  "emit e w = w\<lparr>Trace := Trace w @ [e]\<rparr>"

text \<open>\<open>eventLogf\<close> logs and records an event; the event is what leaves the process.\<close>

definition eventLogf :: "World \<Rightarrow> string \<Rightarrow> string \<Rightarrow> World" where
  "eventLogf w eventType reason = emit (E_Event eventType reason) w"

subsection \<open>Storage\<close>

text \<open>
  Modelled from the spec: the type \<open>Storage\<close> of package \<open>controllers\<close>, whose file is
  not among the sources. The specification gives the layout
  \<open><root>/<kind>/<namespace>/<name>/<file>\<close>, says that an artifact exists when there is
  a file at its path, that \<open>RemoveAll\<close> removes the whole subtree of the object, and that
  \<open>GarbageCollect\<close> keeps the current artifact and deletes files of the object that
  are past the retention thresholds. What the specification leaves open is a field of
  the record below: whether an operation fails, which files are past the thresholds,
  and how URLs and local paths are formed.
\<close>

record Storage =
  RemoveAll_error :: "error option"
  GarbageCollect_error :: "error option"
  Expired :: "string \<Rightarrow> bool"
  MkdirAll_error :: "error option"
  Lock_error :: "error option"
  CopyFromPath_result :: "Artifact \<Rightarrow> string \<Rightarrow> error + string"
  Archive_result :: "Artifact \<Rightarrow> string \<Rightarrow> string list \<Rightarrow> error + string"
  Symlink_result :: "Artifact \<Rightarrow> string \<Rightarrow> string \<times> error option"
  ArtifactURL :: "string \<Rightarrow> string"
  SetHostname :: "string \<Rightarrow> string"
  LocalPath :: "Artifact \<Rightarrow> string"

text \<open>
  Modelled from the spec: \<open>SetArtifactURL\<close> gives the artifact the URL under which the
  storage host serves its path. The paths follow the layout
  \<open><kind>/<namespace>/<name>/<file>\<close>, and an artifact exists when its file does.
\<close>

definition SetArtifactURL :: "Storage \<Rightarrow> Artifact \<Rightarrow> Artifact" where
  "SetArtifactURL s artifact = artifact\<lparr>URL := ArtifactURL s (Path artifact)\<rparr>"

definition ArtifactDir :: "string \<Rightarrow> string \<Rightarrow> string \<Rightarrow> string" where
  "ArtifactDir kind namespace name = kind @ ''/'' @ namespace @ ''/'' @ name"

definition ArtifactPath :: "string \<Rightarrow> string \<Rightarrow> string \<Rightarrow> string \<Rightarrow> string" where
  "ArtifactPath kind namespace name filename = ArtifactDir kind namespace name @ ''/'' @ filename"

text \<open>\<open>filepath.Dir\<close> of a path with a directory part: all but the last element.\<close>

definition Dir :: "string \<Rightarrow> string" where
  "Dir p = rev (tl (dropWhile (\<lambda>c. c \<noteq> CHR ''/'') (rev p)))"

definition InDir :: "string \<Rightarrow> string \<Rightarrow> bool" where
  "InDir dir f = HasPrefix f (dir @ ''/'')"

definition NewArtifactFor ::
  "Storage \<Rightarrow> string \<Rightarrow> 'a Object_scheme \<Rightarrow> string \<Rightarrow> string \<Rightarrow> Artifact" where
  "NewArtifactFor s kind obj revision filename =
     SetArtifactURL s
       \<lparr>Path = ArtifactPath kind (Namespace obj) (Name obj) filename, URL = [],
        Revision = revision, Checksum = [], Metadata = None\<rparr>"

definition ArtifactExist :: "World \<Rightarrow> Artifact \<Rightarrow> bool" where
  "ArtifactExist w artifact = (Path artifact \<in> set (Files w))"

text \<open>
  Modelled from the spec: \<open>RemoveAll\<close> returns the directory it deleted (empty when
  there was none) and an error; on success nothing is left below the directory of the
  artifact.
\<close>

definition RemoveAll :: "Storage \<Rightarrow> World \<Rightarrow> Artifact \<Rightarrow> World \<times> string \<times> error option" where
  "RemoveAll s w artifact =
     (let dir = Dir (Path artifact);
          w1 = emit (E_RemoveAll dir) w
      in case RemoveAll_error s of
           Some err \<Rightarrow> (w1, [], Some err)
         | None \<Rightarrow>
             (w1\<lparr>Files := filter (\<lambda>f. \<not> InDir dir f) (Files w1)\<rparr>,
              if (\<exists>f \<in> set (Files w). InDir dir f) then dir else [], None))"

text \<open>
  Modelled from the spec: \<open>GarbageCollect\<close> returns the files it deleted, which are the
  files of the object's directory that are past the thresholds, the current artifact
  excepted.
\<close>

definition GarbageCollect :: "Storage \<Rightarrow> World \<Rightarrow> Artifact \<Rightarrow> World \<times> string list \<times> error option" where
  "GarbageCollect s w artifact =
     (let dir = Dir (Path artifact);
          w1 = emit (E_GarbageCollect dir) w
      in case GarbageCollect_error s of
           Some err \<Rightarrow> (w1, [], Some err)
         | None \<Rightarrow>
             (let deleted = filter (\<lambda>f. InDir dir f \<and> Expired s f \<and> f \<noteq> Path artifact) (Files w1)
              in (w1\<lparr>Files := filter (\<lambda>f. f \<notin> set deleted) (Files w1)\<rparr>, deleted, None)))"

text \<open>
  Modelled from the spec: \<open>CopyFromPath\<close> and \<open>Archive\<close> write the file of the artifact
  and fill in its checksum, which is the answer of the operation; \<open>Symlink\<close> answers with
  the URL of the link.
\<close>

definition CopyFromPath :: "Storage \<Rightarrow> World \<Rightarrow> Artifact \<Rightarrow> string \<Rightarrow> World \<times> (error + Artifact)" where
  "CopyFromPath s w artifact src =
     (let w1 = emit (E_CopyFromPath (Path artifact)) w
      in case CopyFromPath_result s artifact src of
           Inl err \<Rightarrow> (w1, Inl err)
         | Inr checksum \<Rightarrow>
             (w1\<lparr>Files := Files w1 @ [Path artifact]\<rparr>, Inr (artifact\<lparr>Checksum := checksum\<rparr>)))"

definition Archive ::
  "Storage \<Rightarrow> World \<Rightarrow> Artifact \<Rightarrow> string \<Rightarrow> string list \<Rightarrow> World \<times> (error + Artifact)" where
  "Archive s w artifact dir ps =
     (let w1 = emit (E_Archive (Path artifact)) w
      in case Archive_result s artifact dir ps of
           Inl err \<Rightarrow> (w1, Inl err)
         | Inr checksum \<Rightarrow>
             (w1\<lparr>Files := Files w1 @ [Path artifact]\<rparr>, Inr (artifact\<lparr>Checksum := checksum\<rparr>)))"

definition Symlink :: "Storage \<Rightarrow> World \<Rightarrow> Artifact \<Rightarrow> string \<Rightarrow> World \<times> string \<times> error option" where
  "Symlink s w artifact linkName =
     (emit (E_Symlink linkName) w, Symlink_result s artifact linkName)"

subsection \<open>The API server, the helper libraries and the file system\<close>

text \<open>
  Calls that leave the repository are fields of the records below: each field is the
  answer the call gives in the run under consideration. \<open>ProgressiveStatus\<close>,
  \<open>FailureRecovery\<close> and \<open>LowestRequeuingResult\<close> are helpers of package
  \<open>internal/reconcile\<close>, taken as they answer; the first works on the conditions of the
  object. \<open>Summarize\<close> is the answer of the final summary, described with
  \<open>SummarizeAndPatch\<close> below. An operation that returns \<open>(value, error)\<close> is a sum, with
  the error on the left.
\<close>

record ctrl_Result =
  Requeue :: bool
  RequeueAfter :: nat

record 'o Kube =
  Patch :: "'o \<Rightarrow> error option"
  GetSecret :: "string \<Rightarrow> string \<Rightarrow> error + (string \<times> string) list"
  GetServiceAccount :: "string \<Rightarrow> string \<Rightarrow> error + string list"
  ProgressiveStatus ::
    "bool \<Rightarrow> string \<Rightarrow> string \<Rightarrow> int \<Rightarrow> (ConditionType \<Rightarrow> Condition option) \<Rightarrow>
     (ConditionType \<Rightarrow> Condition option)"
  FailureRecovery :: "'o \<Rightarrow> 'o \<Rightarrow> bool"
  LowestRequeuingResult :: "Result \<Rightarrow> Result \<Rightarrow> Result"
  Summarize ::
    "'o \<Rightarrow> Result \<Rightarrow> error option \<Rightarrow>
     (ConditionType \<Rightarrow> Condition option) \<times> bool \<times> ctrl_Result \<times> error option"

record FileSys =
  TempDirForObj :: "error + string"
  Mkdir_error :: "error option"
  Open_error :: "error option"
  Close_error :: "error option"
  Untar :: "string \<Rightarrow> string \<Rightarrow> error option"
  Create :: "string \<Rightarrow> error option"
  Copy :: "string \<Rightarrow> string \<Rightarrow> error option"
  Stat :: "string \<Rightarrow> error + bool"
  LoadIgnorePatterns :: "string \<Rightarrow> error + string list"
  ReadPatterns :: "string \<Rightarrow> string list"

definition progressiveStatus ::
  "'o Kube \<Rightarrow> bool \<Rightarrow> 'a Object_scheme \<Rightarrow> string \<Rightarrow> string \<Rightarrow> 'a Object_scheme" where
  "progressiveStatus k drift obj reason msg =
     obj\<lparr>Status_Conditions := ProgressiveStatus k drift reason msg (Generation obj) (Status_Conditions obj)\<rparr>"



text \<open>Decimal printing of an integer (\<open>strconv.FormatInt(n, 10)\<close>, \<open>%d\<close>).\<close>

function FormatNat :: "nat \<Rightarrow> string" where
  "FormatNat n =
     (if n < 10 then [char_of (48 + n)] else FormatNat (n div 10) @ [char_of (48 + n mod 10)])"
  by pat_completeness auto
termination
  by (relation "measure id") auto

definition FormatInt :: "int \<Rightarrow> string" where
  "FormatInt i = (if i < 0 then CHR ''-'' # FormatNat (nat (- i)) else FormatNat (nat i))"

section \<open>OCIRepository\<close>

record OCIRepositoryRef =
  Ref_Digest :: string
  Ref_SemVer :: string
  Ref_Tag :: string

record OCILayerSelector =
  Layer_MediaType :: string
  Layer_Operation :: string

record OCIRepositoryVerification =
  Verify_Provider :: string
  Verify_SecretRef :: "string option"

record OCIRepository = Object +
  Spec_URL :: string
  Spec_Reference :: "OCIRepositoryRef option"
  Spec_LayerSelector :: "OCILayerSelector option"
  Spec_Provider :: string
  Spec_SecretRef :: "string option"
  Spec_Verify :: "OCIRepositoryVerification option"
  Spec_ServiceAccountName :: string
  Spec_CertSecretRef :: "string option"
  Spec_Insecure :: bool
  Spec_Ignore :: "string option"
  Status_ContentConfigChecksum :: string
  Status_ObservedIgnore :: "string option"
  Status_ObservedLayerSelector :: "OCILayerSelector option"

definition OCILayerExtract :: string where "OCILayerExtract = ''extract''"
definition OCILayerCopy :: string where "OCILayerCopy = ''copy''"

text \<open>
  Modelled from the spec: the accessors of the layer selector (package \<open>api/v1beta2\<close>, not
  among the sources). The media type is empty without a selector, and the operation is
  \<open>extract\<close> unless the selector names another.
\<close>

definition GetLayerMediaType :: "OCIRepository \<Rightarrow> string" where
  "GetLayerMediaType obj =
     (case Spec_LayerSelector obj of None \<Rightarrow> [] | Some l \<Rightarrow> Layer_MediaType l)"

definition GetLayerOperation :: "OCIRepository \<Rightarrow> string" where
  "GetLayerOperation obj =
     (case Spec_LayerSelector obj of
        None \<Rightarrow> OCILayerExtract
      | Some l \<Rightarrow> if Layer_Operation l = [] then OCILayerExtract else Layer_Operation l)"

subsection \<open>The registry\<close>

datatype Keychain = Anonymous | K8sChain string

datatype crane_Option =
    crane_WithContext
  | crane_WithUserAgent
  | crane_Insecure
  | crane_WithTransport string
  | crane_WithAuth string
  | crane_WithAuthFromKeychain Keychain

datatype remote_Option =
    remote_WithTransport string
  | remote_WithAuth string
  | remote_WithAuthFromKeychain Keychain

record remoteOptions =
  craneOpts :: "crane_Option list"
  verifyOpts :: "remote_Option list"

record Reference =
  RegistryStr :: string
  RepositoryStr :: string

definition ContextName :: "Reference \<Rightarrow> string" where
  "ContextName ref = RegistryStr ref @ ''/'' @ RepositoryStr ref"

record ProviderOptions =
  AwsAutoLogin :: bool
  AzureAutoLogin :: bool
  GcpAutoLogin :: bool

record Layer =
  Layer_GetMediaType :: "error + string"
  Layer_Compressed :: "error + string"

record Image =
  Image_Manifest :: "error + (string \<times> string) list option"
  Image_Layers :: "error + Layer list"

record Remote =
  ParseReference :: "string \<Rightarrow> error + Reference"
  ListTags :: "string \<Rightarrow> crane_Option list \<Rightarrow> error + string list"
  Digest :: "string \<Rightarrow> crane_Option list \<Rightarrow> error + string"
  NewHash :: "string \<Rightarrow> error + string"
  Pull :: "string \<Rightarrow> crane_Option list \<Rightarrow> error + Image"
  Login :: "string \<Rightarrow> Reference \<Rightarrow> ProviderOptions \<Rightarrow> error + string option"
  NewFromPullSecrets :: "(string \<times> string) list list \<Rightarrow> error + string"
  X509KeyPair :: "string \<Rightarrow> string \<Rightarrow> error + string"
  SystemCertPool :: "error option"
  verifySignature_result :: "string \<Rightarrow> remote_Option list \<Rightarrow> error option"

record 'v OCIEnv =
  kube :: "OCIRepository Kube"
  fs :: FileSys
  storage :: Storage
  remote :: Remote
  semverLib :: "'v semver"

type_synonym oci_ret = "OCIRepository \<times> Artifact \<times> World \<times> Result \<times> error option"

definition emptyArtifact :: Artifact where
  "emptyArtifact = \<lparr>Path = [], URL = [], Revision = [], Checksum = [], Metadata = None\<rparr>"

subsection \<open>Credentials and transport\<close>

text \<open>
  \<open>keychain\<close>: the names of the pull secrets are a set, listed in sorted order; with no
  name the keychain is the anonymous one.
\<close>

fun lookupPullSecrets ::
  "'v OCIEnv \<Rightarrow> OCIRepository \<Rightarrow> World \<Rightarrow> string list \<Rightarrow> World \<times> (error + (string \<times> string) list list)" where
  "lookupPullSecrets env obj w [] = (w, Inr [])"
| "lookupPullSecrets env obj w (n # ns) =
     (case GetSecret (kube env) (Namespace obj) n of
        Inl err \<Rightarrow> (eventLogf w EventTypeTrace AuthenticationFailedReason, Inl err)
      | Inr secret \<Rightarrow>
          (case lookupPullSecrets env obj w ns of
             (w1, Inl err) \<Rightarrow> (w1, Inl err)
           | (w1, Inr secrets) \<Rightarrow> (w1, Inr (secret # secrets))))"

definition keychain :: "'v OCIEnv \<Rightarrow> OCIRepository \<Rightarrow> World \<Rightarrow> World \<times> (error + Keychain)" where
  "keychain env obj w =
     (let fromSecretRef = (case Spec_SecretRef obj of None \<Rightarrow> [] | Some n \<Rightarrow> [n])
      in case (if Spec_ServiceAccountName obj \<noteq> []
               then (case GetServiceAccount (kube env) (Namespace obj) (Spec_ServiceAccountName obj) of
                       Inl err \<Rightarrow> Inl err
                     | Inr ips \<Rightarrow> Inr (fromSecretRef @ ips))
               else Inr fromSecretRef) of
           Inl err \<Rightarrow> (w, Inl err)
         | Inr names \<Rightarrow>
             (let pullSecretNames = sort (remdups names)
              in if length pullSecretNames = 0 then (w, Inr Anonymous)
                 else (case lookupPullSecrets env obj w pullSecretNames of
                         (w1, Inl err) \<Rightarrow> (w1, Inl err)
                       | (w1, Inr imagePullSecrets) \<Rightarrow>
                           (w1, case NewFromPullSecrets (remote env) imagePullSecrets of
                                  Inl err \<Rightarrow> Inl err
                                | Inr k \<Rightarrow> Inr (K8sChain k)))))"

definition ClientCert :: string where "ClientCert = ''certFile''"
definition ClientKey :: string where "ClientKey = ''keyFile''"
definition CACert :: string where "CACert = ''caFile''"

text \<open>\<open>transport\<close>: no transport without a certificate secret; the result names the transport.\<close>

definition transport :: "'v OCIEnv \<Rightarrow> OCIRepository \<Rightarrow> error + string option" where
  "transport env obj =
     (case Spec_CertSecretRef obj of
        None \<Rightarrow> Inr None
      | Some n \<Rightarrow>
          if n = [] then Inr None
          else (case GetSecret (kube env) (Namespace obj) n of
                  Inl err \<Rightarrow> Inl err
                | Inr certSecret \<Rightarrow>
                    (case (case map_of certSecret ClientCert of
                             None \<Rightarrow> Inr []
                           | Some clientCert \<Rightarrow>
                               (case map_of certSecret ClientKey of
                                  Some clientKey \<Rightarrow> X509KeyPair (remote env) clientCert clientKey
                                | None \<Rightarrow> Inl (New (ClientCert @ '' found in secret, but no '' @ ClientKey)))) of
                       Inl err \<Rightarrow> Inl err
                     | Inr cert \<Rightarrow>
                         (case map_of certSecret CACert of
                            None \<Rightarrow> Inr (Some (''transport:'' @ cert))
                          | Some caCert \<Rightarrow>
                              (case SystemCertPool (remote env) of
                                 Some err \<Rightarrow> Inl err
                               | None \<Rightarrow> Inr (Some (''transport:'' @ cert @ '':'' @ caCert)))))))"

text \<open>
  \<open>oidcAuth\<close>: the login manager answers with an authenticator, with none, or with an
  error (and then no authenticator).
\<close>

definition oidcAuth :: "Remote \<Rightarrow> string \<Rightarrow> string \<Rightarrow> error + string option" where
  "oidcAuth r url provider =
     (let u = TrimPrefix url OCIRepositoryPrefix
      in case ParseReference r u of
           Inl err \<Rightarrow> Inl (Errorf (''failed to parse URL '' @ u @ '': '') err)
         | Inr ref \<Rightarrow>
             Login r u ref
               \<lparr>AwsAutoLogin = (provider = AmazonOCIProvider),
                AzureAutoLogin = (provider = AzureOCIProvider),
                GcpAutoLogin = (provider = GoogleOCIProvider)\<rparr>)"

definition craneOptions :: "bool \<Rightarrow> crane_Option list" where
  "craneOptions insecure =
     [crane_WithContext, crane_WithUserAgent] @ (if insecure then [crane_Insecure] else [])"

definition makeRemoteOptions ::
  "OCIRepository \<Rightarrow> string option \<Rightarrow> Keychain \<Rightarrow> string option \<Rightarrow> remoteOptions" where
  "makeRemoteOptions obj rt kc auth =
     (let opts0 = \<lparr>craneOpts = craneOptions (Spec_Insecure obj), verifyOpts = []\<rparr>;
          opts1 = (case rt of
                     None \<Rightarrow> opts0
                   | Some t \<Rightarrow> \<lparr>craneOpts = craneOpts opts0 @ [crane_WithTransport t],
                                verifyOpts = verifyOpts opts0 @ [remote_WithTransport t]\<rparr>)
      in case auth of
           Some a \<Rightarrow> \<lparr>craneOpts = craneOpts opts1 @ [crane_WithAuth a],
                       verifyOpts = verifyOpts opts1 @ [remote_WithAuth a]\<rparr>
         | None \<Rightarrow> \<lparr>craneOpts = craneOpts opts1 @ [crane_WithAuthFromKeychain kc],
                     verifyOpts = verifyOpts opts1 @ [remote_WithAuthFromKeychain kc]\<rparr>)"

subsection \<open>Which artifact to pull\<close>

definition parseRepositoryURL :: "Remote \<Rightarrow> OCIRepository \<Rightarrow> error + string" where
  "parseRepositoryURL r obj =
     (if \<not> HasPrefix (Spec_URL obj) OCIRepositoryPrefix
      then Inl (New ''URL must be in format oci://<domain>/<org>/<repo>'')
      else (let url = TrimPrefix (Spec_URL obj) OCIRepositoryPrefix
            in case ParseReference r url of
                 Inl err \<Rightarrow> Inl err
               | Inr ref \<Rightarrow>
                   (let imageName = TrimPrefix url (RegistryStr ref);
                        s = Split imageName (CHR '':'')
                    in if length s > 1
                       then Inl (New (''URL must not contain a tag; remove :'' @ s ! 1))
                       else Inr (ContextName ref))))"

definition getArtifactURL ::
  "'v semver \<Rightarrow> Remote \<Rightarrow> OCIRepository \<Rightarrow> crane_Option list \<Rightarrow> error + string" where
  "getArtifactURL lib r obj options =
     (case parseRepositoryURL r obj of
        Inl err \<Rightarrow> Inl (invalidOCIURLError err)
      | Inr url \<Rightarrow>
          (case Spec_Reference obj of
             None \<Rightarrow> Inr url
           | Some ref \<Rightarrow>
               if Ref_Digest ref \<noteq> [] then Inr (url @ ''@'' @ Ref_Digest ref)
               else if Ref_SemVer ref \<noteq> [] then
                 (case getTagBySemver lib (\<lambda>u. ListTags r u options) url (Ref_SemVer ref) of
                    Inl err \<Rightarrow> Inl err
                  | Inr tag \<Rightarrow> Inr (url @ '':'' @ tag))
               else if Ref_Tag ref \<noteq> [] then Inr (url @ '':'' @ Ref_Tag ref)
               else Inr url))"

definition getRevision :: "Remote \<Rightarrow> string \<Rightarrow> crane_Option list \<Rightarrow> error + string" where
  "getRevision r url options =
     (case ParseReference r url of
        Inl err \<Rightarrow> Inl err
      | Inr ref \<Rightarrow>
          (let repoName = TrimPrefix url (RegistryStr ref);
               s = Split repoName (CHR '':'');
               repoTag0 = (if length s = 2 \<and> \<not> Contains repoName (CHR ''@'') then s ! 1 else []);
               repoTag = (if repoTag0 = [] \<and> \<not> Contains repoName (CHR ''@'') then ''latest'' else repoTag0)
           in case Digest r url options of
                Inl err \<Rightarrow> Inl err
              | Inr digest \<Rightarrow>
                  (case NewHash r digest of
                     Inl err \<Rightarrow> Inl err
                   | Inr hex \<Rightarrow> Inr (if repoTag \<noteq> [] then repoTag @ ''/'' @ hex else hex))))"

definition digestFromRevision :: "string \<Rightarrow> string" where
  "digestFromRevision revision = last (Split revision (CHR ''/''))"

text \<open>
  \<open>verifySignature\<close> asks the verifier of the provider about the reference; what leaves
  the process is the verification call, and its answer is the result.
\<close>

definition verifySignature ::
  "Remote \<Rightarrow> World \<Rightarrow> OCIRepository \<Rightarrow> string \<Rightarrow> remote_Option list \<Rightarrow> World \<times> error option" where
  "verifySignature r w obj url opt =
     (emit (E_VerifySignature url) w, verifySignature_result r url opt)"

definition layerSelectorEqual :: "OCILayerSelector option \<Rightarrow> OCILayerSelector option \<Rightarrow> bool" where
  "layerSelectorEqual a b =
     (if (a = None) \<noteq> (b = None) then False
      else if a = None then True
      else the a = the b)"

definition ociContentConfigChanged :: "OCIRepository \<Rightarrow> bool" where
  "ociContentConfigChanged obj =
     (if Spec_Ignore obj \<noteq> Status_ObservedIgnore obj then True
      else if \<not> layerSelectorEqual (Spec_LayerSelector obj) (Status_ObservedLayerSelector obj) then True
      else False)"

subsection \<open>Typed errors and the failure returns\<close>

fun errReason :: "error \<Rightarrow> string" where
  "errReason (Generic e r) = r"
| "errReason (Stalling e r) = r"
| "errReason (Event e r) = r"
| "errReason e = []"

text \<open>
  The recurring return of the OCIRepository phases: record the error \<open>e\<close> on the
  condition \<open>t\<close> with its reason and message, and return the empty result with \<open>e\<close>.
\<close>

definition failWith :: "ConditionType \<Rightarrow> OCIRepository \<Rightarrow> Artifact \<Rightarrow> World \<Rightarrow> error \<Rightarrow> oci_ret" where
  "failWith t obj metadata w e =
     (MarkTrue obj t (errReason e) (Error e), metadata, w, ResultEmpty, Some e)"

subsection \<open>Garbage collection, deletion and the storage phase\<close>

definition OCI_garbageCollect ::
  "'v OCIEnv \<Rightarrow> OCIRepository \<Rightarrow> World \<Rightarrow> OCIRepository \<times> World \<times> error option" where
  "OCI_garbageCollect env obj w =
     (if \<not> IsZero (DeletionTimestamp obj) then
        (case RemoveAll (storage env) w (NewArtifactFor (storage env) (Kind obj) obj [] ''*'') of
           (w1, deleted, Some err) \<Rightarrow>
             (obj, w1,
              Some (Generic (Errorf ''garbage collection for deleted resource failed: '' err)
                      ''GarbageCollectionFailed''))
         | (w1, deleted, None) \<Rightarrow>
             (obj\<lparr>Status_Artifact := None\<rparr>,
              if deleted \<noteq> [] then eventLogf w1 EventTypeTrace ''GarbageCollectionSucceeded'' else w1,
              None))
      else
        (case Status_Artifact obj of
           None \<Rightarrow> (obj, w, None)
         | Some a \<Rightarrow>
             (case GarbageCollect (storage env) w a of
                (w1, delFiles, Some err) \<Rightarrow>
                  (obj, w1,
                   Some (Generic (Errorf ''garbage collection of artifacts failed: '' err)
                           ''GarbageCollectionFailed''))
              | (w1, delFiles, None) \<Rightarrow>
                  (obj,
                   if length delFiles > 0 then eventLogf w1 EventTypeTrace ''GarbageCollectionSucceeded''
                   else w1,
                   None))))"

definition OCI_reconcileDelete ::
  "'v OCIEnv \<Rightarrow> OCIRepository \<Rightarrow> World \<Rightarrow> OCIRepository \<times> World \<times> Result \<times> error option" where
  "OCI_reconcileDelete env obj w =
     (case OCI_garbageCollect env obj w of
        (obj1, w1, Some err) \<Rightarrow> (obj1, w1, ResultEmpty, Some err)
      | (obj1, w1, None) \<Rightarrow> (RemoveFinalizer obj1 SourceFinalizer, w1, ResultEmpty, None))"

definition OCI_reconcileStorage ::
  "'v OCIEnv \<Rightarrow> OCIRepository \<Rightarrow> Artifact \<Rightarrow> string \<Rightarrow> World \<Rightarrow> oci_ret" where
  "OCI_reconcileStorage env obj metadata dir w =
     (case OCI_garbageCollect env obj w of
        (obj1, w1, _) \<Rightarrow>
          (let artifactMissing =
                 (case Status_Artifact obj1 of None \<Rightarrow> False | Some a \<Rightarrow> \<not> ArtifactExist w1 a);
               obj2 = (if artifactMissing
                       then Delete (obj1\<lparr>Status_Artifact := None, Status_URL := []\<rparr>)
                              ArtifactInStorageCondition
                       else obj1)
           in case Status_Artifact obj2 of
                None \<Rightarrow>
                  (let msg = ''building artifact'' @
                             (if artifactMissing then '': disappeared from storage'' else []);
                       obj3 = Delete (progressiveStatus (kube env) True obj2 ProgressingReason msg)
                                ArtifactInStorageCondition;
                       w2 = emit (E_Patch False) w1
                   in case Patch (kube env) obj3 of
                        Some err \<Rightarrow> (obj3, metadata, w2, ResultEmpty, Some err)
                      | None \<Rightarrow> (obj3, metadata, w2, ResultSuccess, None))
              | Some a \<Rightarrow>
                  (obj2\<lparr>Status_Artifact := Some (SetArtifactURL (storage env) a),
                        Status_URL := SetHostname (storage env) (Status_URL obj2)\<rparr>,
                   metadata, w1, ResultSuccess, None)))"

subsection \<open>The source phase\<close>

fun findLayer :: "string \<Rightarrow> Layer list \<Rightarrow> nat \<Rightarrow> error + Layer" where
  "findLayer mediaType [] i =
     Inl (New (''failed to find layer with media type '' @ mediaType @ '' in artifact''))"
| "findLayer mediaType (l # ls) i =
     (case Layer_GetMediaType l of
        Inl err \<Rightarrow>
          Inl (Errorf (''failed to determine the media type of layer['' @ FormatNat i @ ''] from artifact: '') err)
      | Inr md \<Rightarrow> if md = mediaType then Inr l else findLayer mediaType ls (Suc i))"

definition selectLayer :: "OCIRepository \<Rightarrow> Image \<Rightarrow> error + string" where
  "selectLayer obj img =
     (case Image_Layers img of
        Inl err \<Rightarrow> Inl (Errorf ''failed to parse artifact layers: '' err)
      | Inr layers \<Rightarrow>
          (case layers of
             [] \<Rightarrow> Inl (New ''no layers found in artifact'')
           | first # _ \<Rightarrow>
               (case (if GetLayerMediaType obj \<noteq> [] then findLayer (GetLayerMediaType obj) layers 0
                      else Inr first) of
                  Inl err \<Rightarrow> Inl err
                | Inr layer \<Rightarrow>
                    (case Layer_Compressed layer of
                       Inl err \<Rightarrow> Inl (Errorf ''failed to extract the first layer from artifact: '' err)
                     | Inr blob \<Rightarrow> Inr blob))))"

text \<open>Pulling the artifact and persisting the selected layer in the working directory.\<close>

definition OCI_pull ::
  "'v OCIEnv \<Rightarrow> OCIRepository \<Rightarrow> Artifact \<Rightarrow> string \<Rightarrow> World \<Rightarrow> string \<Rightarrow> remoteOptions \<Rightarrow> oci_ret" where
  "OCI_pull env obj metadata dir w url opts =
     (let w1 = emit (E_Pull url) w
      in case Pull (remote env) url (craneOpts opts) of
           Inl err \<Rightarrow>
             failWith FetchFailedCondition obj metadata w1
               (Generic (Errorf (''failed to pull artifact from '' @ Spec_URL obj @ '': '') err)
                  OCIPullFailedReason)
         | Inr img \<Rightarrow>
             (case Image_Manifest img of
                Inl err \<Rightarrow>
                  failWith FetchFailedCondition obj metadata w1
                    (Generic (Errorf ''failed to parse artifact manifest: '' err)
                       OCILayerOperationFailedReason)
              | Inr annotations \<Rightarrow>
                  (let metadata1 = metadata\<lparr>Metadata := annotations\<rparr>
                   in case selectLayer obj img of
                        Inl err \<Rightarrow>
                          failWith FetchFailedCondition obj metadata1 w1
                            (Generic err OCILayerOperationFailedReason)
                      | Inr blob \<Rightarrow>
                          if GetLayerOperation obj = OCILayerExtract then
                            (case Untar (fs env) blob dir of
                               Some err \<Rightarrow>
                                 failWith FetchFailedCondition obj metadata1 w1
                                   (Generic (Errorf ''failed to extract layer contents from artifact: '' err)
                                      OCILayerOperationFailedReason)
                             | None \<Rightarrow>
                                 (Delete obj FetchFailedCondition, metadata1, w1, ResultSuccess, None))
                          else if GetLayerOperation obj = OCILayerCopy then
                            (let metadata2 =
                                   metadata1\<lparr>Path := digestFromRevision (Revision metadata1) @ ''.tgz''\<rparr>
                             in case Create (fs env) (dir @ ''/'' @ Path metadata2) of
                                  Some err \<Rightarrow>
                                    failWith FetchFailedCondition obj metadata2 w1
                                      (Generic (Errorf ''failed to create file to copy layer to: '' err)
                                         OCILayerOperationFailedReason)
                                | None \<Rightarrow>
                                    (case Copy (fs env) (dir @ ''/'' @ Path metadata2) blob of
                                       Some err \<Rightarrow>
                                         failWith FetchFailedCondition obj metadata2 w1
                                           (Generic (Errorf ''failed to copy layer from artifact: '' err)
                                              OCILayerOperationFailedReason)
                                     | None \<Rightarrow>
                                         (Delete obj FetchFailedCondition, metadata2, w1,
                                          ResultSuccess, None)))
                          else
                            failWith FetchFailedCondition obj metadata1 w1
                              (Generic (New (''unsupported layer operation: '' @ GetLayerOperation obj))
                                 OCILayerOperationFailedReason))))"

text \<open>
  Verification and the decision to pull. Verification is due when the revision is new,
  when the condition was observed at another generation, or when it is false.
\<close>

definition verificationDue :: "OCIRepository \<Rightarrow> string \<Rightarrow> bool" where
  "verificationDue obj revision =
     (\<not> HasRevision (Status_Artifact obj) revision \<or>
      GetObservedGeneration obj SourceVerifiedCondition \<noteq> Generation obj \<or>
      IsFalse obj SourceVerifiedCondition)"

definition OCI_fetch ::
  "'v OCIEnv \<Rightarrow> OCIRepository \<Rightarrow> Artifact \<Rightarrow> string \<Rightarrow> World \<Rightarrow> string \<Rightarrow> string \<Rightarrow> remoteOptions \<Rightarrow>
   oci_ret" where
  "OCI_fetch env obj metadata dir w url revision opts =
     (if HasRevision (Status_Artifact obj) revision \<and> \<not> ociContentConfigChanged obj
      then (Delete obj FetchFailedCondition, metadata, w, ResultSuccess, None)
      else OCI_pull env obj metadata dir w url opts)"

definition OCI_verify ::
  "'v OCIEnv \<Rightarrow> OCIRepository \<Rightarrow> Artifact \<Rightarrow> string \<Rightarrow> World \<Rightarrow> string \<Rightarrow> string \<Rightarrow> remoteOptions \<Rightarrow>
   oci_ret" where
  "OCI_verify env obj metadata dir w url revision opts =
     (case Spec_Verify obj of
        None \<Rightarrow>
          OCI_fetch env (Delete obj SourceVerifiedCondition) metadata dir w url revision opts
      | Some verify \<Rightarrow>
          if verificationDue obj revision then
            (if Spec_Insecure obj then
               (let e = Generic (New ''cosign does not support insecure registries'') VerificationError
                in (MarkFalse obj SourceVerifiedCondition (errReason e) (Error e),
                    metadata, w, ResultEmpty, Some e))
             else
               (case verifySignature (remote env) w obj url (verifyOpts opts) of
                  (w1, Some err) \<Rightarrow>
                    (let provider = (if Verify_SecretRef verify = None
                                     then Verify_Provider verify @ '' keyless''
                                     else Verify_Provider verify);
                         e = Generic (Errorf (''failed to verify the signature using provider '' @
                                              provider @ '': '') err) VerificationError
                     in (MarkFalse obj SourceVerifiedCondition (errReason e) (Error e),
                         metadata, w1, ResultEmpty, Some e))
                | (w1, None) \<Rightarrow>
                    OCI_fetch env
                      (MarkTrue obj SourceVerifiedCondition SucceededReason
                         (''verified signature of revision '' @ revision))
                      metadata dir w1 url revision opts))
          else OCI_fetch env obj metadata dir w url revision opts)"

text \<open>
  The deferred observation of the revision, which runs on every return after the
  revision is known; an error of its patch is only logged.
\<close>

definition OCI_observeRevision ::
  "'v OCIEnv \<Rightarrow> string \<Rightarrow> string \<Rightarrow> oci_ret \<Rightarrow> oci_ret" where
  "OCI_observeRevision env url revision ret =
     (case ret of
        (obj, metadata, w, res, err) \<Rightarrow>
          if \<not> HasRevision (Status_Artifact obj) revision then
            (let message = ''new revision '' @ revision @ '' for '' @ url;
                 obj1 = (if Status_Artifact obj \<noteq> None
                         then MarkTrue obj ArtifactOutdatedCondition ''NewRevision'' message
                         else obj);
                 obj2 = progressiveStatus (kube env) True obj1 ProgressingReason
                          (''building artifact: '' @ message)
             in (obj2, metadata, emit (E_Patch False) w, res, err))
          else (obj, metadata, w, res, err))"

definition OCI_resolve ::
  "'v OCIEnv \<Rightarrow> OCIRepository \<Rightarrow> Artifact \<Rightarrow> string \<Rightarrow> World \<Rightarrow> Keychain \<Rightarrow> string option \<Rightarrow> oci_ret" where
  "OCI_resolve env obj metadata dir w kc auth =
     (case transport env obj of
        Inl err \<Rightarrow>
          failWith FetchFailedCondition obj metadata w
            (Generic (Errorf (''failed to generate transport for '' @ Spec_URL obj @ '': '') err)
               AuthenticationFailedReason)
      | Inr rt \<Rightarrow>
          (let opts = makeRemoteOptions obj rt kc auth
           in case getArtifactURL (semverLib env) (remote env) obj (craneOpts opts) of
                Inl err \<Rightarrow>
                  (case err of
                     invalidOCIURLError _ \<Rightarrow>
                       failWith FetchFailedCondition obj metadata w
                         (Stalling (Errorf (''URL validation failed for '' @ Spec_URL obj @ '': '') err)
                            URLInvalidReason)
                   | _ \<Rightarrow>
                       failWith FetchFailedCondition obj metadata w
                         (Generic (Errorf (''failed to determine the artifact tag for '' @
                                           Spec_URL obj @ '': '') err)
                            ReadOperationFailedReason))
              | Inr url \<Rightarrow>
                  (case getRevision (remote env) url (craneOpts opts) of
                     Inl err \<Rightarrow>
                       failWith FetchFailedCondition obj metadata w
                         (Generic (Errorf ''failed to determine artifact digest: '' err)
                            OCIPullFailedReason)
                   | Inr revision \<Rightarrow>
                       OCI_observeRevision env url revision
                         (OCI_verify env obj (emptyArtifact\<lparr>Revision := revision\<rparr>) dir w
                            url revision opts))))"

definition OCI_reconcileSource ::
  "'v OCIEnv \<Rightarrow> OCIRepository \<Rightarrow> Artifact \<Rightarrow> string \<Rightarrow> World \<Rightarrow> oci_ret" where
  "OCI_reconcileSource env obj metadata dir w =
     (let obj1 = (if IsFalse obj SourceVerifiedCondition then Delete obj SourceVerifiedCondition
                  else obj)
      in case keychain env obj1 w of
           (w1, Inl err) \<Rightarrow>
             failWith FetchFailedCondition obj1 metadata w1
               (Generic (Errorf ''failed to get credential: '' err) AuthenticationFailedReason)
         | (w1, Inr kc) \<Rightarrow>
             if Spec_Provider obj1 \<noteq> GenericOCIProvider \<and> kc = Anonymous then
               (case oidcAuth (remote env) (Spec_URL obj1) (Spec_Provider obj1) of
                  Inl authErr \<Rightarrow>
                    if \<not> errors_Is authErr ErrUnconfiguredProvider then
                      failWith FetchFailedCondition obj1 metadata w1
                        (Generic (Errorf (''failed to get credential from '' @ Spec_Provider obj1 @ '': '')
                                    authErr) AuthenticationFailedReason)
                    else OCI_resolve env obj1 metadata dir w1 kc None
                | Inr auth \<Rightarrow> OCI_resolve env obj1 metadata dir w1 kc auth)
             else OCI_resolve env obj1 metadata dir w1 kc None)"

subsection \<open>The artifact phase\<close>

text \<open>
  The body of \<open>reconcileArtifact\<close> up to its return, with the artifact as it is at the
  return: \<open>CopyFromPath\<close> and \<open>Archive\<close> update the artifact they are given.
\<close>

definition OCI_archive ::
  "'v OCIEnv \<Rightarrow> OCIRepository \<Rightarrow> Artifact \<Rightarrow> string \<Rightarrow> World \<Rightarrow> Artifact \<Rightarrow> oci_ret \<times> Artifact" where
  "OCI_archive env obj metadata dir w artifact =
     (if HasRevision (Status_Artifact obj) (Revision artifact) \<and> \<not> ociContentConfigChanged obj then
        ((obj, metadata, eventLogf w EventTypeTrace ArtifactUpToDateReason, ResultSuccess, None),
         artifact)
      else
        (case Stat (fs env) dir of
           Inl err \<Rightarrow>
             (failWith StorageOperationFailedCondition obj metadata w
                (Generic (Errorf ''failed to stat source path: '' err) StatOperationFailedReason),
              artifact)
         | Inr isDir \<Rightarrow>
             if \<not> isDir then
               (failWith StorageOperationFailedCondition obj metadata w
                  (Generic (New (''source path '' @ dir @ '' is not a directory'')) InvalidPathReason),
                artifact)
             else
               (case MkdirAll_error (storage env) of
                  Some err \<Rightarrow>
                    (failWith StorageOperationFailedCondition obj metadata w
                       (Generic (Errorf ''failed to create artifact directory: '' err)
                          DirCreationFailedReason),
                     artifact)
                | None \<Rightarrow>
                    (case Lock_error (storage env) of
                       Some err \<Rightarrow>
                         ((obj, metadata, w, ResultEmpty,
                           Some (Generic (Errorf ''failed to acquire lock for artifact: '' err)
                                   FailedReason)),
                          artifact)
                     | None \<Rightarrow>
                         (case (if GetLayerOperation obj = OCILayerCopy then
                                  (case CopyFromPath (storage env) w artifact (dir @ ''/'' @ Path metadata) of
                                     (w1, Inl err) \<Rightarrow>
                                       Inl (failWith StorageOperationFailedCondition obj metadata w1
                                              (Generic (Errorf ''unable to copy artifact to storage: '' err)
                                                 ArchiveOperationFailedReason))
                                   | (w1, Inr a) \<Rightarrow> Inr (w1, a))
                                else
                                  (case LoadIgnorePatterns (fs env) dir of
                                     Inl err \<Rightarrow>
                                       Inl (obj, metadata, w, ResultEmpty,
                                            Some (Generic
                                                    (Errorf ''failed to load source ignore patterns from repository: '' err)
                                                    ''SourceIgnoreError''))
                                   | Inr ps0 \<Rightarrow>
                                       (let ps = (case Spec_Ignore obj of
                                                    None \<Rightarrow> ps0
                                                  | Some ign \<Rightarrow> ps0 @ ReadPatterns (fs env) ign)
                                        in case Archive (storage env) w artifact dir ps of
                                             (w1, Inl err) \<Rightarrow>
                                               Inl (failWith StorageOperationFailedCondition obj metadata w1
                                                      (Generic (New (''unable to archive artifact to storage: '' @ Error err))
                                                         ArchiveOperationFailedReason))
                                           | (w1, Inr a) \<Rightarrow> Inr (w1, a)))) of
                            Inl ret \<Rightarrow> (ret, artifact)
                          | Inr (w1, artifact1) \<Rightarrow>
                              (let obj1 = obj\<lparr>Status_Artifact := Some (artifact1\<lparr>Metadata := Metadata metadata\<rparr>),
                                              Status_ContentConfigChecksum := [],
                                              Status_ObservedIgnore := Spec_Ignore obj,
                                              Status_ObservedLayerSelector := Spec_LayerSelector obj\<rparr>
                               in case Symlink (storage env) w1 artifact1 ''latest.tar.gz'' of
                                    (w2, url, err) \<Rightarrow>
                                      (let w3 = (if err \<noteq> None
                                                 then eventLogf w2 EventTypeTrace SymlinkUpdateFailedReason
                                                 else w2);
                                           obj2 = (if url \<noteq> [] then obj1\<lparr>Status_URL := url\<rparr> else obj1)
                                       in ((Delete obj2 StorageOperationFailedCondition, metadata, w3,
                                            ResultSuccess, None),
                                           artifact1))))))))"

definition OCI_reconcileArtifact ::
  "'v OCIEnv \<Rightarrow> OCIRepository \<Rightarrow> Artifact \<Rightarrow> string \<Rightarrow> World \<Rightarrow> oci_ret" where
  "OCI_reconcileArtifact env obj metadata dir w =
     (let revision = Revision metadata;
          artifact = NewArtifactFor (storage env) (Kind obj) obj revision
                       (digestFromRevision revision @ ''.tar.gz'')
      in case OCI_archive env obj metadata dir w artifact of
           ((obj1, metadata1, w1, res, err), artifact1) \<Rightarrow>
             ((if HasRevision (Status_Artifact obj1) (Revision artifact1) \<and> \<not> ociContentConfigChanged obj1
               then MarkTrue (Delete obj1 ArtifactOutdatedCondition) ArtifactInStorageCondition
                      SucceededReason (''stored artifact for digest '' @ Revision artifact1)
               else obj1),
              metadata1, w1, res, err))"

subsection \<open>The reconciliation of an OCIRepository\<close>

definition OCI_notify ::
  "'v OCIEnv \<Rightarrow> OCIRepository \<Rightarrow> OCIRepository \<Rightarrow> Result \<Rightarrow> error option \<Rightarrow> World \<Rightarrow> World" where
  "OCI_notify env oldObj newObj res resErr w =
     (case Status_Artifact newObj of
        None \<Rightarrow> w
      | Some newArtifact \<Rightarrow>
          if resErr = None \<and> res = ResultSuccess then
            (let oldChecksum = (case Status_Artifact oldObj of None \<Rightarrow> [] | Some a \<Rightarrow> Checksum a)
             in if oldChecksum \<noteq> Checksum newArtifact
                then emit (E_Event EventTypeNormal ''NewArtifact'') w
                else if FailureRecovery (kube env) oldObj newObj
                     then emit (E_Event EventTypeNormal SucceededReason) w
                     else w)
          else w)"

type_synonym 'v ociRepositoryReconcileFunc =
  "'v OCIEnv \<Rightarrow> OCIRepository \<Rightarrow> Artifact \<Rightarrow> string \<Rightarrow> World \<Rightarrow> oci_ret"

text \<open>
  The loop over the sub-reconcilers. The last component tells whether the loop was left
  by the immediate return on \<open>ResultRequeue\<close>.
\<close>

fun OCI_runReconcilers ::
  "'v OCIEnv \<Rightarrow> 'v ociRepositoryReconcileFunc list \<Rightarrow> string \<Rightarrow> OCIRepository \<Rightarrow> Artifact \<Rightarrow>
   World \<Rightarrow> Result \<Rightarrow> oci_ret \<times> bool" where
  "OCI_runReconcilers env [] dir obj metadata w res = ((obj, metadata, w, res, None), False)"
| "OCI_runReconcilers env (rec # recs) dir obj metadata w res =
     (case rec env obj metadata dir w of
        (obj1, metadata1, w1, recResult, err) \<Rightarrow>
          if recResult = ResultRequeue then ((obj1, metadata1, w1, ResultRequeue, None), True)
          else (case err of
                  Some e \<Rightarrow> ((obj1, metadata1, w1, recResult, Some e), False)
                | None \<Rightarrow>
                    OCI_runReconcilers env recs dir obj1 metadata1 w1
                      (LowestRequeuingResult (kube env) res recResult)))"

definition OCI_reconcile ::
  "'v OCIEnv \<Rightarrow> OCIRepository \<Rightarrow> World \<Rightarrow> 'v ociRepositoryReconcileFunc list \<Rightarrow>
   OCIRepository \<times> World \<times> Result \<times> error option" where
  "OCI_reconcile env obj w reconcilers =
     (let oldObj = obj;
          obj1 = progressiveStatus (kube env) False obj ProgressingReason ''reconciliation in progress'';
          reconcileAtVal = (case ReconcileAnnotationValue (Annotations obj1) of None \<Rightarrow> [] | Some v \<Rightarrow> v)
      in case (if Generation obj1 \<noteq> Status_ObservedGeneration obj1 then
                 (let obj2 = progressiveStatus (kube env) False obj1 ProgressingReason
                               (''processing object: new generation '' @
                                FormatInt (Status_ObservedGeneration obj1) @ '' -> '' @
                                FormatInt (Generation obj1))
                  in (obj2, emit (E_Patch False) w, Patch (kube env) obj2))
               else if reconcileAtVal \<noteq> Status_LastHandledReconcileAt obj1 then
                 (obj1, emit (E_Patch False) w, Patch (kube env) obj1)
               else (obj1, w, None)) of
           (obj2, w1, Some err) \<Rightarrow> (obj2, w1, ResultEmpty, Some err)
         | (obj2, w1, None) \<Rightarrow>
             (case TempDirForObj (fs env) of
                Inl err \<Rightarrow>
                  (let e = Generic (Errorf ''failed to create temporary working directory: '' err)
                             DirCreationFailedReason
                   in (MarkTrue obj2 StorageOperationFailedCondition (errReason e) (Error e),
                       w1, ResultEmpty, Some e))
              | Inr tmpDir \<Rightarrow>
                  (case OCI_runReconcilers env reconcilers tmpDir
                          (Delete obj2 StorageOperationFailedCondition) emptyArtifact w1 ResultEmpty of
                     ((obj3, metadata, w2, res, resErr), requeue) \<Rightarrow>
                       if requeue then (obj3, w2, ResultRequeue, None)
                       else (obj3, OCI_notify env oldObj obj3 res resErr w2, res, resErr))))"


section \<open>HelmRepository of type OCI\<close>

record HelmRepository = Object +
  HR_Spec_URL :: string
  HR_Spec_Type :: string
  HR_Spec_Provider :: string
  HR_Spec_SecretRef :: "string option"
  HR_Spec_Interval :: nat
  HR_Spec_PassCredentials :: bool

text \<open>
  Modelled from the spec: \<open>GetRequeueAfter\<close> (package \<open>api/v1beta2\<close>, not among the
  sources) is the interval of the object.
\<close>

definition GetRequeueAfter :: "HelmRepository \<Rightarrow> nat" where
  "GetRequeueAfter obj = HR_Spec_Interval obj"

text \<open>
  The Helm libraries and the helpers of package \<open>internal/helm\<close>, whose sources are not at
  hand, as the answers they give: the login option made from a secret, an authenticator
  or a keychain (\<open>None\<close> for a nil keychain), the registry client with its credentials
  file, the chart repositories, their login, the removal of the credentials file and the
  parse of a URL (its scheme). \<open>IsOCI\<close> is the test for the scheme \<open>oci://\<close>.
\<close>

record HelmLib =
  NormalizeURL :: "string \<Rightarrow> string"
  url_Parse :: "string \<Rightarrow> error + string"
  LoginOptionFromSecret :: "string \<Rightarrow> (string \<times> string) list \<Rightarrow> error + string option"
  ClientOptionsFromSecret :: "(string \<times> string) list \<Rightarrow> error + string list"
  TLSClientConfigFromSecret :: "(string \<times> string) list \<Rightarrow> string \<Rightarrow> error + string option"
  AuthAdaptHelper :: "string \<Rightarrow> error + string"
  KeychainAdaptHelper :: "string \<Rightarrow> string \<Rightarrow> error + string"
  RegistryClientGenerator :: "bool \<Rightarrow> error + string \<times> string"
  NewOCIChartRepository :: "string \<Rightarrow> string \<Rightarrow> error + string"
  NewChartRepository :: "string \<Rightarrow> string \<Rightarrow> error + string"
  ChartRepository_Login :: "string \<Rightarrow> string \<Rightarrow> error option"
  Remove_error :: "string \<Rightarrow> error option"
  NewCosignVerifier :: "string option \<Rightarrow> error + string"

definition IsOCI :: "string \<Rightarrow> bool" where
  "IsOCI url = HasPrefix url ''oci://''"

text \<open>\<open>makeLoginOption\<close>: no login option without an authenticator and without a keychain.\<close>

definition makeLoginOption ::
  "HelmLib \<Rightarrow> string option \<Rightarrow> string option \<Rightarrow> string \<Rightarrow> error + string option" where
  "makeLoginOption h auth kc registryURL =
     (case auth of
        Some a \<Rightarrow> (case AuthAdaptHelper h a of Inl err \<Rightarrow> Inl err | Inr opt \<Rightarrow> Inr (Some opt))
      | None \<Rightarrow>
          (case kc of
             Some k \<Rightarrow>
               (case KeychainAdaptHelper h k registryURL of
                  Inl err \<Rightarrow> Inl err
                | Inr opt \<Rightarrow> Inr (Some opt))
           | None \<Rightarrow> Inr None))"

record HelmOCIEnv =
  hr_kube :: "HelmRepository Kube"
  hr_remote :: Remote
  hr_helm :: HelmLib

type_synonym hr_ret = "HelmRepository \<times> World \<times> ctrl_Result \<times> error option"

definition emptyResult :: ctrl_Result where
  "emptyResult = \<lparr>Requeue = False, RequeueAfter = 0\<rparr>"

definition authFromSecret :: "HelmOCIEnv \<Rightarrow> HelmRepository \<Rightarrow> string \<Rightarrow> error + string option" where
  "authFromSecret env obj secretName =
     (case GetSecret (hr_kube env) (Namespace obj) secretName of
        Inl err \<Rightarrow>
          Inl (Errorf (''failed to get secret '' @ Namespace obj @ ''/'' @ secretName @ '': '') err)
      | Inr secret \<Rightarrow>
          (case LoginOptionFromSecret (hr_helm env) (HR_Spec_URL obj) secret of
             Inl err \<Rightarrow> Inl (Errorf ''failed to configure Helm client with secret data: '' err)
           | Inr kc \<Rightarrow> Inr kc))"

text \<open>
  The part of \<open>reconcile\<close> from the login option on: the registry client, the chart
  repository and the login. The credentials file, if any, is removed on every return
  after the client exists.
\<close>

definition HelmOCI_removeFile :: "HelmOCIEnv \<Rightarrow> string \<Rightarrow> hr_ret \<Rightarrow> hr_ret" where
  "HelmOCI_removeFile env file ret =
     (case ret of
        (obj, w, result, err) \<Rightarrow>
          if file \<noteq> [] \<and> Remove_error (hr_helm env) file \<noteq> None
          then (obj, eventLogf w EventTypeWarning FailedReason, result, err)
          else (obj, w, result, err))"

definition HelmOCI_login ::
  "HelmOCIEnv \<Rightarrow> HelmRepository \<Rightarrow> World \<Rightarrow> string option \<Rightarrow> string option \<Rightarrow> hr_ret" where
  "HelmOCI_login env obj w authenticator kc =
     (case makeLoginOption (hr_helm env) authenticator kc (HR_Spec_URL obj) of
        Inl err \<Rightarrow>
          (MarkFalse obj ReadyCondition AuthenticationFailedReason (Error err), w, emptyResult, Some err)
      | Inr loginOpt \<Rightarrow>
          (case RegistryClientGenerator (hr_helm env) (loginOpt \<noteq> None) of
             Inl err \<Rightarrow>
               (let e = Errorf ''failed to create registry client: '' err
                in (MarkFalse obj ReadyCondition FailedReason (Error e), w, emptyResult, Some e))
           | Inr (registryClient, file) \<Rightarrow>
               HelmOCI_removeFile env file
                 (case NewOCIChartRepository (hr_helm env) (HR_Spec_URL obj) registryClient of
                    Inl err \<Rightarrow>
                      (let e = Errorf (''failed to parse URL '' @ HR_Spec_URL obj @ '': '') err
                       in (MarkFalse (MarkStalled obj URLInvalidReason (Error e)) ReadyCondition
                             URLInvalidReason (Error e),
                           w, emptyResult, None))
                  | Inr chartRepo \<Rightarrow>
                      (let obj1 = Delete obj StalledCondition
                       in case loginOpt of
                            None \<Rightarrow>
                              (Delete obj1 ReadyCondition, w,
                               \<lparr>Requeue = False, RequeueAfter = GetRequeueAfter obj1\<rparr>, None)
                          | Some opt \<Rightarrow>
                              (case ChartRepository_Login (hr_helm env) chartRepo opt of
                                 Some err \<Rightarrow>
                                   (let e = Errorf (''failed to login to registry '' @ HR_Spec_URL obj @ '': '') err
                                    in (MarkFalse obj1 ReadyCondition AuthenticationFailedReason (Error e),
                                        emit E_Login w, emptyResult, Some e))
                               | None \<Rightarrow>
                                   (Delete obj1 ReadyCondition, emit E_Login w,
                                    \<lparr>Requeue = False, RequeueAfter = GetRequeueAfter obj1\<rparr>, None))))))"

text \<open>The part of \<open>reconcile\<close> from the check of the URL to the credentials.\<close>

definition HelmOCI_authenticate :: "HelmOCIEnv \<Rightarrow> HelmRepository \<Rightarrow> World \<Rightarrow> hr_ret" where
  "HelmOCI_authenticate env obj w =
     (if \<not> IsOCI (HR_Spec_URL obj) then
        (let err = (case url_Parse (hr_helm env) (HR_Spec_URL obj) of
                      Inl e \<Rightarrow> Errorf ''failed to parse URL: '' e
                    | Inr scheme \<Rightarrow>
                        New (''URL scheme '' @ scheme @ '' in '' @ HR_Spec_URL obj @ '' is not supported''))
         in (MarkFalse (MarkStalled obj URLInvalidReason (Error err)) ReadyCondition
               URLInvalidReason (Error err),
             w, emptyResult, None))
      else
        (let obj1 = Delete obj StalledCondition
         in case HR_Spec_SecretRef obj1 of
              Some secretName \<Rightarrow>
                (case authFromSecret env obj1 secretName of
                   Inl err \<Rightarrow>
                     (MarkFalse obj1 ReadyCondition AuthenticationFailedReason (Error err),
                      w, emptyResult, Some err)
                 | Inr kc \<Rightarrow> HelmOCI_login env obj1 w None kc)
            | None \<Rightarrow>
                if HR_Spec_Provider obj1 \<noteq> GenericOCIProvider \<and> HR_Spec_Type obj1 = HelmRepositoryTypeOCI then
                  (case oidcAuth (hr_remote env) (HR_Spec_URL obj1) (HR_Spec_Provider obj1) of
                     Inl authErr \<Rightarrow>
                       if \<not> errors_Is authErr ErrUnconfiguredProvider then
                         (let e = Errorf (''failed to get credential from '' @ HR_Spec_Provider obj1 @ '': '')
                                    authErr
                          in (MarkFalse obj1 ReadyCondition AuthenticationFailedReason (Error e),
                              w, emptyResult, Some e))
                       else HelmOCI_login env obj1 w None None
                   | Inr auth \<Rightarrow> HelmOCI_login env obj1 w auth None)
                else HelmOCI_login env obj1 w None None))"

text \<open>
  The deferred block of \<open>reconcile\<close>, which settles the conditions and emits the event of
  a change of readiness. It reads the reason of the Ready condition through a pointer
  that is nil when the condition is absent.
\<close>

definition HelmOCI_summarize :: "HelmOCIEnv \<Rightarrow> HelmRepository \<Rightarrow> hr_ret \<Rightarrow> hr_ret outcome" where
  "HelmOCI_summarize env oldObj ret =
     (case ret of
        (obj, w, result, retErr) \<Rightarrow>
          (let obj1 = (case Status_Conditions obj StalledCondition of
                         None \<Rightarrow> obj
                       | Some sc \<Rightarrow> if Status sc = ConditionTrue then Delete obj ReconcilingCondition else obj);
               success = (RequeueAfter result = GetRequeueAfter obj1 \<and> Requeue result = False \<and>
                          retErr = None);
               obj2 = (if success then Delete obj1 ReconcilingCondition else obj1);
               retErr1 = (if success then
                            (case Status_Conditions obj2 ReadyCondition of
                               None \<Rightarrow> retErr
                             | Some ready \<Rightarrow>
                                 if Status ready = ConditionFalse \<and> \<not> IsStalled obj2
                                 then Some (New (GetMessage obj2 ReadyCondition))
                                 else retErr)
                          else retErr);
               obj3 = (case Status_Conditions obj2 ReconcilingCondition of
                         None \<Rightarrow> obj2
                       | Some reconciling \<Rightarrow>
                           if IsReconciling obj2
                           then conditions_Set obj2 ReconcilingCondition
                                  (reconciling\<lparr>Reason := ProgressingWithRetryReason\<rparr>)
                           else obj2);
               obj4 = (if \<not> IsReconciling obj3 \<and> \<not> IsStalled obj3 \<and> retErr1 = None \<and>
                          RequeueAfter result = GetRequeueAfter obj3
                       then MarkTrue obj3 ReadyCondition SucceededReason ''Helm repository is ready''
                       else obj3);
               becameReady = (\<not> IsReady oldObj \<and> IsReady obj4);
               becameNotReady = (IsReady oldObj \<and> \<not> IsReady obj4)
           in case Status_Conditions obj4 ReadyCondition of
                None \<Rightarrow>
                  if becameReady \<or> becameNotReady then Panic else Return (obj4, w, result, retErr1)
              | Some ready \<Rightarrow>
                  Return
                    (obj4,
                     (let w1 = (if becameReady then eventLogf w EventTypeNormal (Reason ready) else w)
                      in if becameNotReady then eventLogf w1 EventTypeWarning (Reason ready) else w1),
                     result, retErr1)))"

definition HelmOCI_reconcile :: "HelmOCIEnv \<Rightarrow> HelmRepository \<Rightarrow> World \<Rightarrow> hr_ret outcome" where
  "HelmOCI_reconcile env obj w =
     (let oldObj = obj;
          obj1 = progressiveStatus (hr_kube env) False obj ProgressingReason ''reconciliation in progress'';
          reconcileAtVal = (case ReconcileAnnotationValue (Annotations obj1) of None \<Rightarrow> [] | Some v \<Rightarrow> v)
      in HelmOCI_summarize env oldObj
           (case (if Generation obj1 \<noteq> Status_ObservedGeneration obj1 then
                    (let obj2 = progressiveStatus (hr_kube env) False obj1 ProgressingReason
                                  (''processing object: new generation '' @
                                   FormatInt (Status_ObservedGeneration obj1) @ '' -> '' @
                                   FormatInt (Generation obj1))
                     in (obj2, emit (E_Patch False) w, Patch (hr_kube env) obj2))
                  else if reconcileAtVal \<noteq> Status_LastHandledReconcileAt obj1 then
                    (obj1, emit (E_Patch False) w, Patch (hr_kube env) obj1)
                  else (obj1, w, None)) of
              (obj2, w1, Some err) \<Rightarrow> (obj2, w1, emptyResult, Some err)
            | (obj2, w1, None) \<Rightarrow> HelmOCI_authenticate env obj2 w1))"

definition HelmOCI_reconcileDelete :: "HelmOCIEnv \<Rightarrow> HelmRepository \<Rightarrow> World \<Rightarrow> hr_ret" where
  "HelmOCI_reconcileDelete env obj w = (RemoveFinalizer obj SourceFinalizer, w, emptyResult, None)"

text \<open>
  \<open>kerrors.FilterOut\<close> with \<open>apierrors.IsNotFound\<close>, and \<open>kerrors.NewAggregate\<close> of the
  error of the run and the error of the patch.
\<close>

fun IsNotFound :: "error \<Rightarrow> bool" where
  "IsNotFound (NotFound m) = True"
| "IsNotFound (Errorf m e) = IsNotFound e"
| "IsNotFound e = False"

definition FilterOutNotFound :: "error \<Rightarrow> error option" where
  "FilterOutNotFound err =
     (case err of
        Aggregate es \<Rightarrow>
          (case filter (\<lambda>e. \<not> IsNotFound e) es of [] \<Rightarrow> None | es1 \<Rightarrow> Some (Aggregate es1))
      | _ \<Rightarrow> if IsNotFound err then None else Some err)"

definition NewAggregate :: "error option list \<Rightarrow> error option" where
  "NewAggregate errs =
     (case List.map_filter (\<lambda>e. e) errs of [] \<Rightarrow> None | es \<Rightarrow> Some (Aggregate es))"

text \<open>
  The deferred block of \<open>Reconcile\<close>: the value of the annotation that requests a
  reconciliation goes to the status, and the object is patched, with the option
  \<open>patch.WithStatusObservedGeneration\<close> when it is stalled or ready. With that option
  the patch helper writes the generation of the object to \<open>status.observedGeneration\<close>,
  in the object it is given as in the patch it sends.
\<close>

definition HelmOCI_patch :: "HelmOCIEnv \<Rightarrow> hr_ret \<Rightarrow> hr_ret" where
  "HelmOCI_patch env ret =
     (case ret of
        (obj, w, result, retErr) \<Rightarrow>
          (let obj1 = (case ReconcileAnnotationValue (Annotations obj) of
                         None \<Rightarrow> obj
                       | Some v \<Rightarrow> SetStatusLastHandledReconcileAt obj v);
               stamp = (IsStalled obj1 \<or> IsReady obj1);
               w1 = emit (E_Patch stamp) w;
               obj2 = (if stamp then obj1\<lparr>Status_ObservedGeneration := Generation obj1\<rparr> else obj1)
           in case Patch (hr_kube env) obj2 of
                None \<Rightarrow> (obj2, w1, result, retErr)
              | Some err \<Rightarrow>
                  (obj2, w1, result,
                   NewAggregate
                     [retErr,
                      if \<not> IsZero (DeletionTimestamp obj2) then FilterOutNotFound err else Some err])))"

text \<open>
  \<open>Reconcile\<close>, from the object it fetched. A panic of \<open>reconcile\<close> is the outcome of
  \<open>Reconcile\<close>; what the deferred block does while the panic unwinds is not modelled.
\<close>

definition HelmOCI_Reconcile :: "HelmOCIEnv \<Rightarrow> World \<Rightarrow> HelmRepository \<Rightarrow> hr_ret outcome" where
  "HelmOCI_Reconcile env w obj =
     (if \<not> ContainsFinalizer obj SourceFinalizer then
        Return (HelmOCI_patch env
                  (AddFinalizer obj SourceFinalizer, w, \<lparr>Requeue = True, RequeueAfter = 0\<rparr>, None))
      else if \<not> IsZero (DeletionTimestamp obj) then
        Return (HelmOCI_patch env (HelmOCI_reconcileDelete env obj w))
      else if Spec_Suspend obj then
        Return (HelmOCI_patch env (obj, w, emptyResult, None))
      else if HR_Spec_Type obj \<noteq> HelmRepositoryTypeOCI then
        Return (HelmOCI_patch env (obj\<lparr>Status_Conditions := (\<lambda>t. None)\<rparr>, w, emptyResult, None))
      else
        (case HelmOCI_reconcile env obj w of
           Panic \<Rightarrow> Panic
         | Return ret \<Rightarrow> Return (HelmOCI_patch env ret)))"

section \<open>HelmChart\<close>

record HelmChart = Object +
  HC_Spec_Chart :: string
  HC_Spec_Version :: string
  HC_Spec_SourceRef_Kind :: string
  HC_Spec_SourceRef_Name :: string
  HC_Spec_ReconcileStrategy :: string
  HC_Spec_ValuesFile :: string
  HC_Spec_ValuesFiles :: "string list"
  HC_Spec_Verify :: "OCIRepositoryVerification option"
  HC_Status_ObservedSourceArtifactRevision :: string
  HC_Status_ObservedChartName :: string

text \<open>
  Modelled from the spec: \<open>GetValuesFiles\<close> (package \<open>api/v1beta2\<close>, not among the sources)
  lists the values files of the object, the deprecated single file first.
\<close>

definition GetValuesFiles :: "HelmChart \<Rightarrow> string list" where
  "GetValuesFiles obj =
     (if HC_Spec_ValuesFile obj \<noteq> [] then HC_Spec_ValuesFile obj # HC_Spec_ValuesFiles obj
      else HC_Spec_ValuesFiles obj)"

definition HelmRepositoryKind :: string where "HelmRepositoryKind = ''HelmRepository''"
definition GitRepositoryKind :: string where "GitRepositoryKind = ''GitRepository''"
definition BucketKind :: string where "BucketKind = ''Bucket''"
definition ReconcileStrategyRevision :: string where "ReconcileStrategyRevision = ''Revision''"
definition ReconcileStrategyChartVersion :: string where "ReconcileStrategyChartVersion = ''ChartVersion''"
definition CacheOperationFailedReason :: string where "CacheOperationFailedReason = ''CacheOperationFailed''"

subsection \<open>The chart builder\<close>

record Build =
  Build_Name :: string
  Build_Version :: string
  Build_Path :: string
  Build_ResolvedDependencies :: nat
  Build_Packaged :: bool



definition emptyBuild :: Build where
  "emptyBuild =
     \<lparr>Build_Name = [], Build_Version = [], Build_Path = [], Build_ResolvedDependencies = 0,
      Build_Packaged = False\<rparr>"

record BuildOptions =
  Opt_ValuesFiles :: "string list"
  Opt_Force :: bool
  Opt_CachedChart :: string
  Opt_Verify :: bool
  Opt_VersionMetadata :: string

text \<open>
  Package \<open>internal/helm/chart\<close> is taken as it answers: the values files that count for a
  build (\<open>BuildOptions.GetValuesFiles\<close>), the two builders, the cleanup of the dependency
  manager, the summary of a build and the state of the index cache are answers of
  the record below.
\<close>

record ChartLib =
  Opt_GetValuesFiles :: "string list \<Rightarrow> string list"
  RemoteBuild :: "string \<Rightarrow> string \<Rightarrow> string \<Rightarrow> BuildOptions \<Rightarrow> error + Build"
  LocalBuild :: "string \<Rightarrow> string \<Rightarrow> BuildOptions \<Rightarrow> error + Build"
  Clear_error :: "error option"
  Summary :: "Build \<Rightarrow> string"
  CacheAvailable :: bool
  IndexLoaded :: bool
  CacheIndexInMemory_error :: "error option"

record ChartEnv =
  c_kube :: "HelmChart Kube"
  c_fs :: FileSys
  c_storage :: Storage
  c_remote :: Remote
  c_helm :: HelmLib
  c_chart :: ChartLib

type_synonym chart_ret = "HelmChart \<times> Build \<times> World \<times> Result \<times> error option"

text \<open>
  The recurring return of the HelmChart phases: record the error \<open>e\<close> on the condition
  \<open>t\<close> with its reason and message, and return the empty result with \<open>e\<close>.
\<close>

definition chartFailWith :: "ConditionType \<Rightarrow> HelmChart \<Rightarrow> Build \<Rightarrow> World \<Rightarrow> error \<Rightarrow> chart_ret" where
  "chartFailWith t obj b w e =
     (MarkTrue obj t (errReason e) (Error e), b, w, ResultEmpty, Some e)"

subsection \<open>Garbage collection, deletion and the storage phase\<close>

definition Chart_garbageCollect ::
  "ChartEnv \<Rightarrow> HelmChart \<Rightarrow> World \<Rightarrow> HelmChart \<times> World \<times> error option" where
  "Chart_garbageCollect env obj w =
     (if \<not> IsZero (DeletionTimestamp obj) then
        (case RemoveAll (c_storage env) w (NewArtifactFor (c_storage env) (Kind obj) obj [] ''*'') of
           (w1, deleted, Some err) \<Rightarrow>
             (obj, w1,
              Some (Event (Errorf ''garbage collection for deleted resource failed: '' err)
                      ''GarbageCollectionFailed''))
         | (w1, deleted, None) \<Rightarrow>
             (obj\<lparr>Status_Artifact := None\<rparr>,
              if deleted \<noteq> [] then eventLogf w1 EventTypeTrace ''GarbageCollectionSucceeded'' else w1,
              None))
      else
        (case Status_Artifact obj of
           None \<Rightarrow> (obj, w, None)
         | Some a \<Rightarrow>
             (case GarbageCollect (c_storage env) w a of
                (w1, delFiles, Some err) \<Rightarrow>
                  (obj, w1,
                   Some (Event (Errorf ''garbage collection of artifacts failed: '' err)
                           ''GarbageCollectionFailed''))
              | (w1, delFiles, None) \<Rightarrow>
                  (obj,
                   if length delFiles > 0 then eventLogf w1 EventTypeTrace ''GarbageCollectionSucceeded''
                   else w1,
                   None))))"

definition Chart_reconcileDelete ::
  "ChartEnv \<Rightarrow> HelmChart \<Rightarrow> World \<Rightarrow> HelmChart \<times> World \<times> Result \<times> error option" where
  "Chart_reconcileDelete env obj w =
     (case Chart_garbageCollect env obj w of
        (obj1, w1, Some err) \<Rightarrow> (obj1, w1, ResultEmpty, Some err)
      | (obj1, w1, None) \<Rightarrow> (RemoveFinalizer obj1 SourceFinalizer, w1, ResultEmpty, None))"

definition Chart_reconcileStorage :: "ChartEnv \<Rightarrow> HelmChart \<Rightarrow> Build \<Rightarrow> World \<Rightarrow> chart_ret" where
  "Chart_reconcileStorage env obj build w =
     (case Chart_garbageCollect env obj w of
        (obj1, w1, _) \<Rightarrow>
          (let artifactMissing =
                 (case Status_Artifact obj1 of None \<Rightarrow> False | Some a \<Rightarrow> \<not> ArtifactExist w1 a);
               obj2 = (if artifactMissing
                       then Delete (obj1\<lparr>Status_Artifact := None, Status_URL := []\<rparr>)
                              ArtifactInStorageCondition
                       else obj1)
           in case Status_Artifact obj2 of
                None \<Rightarrow>
                  (let msg = ''building artifact'' @
                             (if artifactMissing then '': disappeared from storage'' else []);
                       obj3 = Delete (progressiveStatus (c_kube env) True obj2 ProgressingReason msg)
                                ArtifactInStorageCondition;
                       w2 = emit (E_Patch False) w1
                   in case Patch (c_kube env) obj3 of
                        Some err \<Rightarrow> (obj3, build, w2, ResultEmpty, Some err)
                      | None \<Rightarrow> (obj3, build, w2, ResultSuccess, None))
              | Some a \<Rightarrow>
                  (obj2\<lparr>Status_Artifact := Some (SetArtifactURL (c_storage env) a),
                        Status_URL := SetHostname (c_storage env) (Status_URL obj2)\<rparr>,
                   build, w1, ResultSuccess, None)))"

subsection \<open>Building from a Helm repository\<close>

definition HasSuffix :: "string \<Rightarrow> string \<Rightarrow> bool" where
  "HasSuffix s suffix = (length suffix \<le> length s \<and> drop (length s - length suffix) s = suffix)"

definition chartRepoConfigErrorReturn :: "error \<Rightarrow> HelmChart \<Rightarrow> Build \<Rightarrow> World \<Rightarrow> chart_ret" where
  "chartRepoConfigErrorReturn err obj b w =
     (case err of
        url_Error _ \<Rightarrow>
          chartFailWith FetchFailedCondition obj b w
            (Stalling (Errorf ''invalid Helm repository URL: '' err) URLInvalidReason)
      | _ \<Rightarrow>
          chartFailWith FetchFailedCondition obj b w
            (Stalling (Errorf ''failed to construct Helm client: '' err) FailedReason))"

definition clientOptionsFromSecret ::
  "HelmLib \<Rightarrow> (string \<times> string) list \<Rightarrow> string \<Rightarrow> error + string list \<times> string option" where
  "clientOptionsFromSecret h secret normalizedURL =
     (case ClientOptionsFromSecret h secret of
        Inl err \<Rightarrow> Inl (Errorf ''failed to configure Helm client with secret data: '' err)
      | Inr opts \<Rightarrow>
          (case TLSClientConfigFromSecret h secret normalizedURL of
             Inl err \<Rightarrow> Inl (Errorf ''failed to create TLS client config with secret data: '' err)
           | Inr tlsConfig \<Rightarrow> Inr (opts, tlsConfig)))"

text \<open>\<open>makeVerifiers\<close>: one verifier for each public key of the secret, or a keyless one.\<close>

fun publicKeyVerifiers :: "HelmLib \<Rightarrow> (string \<times> string) list \<Rightarrow> error + string list" where
  "publicKeyVerifiers h [] = Inr []"
| "publicKeyVerifiers h ((k, data) # rest) =
     (if HasSuffix k ''.pub'' then
        (case NewCosignVerifier h (Some data) of
           Inl err \<Rightarrow> Inl err
         | Inr verifier \<Rightarrow>
             (case publicKeyVerifiers h rest of
                Inl err \<Rightarrow> Inl err
              | Inr verifiers \<Rightarrow> Inr (verifier # verifiers)))
      else publicKeyVerifiers h rest)"

definition makeVerifiers ::
  "ChartEnv \<Rightarrow> HelmChart \<Rightarrow> OCIRepositoryVerification \<Rightarrow> error + string list" where
  "makeVerifiers env obj verify =
     (if Verify_Provider verify = ''cosign'' then
        (case Verify_SecretRef verify of
           Some secretName \<Rightarrow>
             (case GetSecret (c_kube env) (Namespace obj) secretName of
                Inl err \<Rightarrow> Inl err
              | Inr pubSecret \<Rightarrow>
                  (case publicKeyVerifiers (c_helm env) pubSecret of
                     Inl err \<Rightarrow> Inl err
                   | Inr verifiers \<Rightarrow>
                       if length verifiers = 0
                       then Inl (New (''no public keys found in secret '' @ Namespace obj @ ''/'' @ secretName))
                       else Inr verifiers))
         | None \<Rightarrow>
             (case NewCosignVerifier (c_helm env) None of
                Inl err \<Rightarrow> Inl err
              | Inr verifier \<Rightarrow> Inr [verifier]))
      else Inl (New (''unsupported verification provider: '' @ Verify_Provider verify)))"

text \<open>The options of the remote builder, made from the object, and the call of the builder.\<close>

definition remoteBuildOptions :: "ChartEnv \<Rightarrow> HelmChart \<Rightarrow> BuildOptions" where
  "remoteBuildOptions env obj =
     \<lparr>Opt_ValuesFiles = GetValuesFiles obj,
      Opt_Force = (Generation obj \<noteq> Status_ObservedGeneration obj),
      Opt_CachedChart = (case Status_Artifact obj of
                           None \<Rightarrow> []
                         | Some a \<Rightarrow> LocalPath (c_storage env) a),
      Opt_Verify = (case HC_Spec_Verify obj of
                      None \<Rightarrow> False
                    | Some v \<Rightarrow> Verify_Provider v \<noteq> []),
      Opt_VersionMetadata =
        (if length (Opt_GetValuesFiles (c_chart env) (GetValuesFiles obj)) > 0
         then FormatInt (Generation obj) else [])\<rparr>"

definition Chart_remoteBuild ::
  "ChartEnv \<Rightarrow> HelmChart \<Rightarrow> Build \<Rightarrow> World \<Rightarrow> string \<Rightarrow> chart_ret" where
  "Chart_remoteBuild env obj b w chartRepo =
     (case RemoteBuild (c_chart env) chartRepo (HC_Spec_Chart obj) (HC_Spec_Version obj)
             (remoteBuildOptions env obj) of
        Inl err \<Rightarrow> (obj, b, emit E_Build w, ResultEmpty, Some err)
      | Inr build \<Rightarrow> (obj, build, emit E_Build w, ResultSuccess, None))"

definition Chart_removeFile :: "ChartEnv \<Rightarrow> string \<Rightarrow> chart_ret \<Rightarrow> chart_ret" where
  "Chart_removeFile env file ret =
     (case ret of
        (obj, b, w, res, err) \<Rightarrow>
          if file \<noteq> [] \<and> Remove_error (c_helm env) file \<noteq> None
          then (obj, b, eventLogf w EventTypeWarning FailedReason, res, err)
          else (obj, b, w, res, err))"

definition Chart_cacheIndex :: "ChartEnv \<Rightarrow> chart_ret \<Rightarrow> chart_ret" where
  "Chart_cacheIndex env ret =
     (case ret of
        (obj, b, w, res, err) \<Rightarrow>
          if CacheAvailable (c_chart env) \<and> IndexLoaded (c_chart env) \<and>
             CacheIndexInMemory_error (c_chart env) \<noteq> None
          then (obj, b, eventLogf w EventTypeTrace CacheOperationFailedReason, res, err)
          else (obj, b, w, res, err))"

text \<open>
  The part of \<open>buildFromHelmRepository\<close> for a repository of type OCI, once the verifiers
  are made: the chart repository, the login when there is a login option, and the build.
\<close>

definition Chart_ociBuild ::
  "ChartEnv \<Rightarrow> HelmChart \<Rightarrow> Build \<Rightarrow> World \<Rightarrow> string \<Rightarrow> string \<Rightarrow> string option \<Rightarrow> chart_ret" where
  "Chart_ociBuild env obj b w normalizedURL registryClient loginOpt =
     (case NewOCIChartRepository (c_helm env) normalizedURL registryClient of
        Inl err \<Rightarrow> chartRepoConfigErrorReturn err obj b w
      | Inr chartRepo \<Rightarrow>
          (case loginOpt of
             None \<Rightarrow> Chart_remoteBuild env obj b w chartRepo
           | Some opt \<Rightarrow>
               (case ChartRepository_Login (c_helm env) chartRepo opt of
                  Some err \<Rightarrow>
                    chartFailWith FetchFailedCondition obj b (emit E_Login w)
                      (Event (Errorf ''failed to login to OCI registry: '' err)
                         AuthenticationFailedReason)
                | None \<Rightarrow> Chart_remoteBuild env obj b (emit E_Login w) chartRepo)))"

text \<open>
  The part of \<open>buildFromHelmRepository\<close> after the credentials: the login option, the chart
  repository of the type of the repository, and the build. The branch of the default
  type reads the artifact of the repository through a pointer, which is nil when the
  repository has none.
\<close>

definition Chart_buildWithCredentials ::
  "ChartEnv \<Rightarrow> HelmChart \<Rightarrow> HelmRepository \<Rightarrow> Build \<Rightarrow> World \<Rightarrow> string option \<Rightarrow> string option \<Rightarrow>
   chart_ret outcome" where
  "Chart_buildWithCredentials env obj repo b w authenticator kc =
     (let normalizedURL = NormalizeURL (c_helm env) (HR_Spec_URL repo)
      in case makeLoginOption (c_helm env) authenticator kc normalizedURL of
           Inl err \<Rightarrow>
             Return (chartFailWith FetchFailedCondition obj b w (Event err AuthenticationFailedReason))
         | Inr loginOpt \<Rightarrow>
             if HR_Spec_Type repo = HelmRepositoryTypeOCI then
               (if \<not> IsOCI normalizedURL then
                  Return (chartRepoConfigErrorReturn
                            (New (''invalid OCI registry URL: '' @ normalizedURL)) obj b w)
                else
                  (case RegistryClientGenerator (c_helm env) (loginOpt \<noteq> None) of
                     Inl err \<Rightarrow>
                       Return (chartFailWith FetchFailedCondition obj b w
                                 (Event (Errorf ''failed to construct Helm client: '' err) FailedReason))
                   | Inr (registryClient, credentialsFile) \<Rightarrow>
                       Return
                         (Chart_removeFile env credentialsFile
                            (case HC_Spec_Verify obj of
                               None \<Rightarrow> Chart_ociBuild env obj b w normalizedURL registryClient loginOpt
                             | Some verify \<Rightarrow>
                                 (case makeVerifiers env obj verify of
                                    Inl err \<Rightarrow>
                                      (let provider = (if Verify_SecretRef verify = None
                                                       then Verify_Provider verify @ '' keyless''
                                                       else Verify_Provider verify);
                                           e = Event (Errorf (''failed to verify the signature using provider '' @
                                                              provider @ '': '') err) VerificationError
                                       in (MarkFalse obj SourceVerifiedCondition (errReason e) (Error e),
                                           b, w, ResultEmpty, Some e))
                                  | Inr verifiers \<Rightarrow>
                                      Chart_ociBuild env obj b w normalizedURL registryClient loginOpt)))))
             else
               (case Status_Artifact repo of
                  None \<Rightarrow> Panic
                | Some repoArtifact \<Rightarrow>
                    (case NewChartRepository (c_helm env) normalizedURL
                            (LocalPath (c_storage env) repoArtifact) of
                       Inl err \<Rightarrow> Return (chartRepoConfigErrorReturn err obj b w)
                     | Inr chartRepo \<Rightarrow>
                         Return (Chart_cacheIndex env (Chart_remoteBuild env obj b w chartRepo)))))"

definition Chart_buildFromHelmRepository ::
  "ChartEnv \<Rightarrow> HelmChart \<Rightarrow> HelmRepository \<Rightarrow> Build \<Rightarrow> World \<Rightarrow> chart_ret outcome" where
  "Chart_buildFromHelmRepository env obj repo b w =
     (let normalizedURL = NormalizeURL (c_helm env) (HR_Spec_URL repo)
      in case HR_Spec_SecretRef repo of
           Some secretName \<Rightarrow>
             (case GetSecret (c_kube env) (Namespace repo) secretName of
                Inl err \<Rightarrow>
                  Return (chartFailWith FetchFailedCondition obj b w
                            (Event (Errorf (''failed to get secret '' @ secretName @ '': '') err)
                               AuthenticationFailedReason))
              | Inr secret \<Rightarrow>
                  (case clientOptionsFromSecret (c_helm env) secret normalizedURL of
                     Inl err \<Rightarrow>
                       Return (chartFailWith FetchFailedCondition obj b w
                                 (Event err AuthenticationFailedReason))
                   | Inr (opts, tlsConfig) \<Rightarrow>
                       (case LoginOptionFromSecret (c_helm env) normalizedURL secret of
                          Inl err \<Rightarrow>
                            Return (chartFailWith FetchFailedCondition obj b w
                                      (Event (Errorf ''failed to configure Helm client with secret data: '' err)
                                         AuthenticationFailedReason))
                        | Inr kc \<Rightarrow> Chart_buildWithCredentials env obj repo b w None kc)))
         | None \<Rightarrow>
             if HR_Spec_Provider repo \<noteq> GenericOCIProvider \<and> HR_Spec_Type repo = HelmRepositoryTypeOCI then
               (case oidcAuth (c_remote env) (HR_Spec_URL repo) (HR_Spec_Provider repo) of
                  Inl authErr \<Rightarrow>
                    if \<not> errors_Is authErr ErrUnconfiguredProvider then
                      Return (chartFailWith FetchFailedCondition obj b w
                                (Event (Errorf (''failed to get credential from '' @ HR_Spec_Provider repo @ '': '')
                                          authErr) AuthenticationFailedReason))
                    else Chart_buildWithCredentials env obj repo b w None None
                | Inr auth \<Rightarrow> Chart_buildWithCredentials env obj repo b w auth None)
             else Chart_buildWithCredentials env obj repo b w None None)"

subsection \<open>Building from the tarball of a GitRepository or a Bucket\<close>

text \<open>
  The revision metadata of the build. The slice \<open>rev[0:12]\<close> panics when the string has
  fewer than 12 bytes.
\<close>

definition revisionMetadata :: "HelmChart \<Rightarrow> Artifact \<Rightarrow> string outcome" where
  "revisionMetadata obj source =
     (if HC_Spec_ReconcileStrategy obj = ReconcileStrategyRevision then
        (let rev = (if HC_Spec_SourceRef_Kind obj = GitRepositoryKind
                    then last (Split (Revision source) (CHR ''/''))
                    else Revision source)
         in if HC_Spec_SourceRef_Kind obj = GitRepositoryKind \<or> HC_Spec_SourceRef_Kind obj = BucketKind
            then (if length rev < 12 then Panic else Return (take 12 rev))
            else Return rev)
      else Return [])"

text \<open>
  The options of the local builder: the revision metadata, followed by the generation
  of the object when values files count for the build.
\<close>

definition localBuildOptions :: "ChartEnv \<Rightarrow> HelmChart \<Rightarrow> string \<Rightarrow> BuildOptions" where
  "localBuildOptions env obj versionMetadata =
     \<lparr>Opt_ValuesFiles = GetValuesFiles obj,
      Opt_Force = (Generation obj \<noteq> Status_ObservedGeneration obj),
      Opt_CachedChart = (case Status_Artifact obj of
                           None \<Rightarrow> []
                         | Some a \<Rightarrow> LocalPath (c_storage env) a),
      Opt_Verify = False,
      Opt_VersionMetadata =
        (if length (Opt_GetValuesFiles (c_chart env) (GetValuesFiles obj)) > 0
         then (if versionMetadata \<noteq> [] then versionMetadata @ ''.'' else versionMetadata) @
              FormatInt (Generation obj)
         else versionMetadata)\<rparr>"

definition Chart_localBuild ::
  "ChartEnv \<Rightarrow> HelmChart \<Rightarrow> Build \<Rightarrow> World \<Rightarrow> string \<Rightarrow> string \<Rightarrow> chart_ret" where
  "Chart_localBuild env obj b w sourceDir versionMetadata =
     (case LocalBuild (c_chart env) sourceDir (HC_Spec_Chart obj)
             (localBuildOptions env obj versionMetadata) of
        Inl err \<Rightarrow> (obj, b, emit E_Build w, ResultEmpty, Some err)
      | Inr build \<Rightarrow> (obj, build, emit E_Build w, ResultSuccess, None))"

definition Chart_clearDependencies :: "ChartEnv \<Rightarrow> chart_ret \<Rightarrow> chart_ret" where
  "Chart_clearDependencies env ret =
     (case ret of
        (obj, b, w, res, err) \<Rightarrow>
          if Clear_error (c_chart env) \<noteq> None
          then (obj, b, eventLogf w EventTypeWarning FailedReason, res, err)
          else (obj, b, w, res, err))"

definition Chart_buildFromTarballArtifact ::
  "ChartEnv \<Rightarrow> HelmChart \<Rightarrow> Artifact \<Rightarrow> Build \<Rightarrow> World \<Rightarrow> chart_ret outcome" where
  "Chart_buildFromTarballArtifact env obj source b w =
     (case TempDirForObj (c_fs env) of
        Inl err \<Rightarrow>
          Return (chartFailWith FetchFailedCondition obj b w
                    (Event (Errorf ''failed to create temporary working directory: '' err)
                       DirCreationFailedReason))
      | Inr tmpDir \<Rightarrow>
          (let sourceDir = tmpDir @ ''/source''
           in case Mkdir_error (c_fs env) of
                Some err \<Rightarrow>
                  Return (chartFailWith FetchFailedCondition obj b w
                            (Event (Errorf ''failed to create directory to untar source into: '' err)
                               DirCreationFailedReason))
              | None \<Rightarrow>
                  (case Open_error (c_fs env) of
                     Some err \<Rightarrow>
                       Return (chartFailWith FetchFailedCondition obj b w
                                 (Event (Errorf ''failed to open source artifact: '' err)
                                    ReadOperationFailedReason))
                   | None \<Rightarrow>
                       (case Untar (c_fs env) (LocalPath (c_storage env) source) sourceDir of
                          Some err \<Rightarrow>
                            Return (obj, b, w, ResultEmpty,
                                    Some (Event (Errorf ''artifact untar error: '' err) FailedReason))
                        | None \<Rightarrow>
                            (case Close_error (c_fs env) of
                               Some err \<Rightarrow>
                                 Return (obj, b, w, ResultEmpty,
                                         Some (Event (Errorf ''artifact close error: '' err) FailedReason))
                             | None \<Rightarrow>
                                 (case revisionMetadata obj source of
                                    Panic \<Rightarrow> Panic
                                  | Return versionMetadata \<Rightarrow>
                                      Return (Chart_clearDependencies env
                                                (Chart_localBuild env obj b w sourceDir versionMetadata))))))))"

subsection \<open>The reconciliation of a HelmChart\<close>







section \<open>A concrete environment\<close>

text \<open>
  An environment for runs on concrete objects: a storage that serves
  \<open>http://source-controller/\<close> followed by the path, an API server that accepts every
  patch and knows no secret, a final summary that leaves the conditions as they are, a
  registry that knows the digest \<open>sha256:4f5e\<close> and three tags, a login manager with no
  provider configured, and Helm libraries in which every call succeeds.
\<close>

definition storage0 :: Storage where
  "storage0 =
     \<lparr>RemoveAll_error = None, GarbageCollect_error = None, Expired = (\<lambda>f. False),
      MkdirAll_error = None, Lock_error = None,
      CopyFromPath_result = (\<lambda>a src. Inr ''c0ffee''),
      Archive_result = (\<lambda>a dir ps. Inr ''c0ffee''),
      Symlink_result = (\<lambda>a l. (''http://source-controller/'' @ Dir (Path a) @ ''/'' @ l, None)),
      ArtifactURL = (\<lambda>p. ''http://source-controller/'' @ p),
      SetHostname = (\<lambda>u. u),
      LocalPath = (\<lambda>a. ''/data/'' @ Path a)\<rparr>"

definition kube0 :: "('a Object_scheme) Kube" where
  "kube0 =
     \<lparr>Patch = (\<lambda>obj. None),
      GetSecret = (\<lambda>ns n. Inl (NotFound n)),
      GetServiceAccount = (\<lambda>ns n. Inl (NotFound n)),
      ProgressiveStatus =
        (\<lambda>drift reason msg gen cs.
           cs(ReconcilingCondition \<mapsto>
                \<lparr>Status = ConditionTrue, Reason = reason, Message = msg,
                 ConditionObservedGeneration = gen\<rparr>)),
      FailureRecovery = (\<lambda>oldObj newObj. False),
      LowestRequeuingResult =
        (\<lambda>i j. if i = ResultEmpty then j else if j = ResultEmpty then i
               else if i = ResultRequeue then i else j),
      Summarize =
        (\<lambda>obj res err. (Status_Conditions obj, False, \<lparr>Requeue = False, RequeueAfter = 0\<rparr>, err))\<rparr>"

definition fs0 :: FileSys where
  "fs0 =
     \<lparr>TempDirForObj = Inr ''/tmp/obj'', Mkdir_error = None, Open_error = None, Close_error = None,
      Untar = (\<lambda>blob dir. None), Create = (\<lambda>p. None), Copy = (\<lambda>p blob. None),
      Stat = (\<lambda>p. Inr True), LoadIgnorePatterns = (\<lambda>dir. Inr []), ReadPatterns = (\<lambda>s. [s])\<rparr>"

definition parseReference0 :: "string \<Rightarrow> error + Reference" where
  "parseReference0 u =
     (let registry = takeWhile (\<lambda>c. c \<noteq> CHR ''/'') u;
          rest = drop (length registry + 1) u;
          repository = takeWhile (\<lambda>c. c \<noteq> CHR '':'' \<and> c \<noteq> CHR ''@'') rest
      in if registry = [] \<or> repository = [] then Inl (New (''could not parse reference: '' @ u))
         else Inr \<lparr>RegistryStr = registry, RepositoryStr = repository\<rparr>)"

definition remote0 :: Remote where
  "remote0 =
     \<lparr>ParseReference = parseReference0,
      ListTags = (\<lambda>u opts. Inr [''1.9.0'', ''latest'', ''1.10.0'']),
      Digest = (\<lambda>u opts. Inr ''sha256:4f5e''),
      NewHash = (\<lambda>d. if HasPrefix d ''sha256:'' then Inr (drop 7 d) else Inl (New ''bad digest'')),
      Pull = (\<lambda>u opts. Inl (New ''registry unreachable'')),
      Login = (\<lambda>u ref opts. Inl (Errorf ''ECR authentication failed: '' ErrUnconfiguredProvider)),
      NewFromPullSecrets = (\<lambda>secrets. Inr ''k8schain''),
      X509KeyPair = (\<lambda>cert key. Inr cert),
      SystemCertPool = None,
      verifySignature_result = (\<lambda>u opts. None)\<rparr>"

definition helm0 :: HelmLib where
  "helm0 =
     \<lparr>NormalizeURL = (\<lambda>u. u),
      url_Parse = (\<lambda>u. Inr ''https''),
      LoginOptionFromSecret = (\<lambda>u secret. Inr (Some ''keychain'')),
      ClientOptionsFromSecret = (\<lambda>secret. Inr []),
      TLSClientConfigFromSecret = (\<lambda>secret u. Inr None),
      AuthAdaptHelper = (\<lambda>a. Inr (''login:'' @ a)),
      KeychainAdaptHelper = (\<lambda>k u. Inr (''login:'' @ k)),
      RegistryClientGenerator = (\<lambda>login. Inr (''client'', [])),
      NewOCIChartRepository = (\<lambda>u client. Inr ''oci-chart-repository''),
      NewChartRepository = (\<lambda>u path. Inr ''chart-repository''),
      ChartRepository_Login = (\<lambda>repo opt. None),
      Remove_error = (\<lambda>file. None),
      NewCosignVerifier = (\<lambda>key. Inr ''verifier'')\<rparr>"

definition chartlib0 :: ChartLib where
  "chartlib0 =
     \<lparr>Opt_GetValuesFiles = (\<lambda>vs. vs),
      RemoteBuild =
        (\<lambda>repo name version opts.
           Inr \<lparr>Build_Name = name, Build_Version = ''6.2.0'', Build_Path = ''/tmp/chart.tgz'',
                Build_ResolvedDependencies = 0, Build_Packaged = False\<rparr>),
      LocalBuild =
        (\<lambda>dir path opts.
           Inr \<lparr>Build_Name = path, Build_Version = ''0.1.0+'' @ Opt_VersionMetadata opts,
                Build_Path = ''/tmp/chart.tgz'', Build_ResolvedDependencies = 0,
                Build_Packaged = True\<rparr>),
      Clear_error = None,
      Summary = (\<lambda>b. Build_Name b),
      CacheAvailable = False, IndexLoaded = False, CacheIndexInMemory_error = None\<rparr>"

definition oci_env0 :: "CoreVersion OCIEnv" where
  "oci_env0 = \<lparr>kube = kube0, fs = fs0, storage = storage0, remote = remote0, semverLib = core_semver\<rparr>"

definition helm_env0 :: HelmOCIEnv where
  "helm_env0 = \<lparr>hr_kube = kube0, hr_remote = remote0, hr_helm = helm0\<rparr>"

definition chart_env0 :: ChartEnv where
  "chart_env0 =
     \<lparr>c_kube = kube0, c_fs = fs0, c_storage = storage0, c_remote = remote0, c_helm = helm0,
      c_chart = chartlib0\<rparr>"

text \<open>Three objects, each with the finalizer, not deleted and not suspended.\<close>

definition oci0 :: OCIRepository where
  "oci0 =
     \<lparr>Kind = ''ocirepository'', Namespace = ''flux-system'', Name = ''app'', Generation = 1,
      Finalizers = [SourceFinalizer], DeletionTimestamp = 0, Annotations = [],
      Spec_Suspend = False, Status_Conditions = (\<lambda>t. None), Status_Artifact = None,
      Status_URL = [], Status_ObservedGeneration = 1, Status_LastHandledReconcileAt = [],
      Spec_URL = ''oci://ghcr.io/org/app'', Spec_Reference = None, Spec_LayerSelector = None,
      Spec_Provider = GenericOCIProvider, Spec_SecretRef = None, Spec_Verify = None,
      Spec_ServiceAccountName = [], Spec_CertSecretRef = None, Spec_Insecure = False,
      Spec_Ignore = None, Status_ContentConfigChecksum = [], Status_ObservedIgnore = None,
      Status_ObservedLayerSelector = None\<rparr>"

definition repo0 :: HelmRepository where
  "repo0 =
     \<lparr>Kind = ''helmrepository'', Namespace = ''flux-system'', Name = ''podinfo'', Generation = 1,
      Finalizers = [SourceFinalizer], DeletionTimestamp = 0, Annotations = [],
      Spec_Suspend = False, Status_Conditions = (\<lambda>t. None), Status_Artifact = None,
      Status_URL = [], Status_ObservedGeneration = 1, Status_LastHandledReconcileAt = [],
      HR_Spec_URL = ''oci://ghcr.io/stefanprodan/charts'', HR_Spec_Type = HelmRepositoryTypeOCI,
      HR_Spec_Provider = GenericOCIProvider, HR_Spec_SecretRef = None, HR_Spec_Interval = 300,
      HR_Spec_PassCredentials = False\<rparr>"

definition chart0 :: HelmChart where
  "chart0 =
     \<lparr>Kind = ''helmchart'', Namespace = ''flux-system'', Name = ''podinfo'', Generation = 1,
      Finalizers = [SourceFinalizer], DeletionTimestamp = 0, Annotations = [],
      Spec_Suspend = False, Status_Conditions = (\<lambda>t. None), Status_Artifact = None,
      Status_URL = [], Status_ObservedGeneration = 1, Status_LastHandledReconcileAt = [],
      HC_Spec_Chart = ''podinfo'', HC_Spec_Version = ''>=6.0.0'',
      HC_Spec_SourceRef_Kind = HelmRepositoryKind, HC_Spec_SourceRef_Name = ''podinfo'',
      HC_Spec_ReconcileStrategy = ReconcileStrategyChartVersion, HC_Spec_ValuesFile = [],
      HC_Spec_ValuesFiles = [], HC_Spec_Verify = None,
      HC_Status_ObservedSourceArtifactRevision = [], HC_Status_ObservedChartName = []\<rparr>"

definition artifact0 :: Artifact where
  "artifact0 =
     \<lparr>Path = ''ocirepository/flux-system/app/4f5e.tar.gz'',
      URL = ''http://source-controller/ocirepository/flux-system/app/4f5e.tar.gz'',
      Revision = ''latest/4f5e'', Checksum = ''c0ffee'', Metadata = None\<rparr>"

definition world0 :: World where
  "world0 = \<lparr>Files = [''ocirepository/flux-system/app/4f5e.tar.gz''], Trace = []\<rparr>"

section \<open>Work on a new artifact\<close>

text \<open>
  The effects that make a new artifact: a pull from the registry, an archive or a copy
  into storage, and the event \<open>NewArtifact\<close>. A run from the world \<open>w\<close> to the world \<open>w'\<close>
  does no such work when the trace of \<open>w'\<close> extends the trace of \<open>w\<close> by other effects
  only, and storage holds no file that it did not hold before.
\<close>

fun newArtifactWork :: "effect \<Rightarrow> bool" where
  "newArtifactWork (E_Pull url) = True"
| "newArtifactWork (E_Archive path) = True"
| "newArtifactWork (E_CopyFromPath path) = True"
| "newArtifactWork (E_Event eventType reason) = (eventType = EventTypeNormal \<and> reason = ''NewArtifact'')"
| "newArtifactWork e = False"

definition noNewArtifactWork :: "World \<Rightarrow> World \<Rightarrow> bool" where
  "noNewArtifactWork w w' =
     (take (length (Trace w)) (Trace w') = Trace w \<and>
      list_all (\<lambda>e. \<not> newArtifactWork e) (drop (length (Trace w)) (Trace w')) \<and>
      set (Files w') \<subseteq> set (Files w))"

section \<open>Properties of the tag resolution\<close>

lemma matchingVersions_eq:
  "matchingVersions lib c acc ts = acc @ semver_candidates lib c ts"
  by (induction ts arbitrary: acc) (auto simp: semver_candidates_def List.map_filter_simps split: option.splits)

lemma mset_moveLeft: "mset (moveLeft lib v ws) = add_mset v (mset ws)"
  by (induction ws) auto

lemma set_moveLeft: "set (moveLeft lib v ws) = insert v (set ws)"
  by (induction ws) auto

lemma sorted_moveLeft:
  assumes "strict_weak_order (LessThan lib)"
  shows "sorted_wrt (\<lambda>a b. \<not> LessThan lib b a) ws \<Longrightarrow> sorted_wrt (\<lambda>a b. \<not> LessThan lib b a) (moveLeft lib v ws)"
proof (induction ws)
  case Nil
  then show ?case by simp
next
  case (Cons w ws)
  from assms have irr: "\<And>a. \<not> LessThan lib a a"
    and tr: "\<And>a b c. LessThan lib a b \<Longrightarrow> LessThan lib b c \<Longrightarrow> LessThan lib a c"
    and ntr: "\<And>a b c. \<not> LessThan lib a b \<Longrightarrow> \<not> LessThan lib b c \<Longrightarrow> \<not> LessThan lib a c"
    unfolding strict_weak_order_def by blast+
  show ?case
  proof (cases "LessThan lib w v")
    case True
    have "\<not> LessThan lib v w" using True irr tr by blast
    with Cons True show ?thesis by (auto simp: set_moveLeft)
  next
    case False
    have "\<forall>x\<in>set ws. \<not> LessThan lib x v"
      using Cons.prems False ntr by auto
    with Cons False show ?thesis by auto
  qed
qed

lemma mset_insertionSort: "mset (insertionSort lib p vs) = mset p + mset vs"
  by (induction vs arbitrary: p) (auto simp: mset_moveLeft)

lemma descending_insertionSort:
  assumes "strict_weak_order (LessThan lib)"
  shows "sorted_wrt (\<lambda>a b. \<not> LessThan lib b a) p \<Longrightarrow> descending lib (insertionSort lib p vs)"
proof (induction vs arbitrary: p)
  case Nil
  then show ?case by (simp add: descending_def sorted_wrt_rev)
next
  case (Cons v vs)
  then show ?case using sorted_moveLeft[OF assms] by simp
qed

lemma core_less_swo: "strict_weak_order core_less"
  unfolding strict_weak_order_def core_less_def by auto

lemma sortReverse_props:
  assumes "strict_weak_order (LessThan lib)"
  shows "mset (sortReverse lib vs) = mset vs" and "descending lib (sortReverse lib vs)"
  using descending_insertionSort[OF assms, of "[]" vs]
  by (simp_all add: sortReverse_def mset_insertionSort)

lemma descending_hd_maximum:
  assumes "descending lib s" and "s \<noteq> []" and "\<forall>a. \<not> LessThan lib a a"
  shows "\<forall>w\<in>set s. \<not> LessThan lib (hd s) w"
  using assms by (cases s) (auto simp: descending_def)


lemma core_semver_swo: "strict_weak_order (LessThan core_semver)"
  using core_less_swo by (simp add: core_semver_def)

lemma core_run:
  "getTagBySemver core_semver (\<lambda>u. Inr [''1.9.0'', ''latest'', ''1.10.0'', ''0.3.0'']) ''ghcr.io/org/app'' ''>=1.0.0'' = Inr ''1.10.0''"
  by (simp add: getTagBySemver_def core_semver_def core_constraint_def core_parse_def HasPrefix_def TrimPrefix_def numeric_def digit_def sortReverse_def core_less_def)

lemma core_con: "NewConstraint core_semver ''>=1.0.0'' = Inr (\<lambda>w. \<not> core_less w \<lparr>major = 1, minor = 0, patch = 0, original = ''1.0.0''\<rparr>)"
  by (simp add: core_semver_def core_constraint_def core_parse_def HasPrefix_def TrimPrefix_def numeric_def digit_def)

lemma core_cands: "semver_candidates core_semver (\<lambda>w. \<not> core_less w \<lparr>major = 1, minor = 0, patch = 0, original = ''1.0.0''\<rparr>) [''1.9.0'', ''latest'', ''1.10.0'', ''0.3.0'']
  = [\<lparr>major = 1, minor = 9, patch = 0, original = ''1.9.0''\<rparr>, \<lparr>major = 1, minor = 10, patch = 0, original = ''1.10.0''\<rparr>]"
  by (simp add: semver_candidates_def List.map_filter_simps core_semver_def core_parse_def HasPrefix_def TrimPrefix_def numeric_def digit_def core_less_def)

lemma core_match: "matching_tags core_semver (\<lambda>w. \<not> core_less w \<lparr>major = 1, minor = 0, patch = 0, original = ''1.0.0''\<rparr>) [''1.9.0'', ''latest'', ''1.10.0'', ''0.3.0'']
  = [''1.9.0'', ''1.10.0'']"
  by (simp add: matching_tags_def core_semver_def core_parse_def HasPrefix_def TrimPrefix_def numeric_def digit_def core_less_def)

lemma core_nomatch:
  "semver_candidates core_semver (\<lambda>w. \<not> core_less w \<lparr>major = 1, minor = 0, patch = 0, original = ''1.0.0''\<rparr>)
     [''0.9.0'', ''latest''] = []"
  by (simp add: semver_candidates_def List.map_filter_simps core_semver_def core_parse_def HasPrefix_def
      TrimPrefix_def numeric_def digit_def core_less_def)

text \<open>
  Claim C5. With the tags listed and the constraint parsed, \<open>getTagBySemver\<close> parses each
  tag, skipping those that fail to parse, keeps the versions that match the constraint,
  sorts them in descending order of semantic version and returns the first: the result is
  the original string of the head of a descending arrangement of the candidates. When
  no tag parses and matches, the result is the error \<open>no match found\<close>.
\<close>

theorem getTagBySemver_steps:
  assumes swo: "strict_weak_order (LessThan lib)"
    and tags: "listTags url = Inr tags"
    and con: "NewConstraint lib exp = Inr c"
  shows "(semver_candidates lib c tags = [] \<longrightarrow>
            getTagBySemver lib listTags url exp = Inl (New (''no match found for semver: '' @ exp))) \<and>
         (semver_candidates lib c tags \<noteq> [] \<longrightarrow>
            (\<exists>s. mset s = mset (semver_candidates lib c tags) \<and> descending lib s \<and> s \<noteq> [] \<and>
                 getTagBySemver lib listTags url exp = Inr (Original lib (hd s))))"
proof -
  let ?cs = "semver_candidates lib c tags"
  let ?s = "sortReverse lib ?cs"
  have mv: "matchingVersions lib c [] tags = ?cs"
    by (simp add: matchingVersions_eq)
  have ms: "mset ?s = mset ?cs" and de: "descending lib ?s"
    using sortReverse_props[OF swo] by blast+
  have run: "getTagBySemver lib listTags url exp =
      (case ?s of [] \<Rightarrow> Inl (New (''no match found for semver: '' @ exp)) | v # _ \<Rightarrow> Inr (Original lib v))"
    by (simp add: getTagBySemver_def tags con mv)
  show ?thesis
  proof (cases "?cs = []")
    case True
    then have "?s = []" using ms by (metis mset_zero_iff)
    with True run show ?thesis by simp
  next
    case False
    then have ne: "?s \<noteq> []" using ms by (metis mset_zero_iff)
    then have "getTagBySemver lib listTags url exp = Inr (Original lib (hd ?s))"
      using run by (cases ?s) auto
    with False ms de ne show ?thesis by blast
  qed
qed


theorem getTagBySemver_steps_witness:
  "\<exists>c s. NewConstraint core_semver ''>=1.0.0'' = Inr c \<and>
      semver_candidates core_semver c [''1.9.0'', ''latest'', ''1.10.0'', ''0.3.0''] \<noteq> [] \<and>
      mset s = mset (semver_candidates core_semver c [''1.9.0'', ''latest'', ''1.10.0'', ''0.3.0'']) \<and>
      descending core_semver s \<and> s \<noteq> [] \<and>
      getTagBySemver core_semver (\<lambda>u. Inr [''1.9.0'', ''latest'', ''1.10.0'', ''0.3.0''])
        ''ghcr.io/org/app'' ''>=1.0.0'' = Inr (Original core_semver (hd s)) \<and>
      semver_candidates core_semver c [''0.9.0'', ''latest''] = [] \<and>
      getTagBySemver core_semver (\<lambda>u. Inr [''0.9.0'', ''latest''])
        ''ghcr.io/org/app'' ''>=1.0.0'' = Inl (New (''no match found for semver: '' @ ''>=1.0.0''))"
proof -
  let ?tags = "[''1.9.0'', ''latest'', ''1.10.0'', ''0.3.0'']"
  let ?L = "\<lambda>u::string. (Inr ?tags :: error + string list)"
  let ?tags2 = "[''0.9.0'', ''latest'']"
  let ?L2 = "\<lambda>u::string. (Inr ?tags2 :: error + string list)"
  let ?c = "\<lambda>w. \<not> core_less w \<lparr>major = 1, minor = 0, patch = 0, original = ''1.0.0''\<rparr>"
  have ne: "semver_candidates core_semver ?c ?tags \<noteq> []"
    using core_cands by simp
  have a: "\<exists>s. mset s = mset (semver_candidates core_semver ?c ?tags) \<and>
      descending core_semver s \<and> s \<noteq> [] \<and>
      getTagBySemver core_semver ?L ''ghcr.io/org/app'' ''>=1.0.0'' = Inr (Original core_semver (hd s))"
    using getTagBySemver_steps[of core_semver ?L "''ghcr.io/org/app''" ?tags "''>=1.0.0''" ?c]
      core_semver_swo core_con ne by simp
  have b: "getTagBySemver core_semver ?L2 ''ghcr.io/org/app'' ''>=1.0.0'' =
        Inl (New (''no match found for semver: '' @ ''>=1.0.0''))"
    using getTagBySemver_steps[of core_semver ?L2 "''ghcr.io/org/app''" ?tags2 "''>=1.0.0''" ?c]
      core_semver_swo core_con core_nomatch by simp
  from a b ne core_nomatch core_con show ?thesis by blast
qed

text \<open>
  Claim C4, as amended. The tag chosen by \<open>getTagBySemver\<close> is the original string of a
  candidate (a tag that parses and matches the constraint) that no other candidate
  exceeds in the order of semantic versions; where the library returns the parsed tag as
  the original string, the chosen tag is one of the matching tags. The maximum is taken
  in the order of versions, not in the lexicographic order of the tag strings.
\<close>

theorem getTagBySemver_semver_maximum:
  assumes swo: "strict_weak_order (LessThan lib)"
    and tags: "listTags url = Inr tags"
    and con: "NewConstraint lib exp = Inr c"
    and res: "getTagBySemver lib listTags url exp = Inr tag"
  shows "(\<exists>v\<in>set (semver_candidates lib c tags).
            tag = Original lib v \<and>
            (\<forall>w\<in>set (semver_candidates lib c tags). \<not> LessThan lib v w)) \<and>
         ((\<forall>t v. ParseVersion lib t = Some v \<longrightarrow> Original lib v = t) \<longrightarrow>
            tag \<in> set (matching_tags lib c tags))"
proof -
  let ?cs = "semver_candidates lib c tags"
  let ?s = "sortReverse lib ?cs"
  have irr: "\<forall>a. \<not> LessThan lib a a"
    using swo unfolding strict_weak_order_def by blast
  have mv: "matchingVersions lib c [] tags = ?cs"
    by (simp add: matchingVersions_eq)
  have ms: "mset ?s = mset ?cs" and de: "descending lib ?s"
    using sortReverse_props[OF swo] by blast+
  have run: "getTagBySemver lib listTags url exp =
      (case ?s of [] \<Rightarrow> Inl (New (''no match found for semver: '' @ exp)) | v # _ \<Rightarrow> Inr (Original lib v))"
    by (simp add: getTagBySemver_def tags con mv)
  have ne: "?s \<noteq> []" using run res by (cases ?s) auto
  have tag: "tag = Original lib (hd ?s)" using run res by (cases ?s) auto
  have sets: "set ?s = set ?cs" using ms by (metis set_mset_mset)
  have mem: "hd ?s \<in> set ?cs" using ne sets by (metis hd_in_set)
  have mx: "\<forall>w\<in>set ?cs. \<not> LessThan lib (hd ?s) w"
    using descending_hd_maximum[OF de ne irr] sets by simp
  have first: "\<exists>v\<in>set ?cs. tag = Original lib v \<and> (\<forall>w\<in>set ?cs. \<not> LessThan lib v w)"
    using mem tag mx by blast
  have second: "(\<forall>t v. ParseVersion lib t = Some v \<longrightarrow> Original lib v = t) \<longrightarrow>
            tag \<in> set (matching_tags lib c tags)"
  proof
    assume orig: "\<forall>t v. ParseVersion lib t = Some v \<longrightarrow> Original lib v = t"
    from mem obtain t where t: "t \<in> set tags" "ParseVersion lib t = Some (hd ?s)" "c (hd ?s)"
      by (auto simp: semver_candidates_def List.map_filter_def)
    then have "Original lib (hd ?s) = t" using orig by blast
    with t tag show "tag \<in> set (matching_tags lib c tags)"
      by (auto simp: matching_tags_def)
  qed
  from first second show ?thesis by blast
qed


theorem getTagBySemver_semver_maximum_witness:
  "\<exists>c. NewConstraint core_semver ''>=1.0.0'' = Inr c \<and>
     getTagBySemver core_semver (\<lambda>u. Inr [''1.9.0'', ''latest'', ''1.10.0'', ''0.3.0''])
       ''ghcr.io/org/app'' ''>=1.0.0'' = Inr ''1.10.0'' \<and>
     (\<exists>v\<in>set (semver_candidates core_semver c [''1.9.0'', ''latest'', ''1.10.0'', ''0.3.0'']).
        ''1.10.0'' = Original core_semver v \<and>
        \<not> (\<exists>w\<in>set (semver_candidates core_semver c [''1.9.0'', ''latest'', ''1.10.0'', ''0.3.0'']).
             LessThan core_semver v w)) \<and>
     ''1.10.0'' \<in> set (matching_tags core_semver c [''1.9.0'', ''latest'', ''1.10.0'', ''0.3.0''])"
proof -
  let ?tags = "[''1.9.0'', ''latest'', ''1.10.0'', ''0.3.0'']"
  let ?L = "\<lambda>u::string. (Inr ?tags :: error + string list)"
  let ?c = "\<lambda>w. \<not> core_less w \<lparr>major = 1, minor = 0, patch = 0, original = ''1.0.0''\<rparr>"
  have orig: "\<forall>t v. ParseVersion core_semver t = Some v \<longrightarrow> Original core_semver v = t"
    by (auto simp: core_semver_def core_parse_def split: list.splits option.splits)
  have "(\<exists>v\<in>set (semver_candidates core_semver ?c ?tags).
            ''1.10.0'' = Original core_semver v \<and>
            (\<forall>w\<in>set (semver_candidates core_semver ?c ?tags). \<not> LessThan core_semver v w)) \<and>
         ((\<forall>t v. ParseVersion core_semver t = Some v \<longrightarrow> Original core_semver v = t) \<longrightarrow>
            ''1.10.0'' \<in> set (matching_tags core_semver ?c ?tags))"
    using getTagBySemver_semver_maximum[of core_semver ?L "''ghcr.io/org/app''" ?tags "''>=1.0.0''" ?c "''1.10.0''"]
      core_semver_swo core_con core_run by simp
  with orig core_con core_run show ?thesis by blast
qed

text \<open>
  Claim C4, as stated, fails: of the tags \<open>1.9.0\<close> and \<open>1.10.0\<close>, which both match
  \<open>>=1.0.0\<close>, the lexicographic maximum is \<open>1.9.0\<close>, and the tag chosen is \<open>1.10.0\<close>.
\<close>

theorem getTagBySemver_lexicographic_counterexample:
  "NewConstraint core_semver ''>=1.0.0'' =
     Inr (\<lambda>w. \<not> core_less w \<lparr>major = 1, minor = 0, patch = 0, original = ''1.0.0''\<rparr>) \<and>
   matching_tags core_semver (\<lambda>w. \<not> core_less w \<lparr>major = 1, minor = 0, patch = 0, original = ''1.0.0''\<rparr>)
     [''1.9.0'', ''1.10.0''] = [''1.9.0'', ''1.10.0''] \<and>
   lexicographic_maximum [''1.9.0'', ''1.10.0''] = ''1.9.0'' \<and>
   getTagBySemver core_semver (\<lambda>u. Inr [''1.9.0'', ''1.10.0'']) ''ghcr.io/org/app'' ''>=1.0.0'' =
     Inr ''1.10.0'' \<and>
   ''1.10.0'' \<noteq> lexicographic_maximum [''1.9.0'', ''1.10.0'']"
proof -
  have a: "matching_tags core_semver (\<lambda>w. \<not> core_less w \<lparr>major = 1, minor = 0, patch = 0, original = ''1.0.0''\<rparr>)
     [''1.9.0'', ''1.10.0''] = [''1.9.0'', ''1.10.0'']"
    by (simp add: matching_tags_def core_semver_def core_parse_def HasPrefix_def TrimPrefix_def
        numeric_def digit_def core_less_def)
  have b: "lexicographic_maximum [''1.9.0'', ''1.10.0''] = ''1.9.0''"
    by (simp add: lexicographic_maximum_def)
  have c: "getTagBySemver core_semver (\<lambda>u. Inr [''1.9.0'', ''1.10.0'']) ''ghcr.io/org/app'' ''>=1.0.0'' =
     Inr ''1.10.0''"
    by (simp add: getTagBySemver_def core_semver_def core_constraint_def core_parse_def HasPrefix_def
        TrimPrefix_def numeric_def digit_def sortReverse_def core_less_def)
  from a b c core_con show ?thesis by simp
qed

section \<open>Properties of the storage phase and of the deletion path\<close>

text \<open>Garbage collection of a live object keeps the object and the file of its artifact.\<close>

lemma GarbageCollect_keeps_current:
  "GarbageCollect s w a = (w1, del, e) \<Longrightarrow> ArtifactExist w1 a = ArtifactExist w a"
  by (auto simp: GarbageCollect_def ArtifactExist_def emit_def Let_def split: option.splits)

lemma OCI_garbageCollect_live:
  assumes "IsZero (DeletionTimestamp obj)" and "OCI_garbageCollect env obj w = (obj1, w1, e)"
  shows "obj1 = obj" and "\<And>a. Status_Artifact obj = Some a \<Longrightarrow> ArtifactExist w1 a = ArtifactExist w a"
  using assms
  by (auto simp: OCI_garbageCollect_def eventLogf_def emit_def ArtifactExist_def
      dest!: GarbageCollect_keeps_current[unfolded ArtifactExist_def]
      split: option.splits prod.splits if_splits)

lemma Chart_garbageCollect_live:
  assumes "IsZero (DeletionTimestamp obj)" and "Chart_garbageCollect env obj w = (obj1, w1, e)"
  shows "obj1 = obj" and "\<And>a. Status_Artifact obj = Some a \<Longrightarrow> ArtifactExist w1 a = ArtifactExist w a"
  using assms
  by (auto simp: Chart_garbageCollect_def eventLogf_def emit_def ArtifactExist_def
      dest!: GarbageCollect_keeps_current[unfolded ArtifactExist_def]
      split: option.splits prod.splits if_splits)

lemma OCI_reconcileStorage_artifact:
  assumes live: "IsZero (DeletionTimestamp obj)"
    and art: "Status_Artifact obj = Some a"
    and run: "OCI_reconcileStorage env obj metadata dir w = (obj', metadata', w', res, err)"
  shows "(\<not> ArtifactExist w a \<longrightarrow>
            Status_Artifact obj' = None \<and> Status_URL obj' = [] \<and>
            Status_Conditions obj' ArtifactInStorageCondition = None) \<and>
         (ArtifactExist w a \<longrightarrow>
            Status_Artifact obj' = Some (SetArtifactURL (storage env) a) \<and>
            Status_URL obj' = SetHostname (storage env) (Status_URL obj) \<and>
            res = ResultSuccess \<and> err = None)"
proof -
  obtain obj1 w1 e where gc: "OCI_garbageCollect env obj w = (obj1, w1, e)"
    by (cases "OCI_garbageCollect env obj w") auto
  have o1: "obj1 = obj" and ex: "ArtifactExist w1 a = ArtifactExist w a"
    using OCI_garbageCollect_live[OF live gc] art by auto
  show ?thesis
    using run art
    by (auto simp: OCI_reconcileStorage_def gc o1 ex Let_def Delete_def progressiveStatus_def
        split: option.splits if_splits)
qed

lemma Chart_reconcileStorage_artifact:
  assumes live: "IsZero (DeletionTimestamp obj)"
    and art: "Status_Artifact obj = Some a"
    and run: "Chart_reconcileStorage env obj build w = (obj', build', w', res, err)"
  shows "(\<not> ArtifactExist w a \<longrightarrow>
            Status_Artifact obj' = None \<and> Status_URL obj' = [] \<and>
            Status_Conditions obj' ArtifactInStorageCondition = None) \<and>
         (ArtifactExist w a \<longrightarrow>
            Status_Artifact obj' = Some (SetArtifactURL (c_storage env) a) \<and>
            Status_URL obj' = SetHostname (c_storage env) (Status_URL obj) \<and>
            res = ResultSuccess \<and> err = None)"
proof -
  obtain obj1 w1 e where gc: "Chart_garbageCollect env obj w = (obj1, w1, e)"
    by (cases "Chart_garbageCollect env obj w") auto
  have o1: "obj1 = obj" and ex: "ArtifactExist w1 a = ArtifactExist w a"
    using Chart_garbageCollect_live[OF live gc] art by auto
  show ?thesis
    using run art
    by (auto simp: Chart_reconcileStorage_def gc o1 ex Let_def Delete_def progressiveStatus_def
        split: option.splits if_splits)
qed

text \<open>
  Claim C2. The storage phase runs on objects that are not under deletion. When the
  status of such an object (an OCIRepository or a HelmChart) names an artifact whose file
  is not in storage, the phase returns the object with no artifact, no URL and no
  \<open>ArtifactInStorage\<close> condition. When the file is in storage, the artifact is kept, its
  URL is set from the current hostname of the storage, the URL of the status is rewritten
  with that hostname, and the phase succeeds.
\<close>

theorem reconcileStorage_artifact_in_storage:
  "(IsZero (DeletionTimestamp obj) \<longrightarrow> Status_Artifact obj = Some a \<longrightarrow>
    OCI_reconcileStorage env obj metadata dir w = (obj', metadata', w', res, err) \<longrightarrow>
      (\<not> ArtifactExist w a \<longrightarrow>
         Status_Artifact obj' = None \<and> Status_URL obj' = [] \<and>
         Status_Conditions obj' ArtifactInStorageCondition = None) \<and>
      (ArtifactExist w a \<longrightarrow>
         Status_Artifact obj' = Some (SetArtifactURL (storage env) a) \<and>
         Status_URL obj' = SetHostname (storage env) (Status_URL obj) \<and>
         res = ResultSuccess \<and> err = None)) \<and>
   (IsZero (DeletionTimestamp cobj) \<longrightarrow> Status_Artifact cobj = Some ca \<longrightarrow>
    Chart_reconcileStorage cenv cobj build cw = (cobj', build', cw', cres, cerr) \<longrightarrow>
      (\<not> ArtifactExist cw ca \<longrightarrow>
         Status_Artifact cobj' = None \<and> Status_URL cobj' = [] \<and>
         Status_Conditions cobj' ArtifactInStorageCondition = None) \<and>
      (ArtifactExist cw ca \<longrightarrow>
         Status_Artifact cobj' = Some (SetArtifactURL (c_storage cenv) ca) \<and>
         Status_URL cobj' = SetHostname (c_storage cenv) (Status_URL cobj) \<and>
         cres = ResultSuccess \<and> cerr = None))"
proof (rule conjI)
  show "IsZero (DeletionTimestamp obj) \<longrightarrow> Status_Artifact obj = Some a \<longrightarrow>
    OCI_reconcileStorage env obj metadata dir w = (obj', metadata', w', res, err) \<longrightarrow>
      (\<not> ArtifactExist w a \<longrightarrow>
         Status_Artifact obj' = None \<and> Status_URL obj' = [] \<and>
         Status_Conditions obj' ArtifactInStorageCondition = None) \<and>
      (ArtifactExist w a \<longrightarrow>
         Status_Artifact obj' = Some (SetArtifactURL (storage env) a) \<and>
         Status_URL obj' = SetHostname (storage env) (Status_URL obj) \<and>
         res = ResultSuccess \<and> err = None)"
    using OCI_reconcileStorage_artifact[of obj a env metadata dir w obj' metadata' w' res err]
    by blast
next
  show "IsZero (DeletionTimestamp cobj) \<longrightarrow> Status_Artifact cobj = Some ca \<longrightarrow>
    Chart_reconcileStorage cenv cobj build cw = (cobj', build', cw', cres, cerr) \<longrightarrow>
      (\<not> ArtifactExist cw ca \<longrightarrow>
         Status_Artifact cobj' = None \<and> Status_URL cobj' = [] \<and>
         Status_Conditions cobj' ArtifactInStorageCondition = None) \<and>
      (ArtifactExist cw ca \<longrightarrow>
         Status_Artifact cobj' = Some (SetArtifactURL (c_storage cenv) ca) \<and>
         Status_URL cobj' = SetHostname (c_storage cenv) (Status_URL cobj) \<and>
         cres = ResultSuccess \<and> cerr = None)"
    using Chart_reconcileStorage_artifact[of cobj ca cenv build cw cobj' build' cw' cres cerr]
    by blast
qed

theorem reconcileStorage_artifact_in_storage_witness:
  "IsZero (DeletionTimestamp (oci0\<lparr>Status_Artifact := Some artifact0\<rparr>)) \<and>
   ArtifactExist world0 artifact0 \<and>
   \<not> ArtifactExist \<lparr>Files = [], Trace = []\<rparr> artifact0 \<and>
   (\<exists>obj' rest.
      OCI_reconcileStorage oci_env0 (oci0\<lparr>Status_Artifact := Some artifact0\<rparr>) emptyArtifact ''/tmp''
        world0 = (obj', rest) \<and>
      Status_Artifact obj' = Some artifact0) \<and>
   (\<exists>obj' rest.
      OCI_reconcileStorage oci_env0 (oci0\<lparr>Status_Artifact := Some artifact0\<rparr>) emptyArtifact ''/tmp''
        \<lparr>Files = [], Trace = []\<rparr> = (obj', rest) \<and>
      Status_Artifact obj' = None \<and> Status_URL obj' = [] \<and>
      Status_Conditions obj' ArtifactInStorageCondition = None) \<and>
   (\<exists>obj' rest.
      Chart_reconcileStorage chart_env0 (chart0\<lparr>Status_Artifact := Some artifact0\<rparr>) emptyBuild
        world0 = (obj', rest) \<and>
      Status_Artifact obj' = Some artifact0) \<and>
   (\<exists>obj' rest.
      Chart_reconcileStorage chart_env0 (chart0\<lparr>Status_Artifact := Some artifact0\<rparr>) emptyBuild
        \<lparr>Files = [], Trace = []\<rparr> = (obj', rest) \<and>
      Status_Artifact obj' = None \<and> Status_URL obj' = [] \<and>
      Status_Conditions obj' ArtifactInStorageCondition = None)"
proof -
  let ?o = "oci0\<lparr>Status_Artifact := Some artifact0\<rparr>"
  let ?c = "chart0\<lparr>Status_Artifact := Some artifact0\<rparr>"
  let ?e = "\<lparr>Files = [], Trace = []\<rparr>"
  have live: "IsZero (DeletionTimestamp ?o)" "IsZero (DeletionTimestamp ?c)"
    by (simp_all add: IsZero_def oci0_def chart0_def)
  have art: "Status_Artifact ?o = Some artifact0" "Status_Artifact ?c = Some artifact0"
    by simp_all
  have there: "ArtifactExist world0 artifact0" and gone: "\<not> ArtifactExist ?e artifact0"
    by (simp_all add: ArtifactExist_def world0_def artifact0_def)
  have url: "SetArtifactURL (storage oci_env0) artifact0 = artifact0"
    "SetArtifactURL (c_storage chart_env0) artifact0 = artifact0"
    by (simp_all add: SetArtifactURL_def oci_env0_def chart_env0_def storage0_def artifact0_def)
  obtain o1 m1 w1 r1 e1 where run1:
    "OCI_reconcileStorage oci_env0 ?o emptyArtifact ''/tmp'' world0 = (o1, m1, w1, r1, e1)"
    by (metis prod_cases5)
  obtain o2 m2 w2 r2 e2 where run2:
    "OCI_reconcileStorage oci_env0 ?o emptyArtifact ''/tmp'' ?e = (o2, m2, w2, r2, e2)"
    by (metis prod_cases5)
  obtain c1 b1 v1 s1 f1 where run3:
    "Chart_reconcileStorage chart_env0 ?c emptyBuild world0 = (c1, b1, v1, s1, f1)"
    by (metis prod_cases5)
  obtain c2 b2 v2 s2 f2 where run4:
    "Chart_reconcileStorage chart_env0 ?c emptyBuild ?e = (c2, b2, v2, s2, f2)"
    by (metis prod_cases5)
  have p1: "Status_Artifact o1 = Some artifact0"
    using reconcileStorage_artifact_in_storage[of ?o artifact0 oci_env0 emptyArtifact "''/tmp''"
        world0 o1 m1 w1 r1 e1 ?c artifact0 chart_env0 emptyBuild world0 c1 b1 v1 s1 f1]
      live art there run1 url by simp
  have p3: "Status_Artifact c1 = Some artifact0"
    using reconcileStorage_artifact_in_storage[of ?o artifact0 oci_env0 emptyArtifact "''/tmp''"
        world0 o1 m1 w1 r1 e1 ?c artifact0 chart_env0 emptyBuild world0 c1 b1 v1 s1 f1]
      live art there run3 url by simp
  have p2: "Status_Artifact o2 = None \<and> Status_URL o2 = [] \<and>
            Status_Conditions o2 ArtifactInStorageCondition = None"
    using reconcileStorage_artifact_in_storage[of ?o artifact0 oci_env0 emptyArtifact "''/tmp''"
        ?e o2 m2 w2 r2 e2 ?c artifact0 chart_env0 emptyBuild ?e c2 b2 v2 s2 f2]
      live art gone run2 by simp
  have p4: "Status_Artifact c2 = None \<and> Status_URL c2 = [] \<and>
            Status_Conditions c2 ArtifactInStorageCondition = None"
    using reconcileStorage_artifact_in_storage[of ?o artifact0 oci_env0 emptyArtifact "''/tmp''"
        ?e o2 m2 w2 r2 e2 ?c artifact0 chart_env0 emptyBuild ?e c2 b2 v2 s2 f2]
      live art gone run4 by simp
  from live there gone run1 run2 run3 run4 p1 p2 p3 p4 show ?thesis by simp
qed

lemma Dir_wildcard: "Dir (ArtifactPath kind ns n ''*'') = ArtifactDir kind ns n"
  by (simp add: Dir_def ArtifactPath_def)

lemma RemoveAll_empties:
  "RemoveAll s w a = (w1, deleted, None) \<Longrightarrow> \<forall>f\<in>set (Files w1). \<not> InDir (Dir (Path a)) f"
  by (auto simp: RemoveAll_def emit_def Let_def split: option.splits)

lemma RemoveAll_error_iff:
  "RemoveAll s w a = (w1, deleted, e) \<Longrightarrow> e = RemoveAll_error s"
  by (auto simp: RemoveAll_def emit_def Let_def split: option.splits)

lemma Path_NewArtifactFor:
  "Path (NewArtifactFor s kind obj r f) = ArtifactPath kind (Namespace obj) (Name obj) f"
  by (simp add: NewArtifactFor_def SetArtifactURL_def)

lemma OCI_reconcileDelete_order:
  assumes del: "\<not> IsZero (DeletionTimestamp obj)"
    and run: "OCI_reconcileDelete env obj w = (obj', w', res, err)"
  shows "(err = None \<longrightarrow>
            (\<forall>f\<in>set (Files w'). \<not> InDir (ArtifactDir (Kind obj) (Namespace obj) (Name obj)) f) \<and>
            \<not> ContainsFinalizer obj' SourceFinalizer \<and> Status_Artifact obj' = None) \<and>
         (err \<noteq> None \<longrightarrow> RemoveAll_error (storage env) \<noteq> None \<and> Finalizers obj' = Finalizers obj)"
proof -
  let ?a = "NewArtifactFor (storage env) (Kind obj) obj [] ''*''"
  obtain w1 deleted e where ra: "RemoveAll (storage env) w ?a = (w1, deleted, e)"
    by (cases "RemoveAll (storage env) w ?a") auto
  have d: "Dir (Path ?a) = ArtifactDir (Kind obj) (Namespace obj) (Name obj)"
    by (simp add: Path_NewArtifactFor Dir_wildcard)
  show ?thesis
  proof (cases e)
    case None
    have "\<forall>f\<in>set (Files w1). \<not> InDir (ArtifactDir (Kind obj) (Namespace obj) (Name obj)) f"
      using RemoveAll_empties[OF ra[unfolded None]] d by simp
    then show ?thesis
      using run del ra None
      by (auto simp: OCI_reconcileDelete_def OCI_garbageCollect_def RemoveFinalizer_def
          ContainsFinalizer_def eventLogf_def emit_def split: if_splits)
  next
    case (Some x)
    then show ?thesis
      using run del ra RemoveAll_error_iff[OF ra]
      by (auto simp: OCI_reconcileDelete_def OCI_garbageCollect_def)
  qed
qed

lemma Chart_reconcileDelete_order:
  assumes del: "\<not> IsZero (DeletionTimestamp obj)"
    and run: "Chart_reconcileDelete env obj w = (obj', w', res, err)"
  shows "(err = None \<longrightarrow>
            (\<forall>f\<in>set (Files w'). \<not> InDir (ArtifactDir (Kind obj) (Namespace obj) (Name obj)) f) \<and>
            \<not> ContainsFinalizer obj' SourceFinalizer \<and> Status_Artifact obj' = None) \<and>
         (err \<noteq> None \<longrightarrow> RemoveAll_error (c_storage env) \<noteq> None \<and> Finalizers obj' = Finalizers obj)"
proof -
  let ?a = "NewArtifactFor (c_storage env) (Kind obj) obj [] ''*''"
  obtain w1 deleted e where ra: "RemoveAll (c_storage env) w ?a = (w1, deleted, e)"
    by (cases "RemoveAll (c_storage env) w ?a") auto
  have d: "Dir (Path ?a) = ArtifactDir (Kind obj) (Namespace obj) (Name obj)"
    by (simp add: Path_NewArtifactFor Dir_wildcard)
  show ?thesis
  proof (cases e)
    case None
    have "\<forall>f\<in>set (Files w1). \<not> InDir (ArtifactDir (Kind obj) (Namespace obj) (Name obj)) f"
      using RemoveAll_empties[OF ra[unfolded None]] d by simp
    then show ?thesis
      using run del ra None
      by (auto simp: Chart_reconcileDelete_def Chart_garbageCollect_def RemoveFinalizer_def
          ContainsFinalizer_def eventLogf_def emit_def split: if_splits)
  next
    case (Some x)
    then show ?thesis
      using run del ra RemoveAll_error_iff[OF ra]
      by (auto simp: Chart_reconcileDelete_def Chart_garbageCollect_def)
  qed
qed

text \<open>
  Claim C1, amended. On the deletion path of an OCIRepository and of a HelmChart, when the
  phase returns without an error, no file is left below the directory of the object in
  storage, the artifact of the status is cleared and the finalizer is removed; when it
  returns an error, the removal from storage has failed and the finalizers are the ones
  the object had. So the finalizer is never removed while a file of the object remains.
\<close>

theorem reconcileDelete_removes_artifacts_first:
  "(\<not> IsZero (DeletionTimestamp obj) \<longrightarrow>
    OCI_reconcileDelete env obj w = (obj', w', res, err) \<longrightarrow>
      (err = None \<longrightarrow>
         (\<forall>f\<in>set (Files w'). \<not> InDir (ArtifactDir (Kind obj) (Namespace obj) (Name obj)) f) \<and>
         \<not> ContainsFinalizer obj' SourceFinalizer \<and> Status_Artifact obj' = None) \<and>
      (err \<noteq> None \<longrightarrow> RemoveAll_error (storage env) \<noteq> None \<and> Finalizers obj' = Finalizers obj) \<and>
      (ContainsFinalizer obj SourceFinalizer \<longrightarrow> \<not> ContainsFinalizer obj' SourceFinalizer \<longrightarrow>
         (\<forall>f\<in>set (Files w'). \<not> InDir (ArtifactDir (Kind obj) (Namespace obj) (Name obj)) f))) \<and>
   (\<not> IsZero (DeletionTimestamp cobj) \<longrightarrow>
    Chart_reconcileDelete cenv cobj cw = (cobj', cw', cres, cerr) \<longrightarrow>
      (cerr = None \<longrightarrow>
         (\<forall>f\<in>set (Files cw'). \<not> InDir (ArtifactDir (Kind cobj) (Namespace cobj) (Name cobj)) f) \<and>
         \<not> ContainsFinalizer cobj' SourceFinalizer \<and> Status_Artifact cobj' = None) \<and>
      (cerr \<noteq> None \<longrightarrow> RemoveAll_error (c_storage cenv) \<noteq> None \<and> Finalizers cobj' = Finalizers cobj) \<and>
      (ContainsFinalizer cobj SourceFinalizer \<longrightarrow> \<not> ContainsFinalizer cobj' SourceFinalizer \<longrightarrow>
         (\<forall>f\<in>set (Files cw'). \<not> InDir (ArtifactDir (Kind cobj) (Namespace cobj) (Name cobj)) f)))"
proof -
  have a: "\<not> IsZero (DeletionTimestamp obj) \<longrightarrow>
    OCI_reconcileDelete env obj w = (obj', w', res, err) \<longrightarrow>
      (err = None \<longrightarrow>
         (\<forall>f\<in>set (Files w'). \<not> InDir (ArtifactDir (Kind obj) (Namespace obj) (Name obj)) f) \<and>
         \<not> ContainsFinalizer obj' SourceFinalizer \<and> Status_Artifact obj' = None) \<and>
      (err \<noteq> None \<longrightarrow> RemoveAll_error (storage env) \<noteq> None \<and> Finalizers obj' = Finalizers obj) \<and>
      (ContainsFinalizer obj SourceFinalizer \<longrightarrow> \<not> ContainsFinalizer obj' SourceFinalizer \<longrightarrow>
         (\<forall>f\<in>set (Files w'). \<not> InDir (ArtifactDir (Kind obj) (Namespace obj) (Name obj)) f))"
    using OCI_reconcileDelete_order[of obj env w obj' w' res err]
    by (auto simp: ContainsFinalizer_def)
  have b: "\<not> IsZero (DeletionTimestamp cobj) \<longrightarrow>
    Chart_reconcileDelete cenv cobj cw = (cobj', cw', cres, cerr) \<longrightarrow>
      (cerr = None \<longrightarrow>
         (\<forall>f\<in>set (Files cw'). \<not> InDir (ArtifactDir (Kind cobj) (Namespace cobj) (Name cobj)) f) \<and>
         \<not> ContainsFinalizer cobj' SourceFinalizer \<and> Status_Artifact cobj' = None) \<and>
      (cerr \<noteq> None \<longrightarrow> RemoveAll_error (c_storage cenv) \<noteq> None \<and> Finalizers cobj' = Finalizers cobj) \<and>
      (ContainsFinalizer cobj SourceFinalizer \<longrightarrow> \<not> ContainsFinalizer cobj' SourceFinalizer \<longrightarrow>
         (\<forall>f\<in>set (Files cw'). \<not> InDir (ArtifactDir (Kind cobj) (Namespace cobj) (Name cobj)) f))"
    using Chart_reconcileDelete_order[of cobj cenv cw cobj' cw' cres cerr]
    by (auto simp: ContainsFinalizer_def)
  from a b show ?thesis by (rule conjI)
qed

theorem reconcileDelete_removes_artifacts_first_witness:
  "\<not> IsZero (DeletionTimestamp (oci0\<lparr>DeletionTimestamp := 7, Status_Artifact := Some artifact0\<rparr>)) \<and>
   ContainsFinalizer (oci0\<lparr>DeletionTimestamp := 7, Status_Artifact := Some artifact0\<rparr>) SourceFinalizer \<and>
   (\<exists>obj' w' res.
      OCI_reconcileDelete oci_env0 (oci0\<lparr>DeletionTimestamp := 7, Status_Artifact := Some artifact0\<rparr>)
        world0 = (obj', w', res, None) \<and>
      Files w' = [] \<and>
      (\<forall>f\<in>set (Files w'). \<not> InDir (ArtifactDir ''ocirepository'' ''flux-system'' ''app'') f) \<and>
      \<not> ContainsFinalizer obj' SourceFinalizer \<and> Status_Artifact obj' = None) \<and>
   \<not> IsZero (DeletionTimestamp (chart0\<lparr>DeletionTimestamp := 7\<rparr>)) \<and>
   (\<exists>obj' w' res.
      Chart_reconcileDelete chart_env0 (chart0\<lparr>DeletionTimestamp := 7\<rparr>)
        \<lparr>Files = [''helmchart/flux-system/podinfo/podinfo-6.2.0.tgz''], Trace = []\<rparr>
        = (obj', w', res, None) \<and>
      Files w' = [] \<and>
      (\<forall>f\<in>set (Files w'). \<not> InDir (ArtifactDir ''helmchart'' ''flux-system'' ''podinfo'') f) \<and>
      \<not> ContainsFinalizer obj' SourceFinalizer \<and> Status_Artifact obj' = None)"
proof -
  let ?o = "oci0\<lparr>DeletionTimestamp := 7, Status_Artifact := Some artifact0\<rparr>"
  let ?c = "chart0\<lparr>DeletionTimestamp := 7\<rparr>"
  let ?cw = "\<lparr>Files = [''helmchart/flux-system/podinfo/podinfo-6.2.0.tgz''], Trace = []\<rparr>"
  have del: "\<not> IsZero (DeletionTimestamp ?o)" "\<not> IsZero (DeletionTimestamp ?c)"
    by (simp_all add: IsZero_def)
  have fin: "ContainsFinalizer ?o SourceFinalizer"
    by (simp add: ContainsFinalizer_def oci0_def)
  have names: "Kind ?o = ''ocirepository''" "Namespace ?o = ''flux-system''" "Name ?o = ''app''"
    "Kind ?c = ''helmchart''" "Namespace ?c = ''flux-system''" "Name ?c = ''podinfo''"
    by (simp_all add: oci0_def chart0_def)
  obtain o1 w1 r1 where run1: "OCI_reconcileDelete oci_env0 ?o world0 = (o1, w1, r1, None)"
    and files1: "Files w1 = []"
    by (simp add: OCI_reconcileDelete_def OCI_garbageCollect_def IsZero_def RemoveAll_def
        oci_env0_def storage0_def NewArtifactFor_def SetArtifactURL_def ArtifactPath_def
        ArtifactDir_def Dir_def InDir_def HasPrefix_def emit_def eventLogf_def world0_def
        oci0_def Let_def)
  obtain c1 v1 s1 where run2: "Chart_reconcileDelete chart_env0 ?c ?cw = (c1, v1, s1, None)"
    and files2: "Files v1 = []"
    by (simp add: Chart_reconcileDelete_def Chart_garbageCollect_def IsZero_def RemoveAll_def
        chart_env0_def storage0_def NewArtifactFor_def SetArtifactURL_def ArtifactPath_def
        ArtifactDir_def Dir_def InDir_def HasPrefix_def emit_def eventLogf_def
        chart0_def Let_def)
  have p: "((\<forall>f\<in>set (Files w1). \<not> InDir (ArtifactDir ''ocirepository'' ''flux-system'' ''app'') f) \<and>
            \<not> ContainsFinalizer o1 SourceFinalizer \<and> Status_Artifact o1 = None) \<and>
           ((\<forall>f\<in>set (Files v1). \<not> InDir (ArtifactDir ''helmchart'' ''flux-system'' ''podinfo'') f) \<and>
            \<not> ContainsFinalizer c1 SourceFinalizer \<and> Status_Artifact c1 = None)"
    using reconcileDelete_removes_artifacts_first[of ?o oci_env0 world0 o1 w1 r1 None
        ?c chart_env0 ?cw c1 v1 s1 None] del run1 run2 names
    by simp
  from del fin run1 run2 files1 files2 p show ?thesis by simp
qed

text \<open>
  Claim C1, as stated, fails for a HelmRepository of type OCI: its reconciler has no
  storage, and its deletion path removes the finalizer whatever the storage holds. Here a
  file below the directory of the object is still there after the finalizer is gone,
  in \<open>reconcileDelete\<close> as in the whole of \<open>Reconcile\<close>.
\<close>

theorem HelmOCI_reconcileDelete_counterexample:
  "\<not> IsZero (DeletionTimestamp (repo0\<lparr>DeletionTimestamp := 7\<rparr>)) \<and>
   ContainsFinalizer (repo0\<lparr>DeletionTimestamp := 7\<rparr>) SourceFinalizer \<and>
   InDir (ArtifactDir (Kind repo0) (Namespace repo0) (Name repo0))
     ''helmrepository/flux-system/podinfo/index-4f5e.yaml'' \<and>
   HelmOCI_reconcileDelete helm_env0 (repo0\<lparr>DeletionTimestamp := 7\<rparr>)
       \<lparr>Files = [''helmrepository/flux-system/podinfo/index-4f5e.yaml''], Trace = []\<rparr> =
     (repo0\<lparr>DeletionTimestamp := 7, Finalizers := []\<rparr>,
      \<lparr>Files = [''helmrepository/flux-system/podinfo/index-4f5e.yaml''], Trace = []\<rparr>,
      emptyResult, None) \<and>
   HelmOCI_Reconcile helm_env0
       \<lparr>Files = [''helmrepository/flux-system/podinfo/index-4f5e.yaml''], Trace = []\<rparr>
       (repo0\<lparr>DeletionTimestamp := 7\<rparr>) =
     Return (repo0\<lparr>DeletionTimestamp := 7, Finalizers := []\<rparr>,
             \<lparr>Files = [''helmrepository/flux-system/podinfo/index-4f5e.yaml''], Trace = [E_Patch False]\<rparr>,
             emptyResult, None) \<and>
   \<not> ContainsFinalizer (repo0\<lparr>DeletionTimestamp := 7, Finalizers := []\<rparr>) SourceFinalizer"
  by (simp add: HelmOCI_Reconcile_def HelmOCI_reconcileDelete_def HelmOCI_patch_def IsZero_def
      ContainsFinalizer_def RemoveFinalizer_def repo0_def InDir_def ArtifactDir_def HasPrefix_def
      helm_env0_def kube0_def emit_def ReconcileAnnotationValue_def IsStalled_def IsReady_def
      IsTrue_def emptyResult_def SourceFinalizer_def Let_def)

section \<open>Properties of the HelmChart build from a tarball\<close>

text \<open>
  Claim C10. In \<open>buildFromTarballArtifact\<close>, with the reconcile strategy \<open>Revision\<close> and a
  source that is a GitRepository or a Bucket, once the tarball has been unpacked: the
  revision \<open>r\<close> is the revision of the source artifact (for a GitRepository its segment
  after the last \<open>/\<close>); when \<open>r\<close> has fewer than 12 characters the function panics; when
  it has at least 12, the version metadata is the first 12 characters of \<open>r\<close> and the
  function returns what the local build returns with that metadata.
\<close>

theorem buildFromTarballArtifact_revision_slice:
  assumes strategy: "HC_Spec_ReconcileStrategy obj = ReconcileStrategyRevision"
    and kind: "HC_Spec_SourceRef_Kind obj = GitRepositoryKind \<or> HC_Spec_SourceRef_Kind obj = BucketKind"
    and tmp: "TempDirForObj (c_fs env) = Inr tmpDir"
    and mkdir: "Mkdir_error (c_fs env) = None"
    and opn: "Open_error (c_fs env) = None"
    and untar: "Untar (c_fs env) (LocalPath (c_storage env) source) (tmpDir @ ''/source'') = None"
    and cls: "Close_error (c_fs env) = None"
    and r: "r = (if HC_Spec_SourceRef_Kind obj = GitRepositoryKind
                     then last (Split (Revision source) (CHR ''/'')) else Revision source)"
  shows "(length r < 12 \<longrightarrow> Chart_buildFromTarballArtifact env obj source b w = Panic) \<and>
         (12 \<le> length r \<longrightarrow>
            revisionMetadata obj source = Return (take 12 r) \<and>
            Chart_buildFromTarballArtifact env obj source b w =
              Return (Chart_clearDependencies env
                        (Chart_localBuild env obj b w (tmpDir @ ''/source'') (take 12 r))) \<and>
            (Opt_GetValuesFiles (c_chart env) (GetValuesFiles obj) = [] \<longrightarrow>
               Opt_VersionMetadata (localBuildOptions env obj (take 12 r)) = take 12 r))"
proof -
  have rm: "revisionMetadata obj source = (if length r < 12 then Panic else Return (take 12 r))"
    using strategy kind r by (auto simp: revisionMetadata_def Let_def)
  have run: "Chart_buildFromTarballArtifact env obj source b w =
      (case revisionMetadata obj source of
         Panic \<Rightarrow> Panic
       | Return versionMetadata \<Rightarrow>
           Return (Chart_clearDependencies env
                     (Chart_localBuild env obj b w (tmpDir @ ''/source'') versionMetadata)))"
    by (simp add: Chart_buildFromTarballArtifact_def tmp mkdir opn untar cls Let_def)
  show ?thesis
    by (simp add: run rm localBuildOptions_def)
qed

theorem buildFromTarballArtifact_revision_slice_witness:
  "Chart_buildFromTarballArtifact chart_env0
     (chart0\<lparr>HC_Spec_SourceRef_Kind := GitRepositoryKind,
             HC_Spec_ReconcileStrategy := ReconcileStrategyRevision\<rparr>)
     (artifact0\<lparr>Revision := ''main/4f5e''\<rparr>) emptyBuild world0 = Panic \<and>
   revisionMetadata
     (chart0\<lparr>HC_Spec_SourceRef_Kind := GitRepositoryKind,
             HC_Spec_ReconcileStrategy := ReconcileStrategyRevision\<rparr>)
     (artifact0\<lparr>Revision := ''main/0123456789abcdef''\<rparr>) = Return ''0123456789ab'' \<and>
   Chart_buildFromTarballArtifact chart_env0
     (chart0\<lparr>HC_Spec_SourceRef_Kind := BucketKind,
             HC_Spec_ReconcileStrategy := ReconcileStrategyRevision\<rparr>)
     (artifact0\<lparr>Revision := ''4f5e''\<rparr>) emptyBuild world0 = Panic"
proof -
  let ?g = "chart0\<lparr>HC_Spec_SourceRef_Kind := GitRepositoryKind,
                   HC_Spec_ReconcileStrategy := ReconcileStrategyRevision\<rparr>"
  let ?b = "chart0\<lparr>HC_Spec_SourceRef_Kind := BucketKind,
                   HC_Spec_ReconcileStrategy := ReconcileStrategyRevision\<rparr>"
  have env: "TempDirForObj (c_fs chart_env0) = Inr ''/tmp/obj''" "Mkdir_error (c_fs chart_env0) = None"
    "Open_error (c_fs chart_env0) = None" "Close_error (c_fs chart_env0) = None"
    "\<And>s. Untar (c_fs chart_env0) (LocalPath (c_storage chart_env0) s) (''/tmp/obj'' @ ''/source'') = None"
    by (simp_all add: chart_env0_def fs0_def)
  have short: "last (Split ''main/4f5e'' (CHR ''/'')) = ''4f5e''"
    and long: "last (Split ''main/0123456789abcdef'' (CHR ''/'')) = ''0123456789abcdef''"
    by simp_all
  have a: "Chart_buildFromTarballArtifact chart_env0 ?g (artifact0\<lparr>Revision := ''main/4f5e''\<rparr>)
             emptyBuild world0 = Panic"
    using buildFromTarballArtifact_revision_slice[of ?g chart_env0 "''/tmp/obj''"
        "artifact0\<lparr>Revision := ''main/4f5e''\<rparr>" "''4f5e''" emptyBuild world0] env short
    by (simp add: GitRepositoryKind_def BucketKind_def)
  have b: "revisionMetadata ?g (artifact0\<lparr>Revision := ''main/0123456789abcdef''\<rparr>) =
             Return ''0123456789ab''"
    using buildFromTarballArtifact_revision_slice[of ?g chart_env0 "''/tmp/obj''"
        "artifact0\<lparr>Revision := ''main/0123456789abcdef''\<rparr>" "''0123456789abcdef''"
        emptyBuild world0] env long
    by (simp add: GitRepositoryKind_def BucketKind_def)
  have c: "Chart_buildFromTarballArtifact chart_env0 ?b (artifact0\<lparr>Revision := ''4f5e''\<rparr>)
             emptyBuild world0 = Panic"
    using buildFromTarballArtifact_revision_slice[of ?b chart_env0 "''/tmp/obj''"
        "artifact0\<lparr>Revision := ''4f5e''\<rparr>" "''4f5e''" emptyBuild world0] env
    by (simp add: GitRepositoryKind_def BucketKind_def)
  from a b c show ?thesis by simp
qed

section \<open>Properties of \<open>Reconcile\<close> on a suspended object\<close>




section \<open>Properties of the cloud credentials\<close>

text \<open>
  Claim C7. In the three places that ask the cloud provider for credentials (the source
  phase of an OCIRepository, \<open>reconcile\<close> of a HelmRepository of type OCI, and the build
  of a HelmChart from such a repository), when the request fails: if the error is
  \<open>ErrUnconfiguredProvider\<close>, the run goes on exactly as with no authenticator, on the
  anonymous keychain, and nothing is recorded for the error; any other error ends the run
  with that error and is recorded with the reason \<open>AuthenticationFailed\<close>, on the
  \<open>FetchFailed\<close> condition (OCIRepository, HelmChart) or on \<open>Ready=False\<close> (HelmRepository).
\<close>

theorem unconfigured_provider_falls_through:
  "(keychain env (if IsFalse obj SourceVerifiedCondition then Delete obj SourceVerifiedCondition else obj) w
      = (w1, Inr Anonymous) \<longrightarrow>
    Spec_Provider obj \<noteq> GenericOCIProvider \<longrightarrow>
    oidcAuth (remote env) (Spec_URL obj) (Spec_Provider obj) = Inl authErr \<longrightarrow>
      (errors_Is authErr ErrUnconfiguredProvider \<longrightarrow>
         OCI_reconcileSource env obj metadata dir w =
           OCI_resolve env
             (if IsFalse obj SourceVerifiedCondition then Delete obj SourceVerifiedCondition else obj)
             metadata dir w1 Anonymous None) \<and>
      (\<not> errors_Is authErr ErrUnconfiguredProvider \<longrightarrow>
         (\<exists>obj' e. OCI_reconcileSource env obj metadata dir w = (obj', metadata, w1, ResultEmpty, Some e) \<and>
            errReason e = AuthenticationFailedReason \<and>
            e = Generic (Errorf (''failed to get credential from '' @ Spec_Provider obj @ '': '') authErr)
                  AuthenticationFailedReason \<and>
            IsTrue obj' FetchFailedCondition \<and>
            map_option Reason (Status_Conditions obj' FetchFailedCondition) = Some AuthenticationFailedReason))) \<and>
   (IsOCI (HR_Spec_URL hobj) \<longrightarrow> HR_Spec_SecretRef hobj = None \<longrightarrow>
    HR_Spec_Provider hobj \<noteq> GenericOCIProvider \<longrightarrow> HR_Spec_Type hobj = HelmRepositoryTypeOCI \<longrightarrow>
    oidcAuth (hr_remote henv) (HR_Spec_URL hobj) (HR_Spec_Provider hobj) = Inl hauthErr \<longrightarrow>
      (errors_Is hauthErr ErrUnconfiguredProvider \<longrightarrow>
         HelmOCI_authenticate henv hobj hw = HelmOCI_login henv (Delete hobj StalledCondition) hw None None \<and>
         makeLoginOption (hr_helm henv) None None (HR_Spec_URL hobj) = Inr None) \<and>
      (\<not> errors_Is hauthErr ErrUnconfiguredProvider \<longrightarrow>
         (\<exists>obj' e. HelmOCI_authenticate henv hobj hw = (obj', hw, emptyResult, Some e) \<and>
            e = Errorf (''failed to get credential from '' @ HR_Spec_Provider hobj @ '': '') hauthErr \<and>
            IsFalse obj' ReadyCondition \<and>
            map_option Reason (Status_Conditions obj' ReadyCondition) = Some AuthenticationFailedReason))) \<and>
   (HR_Spec_SecretRef repo = None \<longrightarrow>
    HR_Spec_Provider repo \<noteq> GenericOCIProvider \<longrightarrow> HR_Spec_Type repo = HelmRepositoryTypeOCI \<longrightarrow>
    oidcAuth (c_remote cenv) (HR_Spec_URL repo) (HR_Spec_Provider repo) = Inl cauthErr \<longrightarrow>
      (errors_Is cauthErr ErrUnconfiguredProvider \<longrightarrow>
         Chart_buildFromHelmRepository cenv cobj repo b cw =
           Chart_buildWithCredentials cenv cobj repo b cw None None) \<and>
      (\<not> errors_Is cauthErr ErrUnconfiguredProvider \<longrightarrow>
         (\<exists>obj' e. Chart_buildFromHelmRepository cenv cobj repo b cw =
                      Return (obj', b, cw, ResultEmpty, Some e) \<and>
            e = Event (Errorf (''failed to get credential from '' @ HR_Spec_Provider repo @ '': '') cauthErr)
                  AuthenticationFailedReason \<and>
            IsTrue obj' FetchFailedCondition \<and>
            map_option Reason (Status_Conditions obj' FetchFailedCondition) = Some AuthenticationFailedReason))) \<and>
   crane_WithAuthFromKeychain Anonymous \<in> set (craneOpts (makeRemoteOptions obj rt Anonymous None))"
proof -
  have a: "keychain env (if IsFalse obj SourceVerifiedCondition then Delete obj SourceVerifiedCondition else obj) w
      = (w1, Inr Anonymous) \<longrightarrow>
    Spec_Provider obj \<noteq> GenericOCIProvider \<longrightarrow>
    oidcAuth (remote env) (Spec_URL obj) (Spec_Provider obj) = Inl authErr \<longrightarrow>
      (errors_Is authErr ErrUnconfiguredProvider \<longrightarrow>
         OCI_reconcileSource env obj metadata dir w =
           OCI_resolve env
             (if IsFalse obj SourceVerifiedCondition then Delete obj SourceVerifiedCondition else obj)
             metadata dir w1 Anonymous None) \<and>
      (\<not> errors_Is authErr ErrUnconfiguredProvider \<longrightarrow>
         (\<exists>obj' e. OCI_reconcileSource env obj metadata dir w = (obj', metadata, w1, ResultEmpty, Some e) \<and>
            errReason e = AuthenticationFailedReason \<and>
            e = Generic (Errorf (''failed to get credential from '' @ Spec_Provider obj @ '': '') authErr)
                  AuthenticationFailedReason \<and>
            IsTrue obj' FetchFailedCondition \<and>
            map_option Reason (Status_Conditions obj' FetchFailedCondition) = Some AuthenticationFailedReason))"
    by (auto simp: OCI_reconcileSource_def Let_def failWith_def MarkTrue_def conditions_Set_def
        IsTrue_def Delete_def)
  have b: "IsOCI (HR_Spec_URL hobj) \<longrightarrow> HR_Spec_SecretRef hobj = None \<longrightarrow>
    HR_Spec_Provider hobj \<noteq> GenericOCIProvider \<longrightarrow> HR_Spec_Type hobj = HelmRepositoryTypeOCI \<longrightarrow>
    oidcAuth (hr_remote henv) (HR_Spec_URL hobj) (HR_Spec_Provider hobj) = Inl hauthErr \<longrightarrow>
      (errors_Is hauthErr ErrUnconfiguredProvider \<longrightarrow>
         HelmOCI_authenticate henv hobj hw = HelmOCI_login henv (Delete hobj StalledCondition) hw None None \<and>
         makeLoginOption (hr_helm henv) None None (HR_Spec_URL hobj) = Inr None) \<and>
      (\<not> errors_Is hauthErr ErrUnconfiguredProvider \<longrightarrow>
         (\<exists>obj' e. HelmOCI_authenticate henv hobj hw = (obj', hw, emptyResult, Some e) \<and>
            e = Errorf (''failed to get credential from '' @ HR_Spec_Provider hobj @ '': '') hauthErr \<and>
            IsFalse obj' ReadyCondition \<and>
            map_option Reason (Status_Conditions obj' ReadyCondition) = Some AuthenticationFailedReason))"
    by (auto simp: HelmOCI_authenticate_def Let_def MarkFalse_def conditions_Set_def
        IsFalse_def Delete_def makeLoginOption_def)
  have c: "HR_Spec_SecretRef repo = None \<longrightarrow>
    HR_Spec_Provider repo \<noteq> GenericOCIProvider \<longrightarrow> HR_Spec_Type repo = HelmRepositoryTypeOCI \<longrightarrow>
    oidcAuth (c_remote cenv) (HR_Spec_URL repo) (HR_Spec_Provider repo) = Inl cauthErr \<longrightarrow>
      (errors_Is cauthErr ErrUnconfiguredProvider \<longrightarrow>
         Chart_buildFromHelmRepository cenv cobj repo b cw =
           Chart_buildWithCredentials cenv cobj repo b cw None None) \<and>
      (\<not> errors_Is cauthErr ErrUnconfiguredProvider \<longrightarrow>
         (\<exists>obj' e. Chart_buildFromHelmRepository cenv cobj repo b cw =
                      Return (obj', b, cw, ResultEmpty, Some e) \<and>
            e = Event (Errorf (''failed to get credential from '' @ HR_Spec_Provider repo @ '': '') cauthErr)
                  AuthenticationFailedReason \<and>
            IsTrue obj' FetchFailedCondition \<and>
            map_option Reason (Status_Conditions obj' FetchFailedCondition) = Some AuthenticationFailedReason))"
    by (auto simp: Chart_buildFromHelmRepository_def Let_def chartFailWith_def MarkTrue_def
        conditions_Set_def IsTrue_def)
  have d: "crane_WithAuthFromKeychain Anonymous \<in> set (craneOpts (makeRemoteOptions obj rt Anonymous None))"
    by (simp add: makeRemoteOptions_def Let_def split: option.splits)
  from a b c d show ?thesis by blast
qed

theorem unconfigured_provider_falls_through_witness:
  "keychain oci_env0 (oci0\<lparr>Spec_Provider := AmazonOCIProvider\<rparr>) world0 = (world0, Inr Anonymous) \<and>
   oidcAuth remote0 ''oci://ghcr.io/org/app'' AmazonOCIProvider =
     Inl (Errorf ''ECR authentication failed: '' ErrUnconfiguredProvider) \<and>
   errors_Is (Errorf ''ECR authentication failed: '' ErrUnconfiguredProvider) ErrUnconfiguredProvider \<and>
   OCI_reconcileSource oci_env0 (oci0\<lparr>Spec_Provider := AmazonOCIProvider\<rparr>) emptyArtifact ''/tmp'' world0 =
     OCI_resolve oci_env0 (oci0\<lparr>Spec_Provider := AmazonOCIProvider\<rparr>) emptyArtifact ''/tmp'' world0
       Anonymous None \<and>
   HelmOCI_authenticate helm_env0 (repo0\<lparr>HR_Spec_Provider := AmazonOCIProvider\<rparr>) world0 =
     HelmOCI_login helm_env0 (Delete (repo0\<lparr>HR_Spec_Provider := AmazonOCIProvider\<rparr>) StalledCondition)
       world0 None None \<and>
   Chart_buildFromHelmRepository chart_env0 chart0 (repo0\<lparr>HR_Spec_Provider := AmazonOCIProvider\<rparr>)
       emptyBuild world0 =
     Chart_buildWithCredentials chart_env0 chart0 (repo0\<lparr>HR_Spec_Provider := AmazonOCIProvider\<rparr>)
       emptyBuild world0 None None \<and>
   \<not> errors_Is (New ''token expired'') ErrUnconfiguredProvider \<and>
   (\<exists>obj'. OCI_reconcileSource
             (oci_env0\<lparr>remote := remote0\<lparr>Login := (\<lambda>u ref opts. Inl (New ''token expired''))\<rparr>\<rparr>)
             (oci0\<lparr>Spec_Provider := AmazonOCIProvider\<rparr>) emptyArtifact ''/tmp'' world0 =
           (obj', emptyArtifact, world0, ResultEmpty,
            Some (Generic (Errorf (''failed to get credential from '' @ AmazonOCIProvider @ '': '')
                             (New ''token expired'')) AuthenticationFailedReason)) \<and>
           IsTrue obj' FetchFailedCondition \<and>
           map_option Reason (Status_Conditions obj' FetchFailedCondition) = Some AuthenticationFailedReason)"
proof -
  let ?o = "oci0\<lparr>Spec_Provider := AmazonOCIProvider\<rparr>"
  let ?h = "repo0\<lparr>HR_Spec_Provider := AmazonOCIProvider\<rparr>"
  let ?bad = "oci_env0\<lparr>remote := remote0\<lparr>Login := (\<lambda>u ref opts. Inl (New ''token expired''))\<rparr>\<rparr>"
  let ?e = "Errorf ''ECR authentication failed: '' ErrUnconfiguredProvider"
  have nsv: "\<not> IsFalse ?o SourceVerifiedCondition"
    by (simp add: IsFalse_def oci0_def)
  have kc: "keychain oci_env0 ?o world0 = (world0, Inr Anonymous)"
    "keychain ?bad ?o world0 = (world0, Inr Anonymous)"
    by (simp_all add: keychain_def oci0_def Let_def)
  have prov: "Spec_Provider ?o \<noteq> GenericOCIProvider" "HR_Spec_Provider ?h \<noteq> GenericOCIProvider"
    by (simp_all add: AmazonOCIProvider_def GenericOCIProvider_def)
  have pr: "parseReference0 ''ghcr.io/org/app'' = Inr \<lparr>RegistryStr = ''ghcr.io'', RepositoryStr = ''org/app''\<rparr>"
    "parseReference0 ''ghcr.io/stefanprodan/charts'' =
       Inr \<lparr>RegistryStr = ''ghcr.io'', RepositoryStr = ''stefanprodan/charts''\<rparr>"
    by (simp_all add: parseReference0_def Let_def)
  have auth: "oidcAuth remote0 ''oci://ghcr.io/org/app'' AmazonOCIProvider = Inl ?e"
    "oidcAuth remote0 ''oci://ghcr.io/stefanprodan/charts'' AmazonOCIProvider = Inl ?e"
    "oidcAuth (remote ?bad) ''oci://ghcr.io/org/app'' AmazonOCIProvider = Inl (New ''token expired'')"
    by (simp_all add: oidcAuth_def remote0_def pr TrimPrefix_def HasPrefix_def
        OCIRepositoryPrefix_def Let_def)
  have urls: "Spec_URL ?o = ''oci://ghcr.io/org/app''" "HR_Spec_URL ?h = ''oci://ghcr.io/stefanprodan/charts''"
    "HR_Spec_Type ?h = HelmRepositoryTypeOCI" "HR_Spec_SecretRef ?h = None" "IsOCI (HR_Spec_URL ?h)"
    by (simp_all add: oci0_def repo0_def IsOCI_def HasPrefix_def)
  have envs: "remote oci_env0 = remote0" "hr_remote helm_env0 = remote0" "c_remote chart_env0 = remote0"
    by (simp_all add: oci_env0_def helm_env0_def chart_env0_def)
  have unconf: "errors_Is ?e ErrUnconfiguredProvider" "\<not> errors_Is (New ''token expired'') ErrUnconfiguredProvider"
    by simp_all
  have good: "OCI_reconcileSource oci_env0 ?o emptyArtifact ''/tmp'' world0 =
                OCI_resolve oci_env0 ?o emptyArtifact ''/tmp'' world0 Anonymous None \<and>
              HelmOCI_authenticate helm_env0 ?h world0 =
                HelmOCI_login helm_env0 (Delete ?h StalledCondition) world0 None None \<and>
              Chart_buildFromHelmRepository chart_env0 chart0 ?h emptyBuild world0 =
                Chart_buildWithCredentials chart_env0 chart0 ?h emptyBuild world0 None None"
    using unconfigured_provider_falls_through[where env = oci_env0 and obj = ?o and w = world0
        and ?w1.0 = world0 and authErr = ?e and metadata = emptyArtifact and dir = "''/tmp''"
        and hobj = ?h and henv = helm_env0 and hw = world0 and hauthErr = ?e
        and repo = ?h and cenv = chart_env0 and cobj = chart0 and b = emptyBuild and cw = world0
        and cauthErr = ?e]
      nsv kc prov auth urls envs unconf
    by simp
  have bad: "\<exists>obj'. OCI_reconcileSource ?bad ?o emptyArtifact ''/tmp'' world0 =
           (obj', emptyArtifact, world0, ResultEmpty,
            Some (Generic (Errorf (''failed to get credential from '' @ AmazonOCIProvider @ '': '')
                             (New ''token expired'')) AuthenticationFailedReason)) \<and>
           IsTrue obj' FetchFailedCondition \<and>
           map_option Reason (Status_Conditions obj' FetchFailedCondition) = Some AuthenticationFailedReason"
    using unconfigured_provider_falls_through[where env = ?bad and obj = ?o and w = world0
        and ?w1.0 = world0 and authErr = "New ''token expired''" and metadata = emptyArtifact
        and dir = "''/tmp''"
        and hobj = ?h and henv = helm_env0 and hw = world0 and hauthErr = ?e
        and repo = ?h and cenv = chart_env0 and cobj = chart0 and b = emptyBuild and cw = world0
        and cauthErr = ?e]
      nsv kc prov auth urls unconf
    by simp
  from kc auth unconf good bad show ?thesis by simp
qed

section \<open>Properties of the revision of an OCIRepository\<close>

lemma Split_none: "c \<notin> set s \<Longrightarrow> Split s c = [s]"
  by (induction s) auto

lemma Split_once: "c \<notin> set a \<Longrightarrow> Split (a @ c # t) c = a # Split t c"
  by (induction a) auto

lemma TrimPrefix_append: "TrimPrefix (p @ s) p = s"
  by (simp add: TrimPrefix_def HasPrefix_def)

lemma getRevision_tagged:
  assumes ref: "ParseReference r (reg @ path @ CHR '':'' # tag) = Inr ref"
    and reg: "RegistryStr ref = reg"
    and path: "CHR '':'' \<notin> set path" "CHR ''@'' \<notin> set path"
    and tag: "tag \<noteq> []" "CHR '':'' \<notin> set tag" "CHR ''@'' \<notin> set tag"
    and dig: "Digest r (reg @ path @ CHR '':'' # tag) options = Inr digest"
    and hex: "NewHash r digest = Inr hex"
  shows "getRevision r (reg @ path @ CHR '':'' # tag) options = Inr (tag @ ''/'' @ hex)"
proof -
  have t: "TrimPrefix (reg @ path @ CHR '':'' # tag) reg = path @ CHR '':'' # tag"
    by (rule TrimPrefix_append)
  have s: "Split (path @ CHR '':'' # tag) (CHR '':'') = [path, tag]"
    using path tag by (simp add: Split_once Split_none)
  show ?thesis
    using path tag by (simp add: getRevision_def ref reg t s dig hex Contains_def Let_def)
qed

lemma getRevision_untagged:
  assumes ref: "ParseReference r (reg @ path) = Inr ref"
    and reg: "RegistryStr ref = reg"
    and path: "CHR '':'' \<notin> set path" "CHR ''@'' \<notin> set path"
    and dig: "Digest r (reg @ path) options = Inr digest"
    and hex: "NewHash r digest = Inr hex"
  shows "getRevision r (reg @ path) options = Inr (''latest'' @ ''/'' @ hex)"
proof -
  have t: "TrimPrefix (reg @ path) reg = path"
    by (rule TrimPrefix_append)
  have s: "Split path (CHR '':'') = [path]"
    using path by (simp add: Split_none)
  show ?thesis
    using path by (simp add: getRevision_def ref reg t s dig hex Contains_def Let_def)
qed

lemma getRevision_pinned:
  assumes ref: "ParseReference r (reg @ path @ CHR ''@'' # d) = Inr ref"
    and reg: "RegistryStr ref = reg"
    and dig: "Digest r (reg @ path @ CHR ''@'' # d) options = Inr digest"
    and hex: "NewHash r digest = Inr hex"
  shows "getRevision r (reg @ path @ CHR ''@'' # d) options = Inr hex"
proof -
  have t: "TrimPrefix (reg @ path @ CHR ''@'' # d) reg = path @ CHR ''@'' # d"
    by (rule TrimPrefix_append)
  show ?thesis
    by (simp add: getRevision_def ref reg t dig hex Contains_def Let_def)
qed

lemma getRevision_shape:
  assumes name: "parseRepositoryURL r obj = Inr name"
    and url: "getArtifactURL lib r obj options = Inr url"
    and ref: "ParseReference r url = Inr ref"
    and reg: "name = RegistryStr ref @ path"
    and path: "CHR '':'' \<notin> set path" "CHR ''@'' \<notin> set path"
    and tagwf: "\<forall>t. url = name @ '':'' @ t \<longrightarrow> t \<noteq> [] \<and> CHR '':'' \<notin> set t \<and> CHR ''@'' \<notin> set t"
    and dig: "Digest r url options = Inr digest"
    and hex: "NewHash r digest = Inr hex"
  shows "(Spec_Reference obj = None \<or>
          (\<exists>s. Spec_Reference obj = Some s \<and> Ref_Digest s = [] \<and> Ref_SemVer s = [] \<and> Ref_Tag s = []) \<longrightarrow>
            url = name \<and> getRevision r url options = Inr (''latest'' @ ''/'' @ hex)) \<and>
         (\<forall>s. Spec_Reference obj = Some s \<longrightarrow> Ref_Digest s \<noteq> [] \<longrightarrow>
            url = name @ ''@'' @ Ref_Digest s \<and> getRevision r url options = Inr hex) \<and>
         (\<forall>s. Spec_Reference obj = Some s \<longrightarrow> Ref_Digest s = [] \<longrightarrow> Ref_SemVer s \<noteq> [] \<longrightarrow>
            (\<exists>tag. getTagBySemver lib (\<lambda>u. ListTags r u options) name (Ref_SemVer s) = Inr tag \<and>
               url = name @ '':'' @ tag \<and>
               getRevision r url options = Inr (tag @ ''/'' @ hex))) \<and>
         (\<forall>s. Spec_Reference obj = Some s \<longrightarrow> Ref_Digest s = [] \<longrightarrow> Ref_SemVer s = [] \<longrightarrow>
            Ref_Tag s \<noteq> [] \<longrightarrow>
            url = name @ '':'' @ Ref_Tag s \<and>
            getRevision r url options = Inr (Ref_Tag s @ ''/'' @ hex))"
proof -
  have latest: "url = name \<Longrightarrow> getRevision r url options = Inr (''latest'' @ ''/'' @ hex)"
    using getRevision_untagged[of r "RegistryStr ref" path ref options digest hex]
      ref reg path dig hex by simp
  have pinned: "\<And>d. url = name @ ''@'' @ d \<Longrightarrow> getRevision r url options = Inr hex"
    using getRevision_pinned[of r "RegistryStr ref" path _ ref options digest hex]
      ref reg dig hex by simp
  have tagged: "\<And>t. url = name @ '':'' @ t \<Longrightarrow> getRevision r url options = Inr (t @ ''/'' @ hex)"
    using getRevision_tagged[of r "RegistryStr ref" path _ ref options digest hex]
      ref reg path dig hex tagwf by simp
  show ?thesis
    using url latest pinned tagged
    by (auto simp: getArtifactURL_def name split: option.splits sum.splits if_splits)
qed

lemma getRevision_shape_examples:
  "parseRepositoryURL remote0 oci0 = Inr ''ghcr.io/org/app'' \<and>
   getArtifactURL core_semver remote0 oci0 [] = Inr ''ghcr.io/org/app'' \<and>
   getRevision remote0 ''ghcr.io/org/app'' [] = Inr ''latest/4f5e'' \<and>
   getArtifactURL core_semver remote0
     (oci0\<lparr>Spec_Reference := Some \<lparr>Ref_Digest = [], Ref_SemVer = [], Ref_Tag = ''v1''\<rparr>\<rparr>) [] =
     Inr ''ghcr.io/org/app:v1'' \<and>
   getRevision remote0 ''ghcr.io/org/app:v1'' [] = Inr ''v1/4f5e'' \<and>
   getArtifactURL core_semver remote0
     (oci0\<lparr>Spec_Reference := Some \<lparr>Ref_Digest = ''sha256:4f5e'', Ref_SemVer = [], Ref_Tag = ''v1''\<rparr>\<rparr>) [] =
     Inr ''ghcr.io/org/app@sha256:4f5e'' \<and>
   getRevision remote0 ''ghcr.io/org/app@sha256:4f5e'' [] = Inr ''4f5e''"
proof -
  let ?t = "oci0\<lparr>Spec_Reference := Some \<lparr>Ref_Digest = [], Ref_SemVer = [], Ref_Tag = ''v1''\<rparr>\<rparr>"
  let ?d = "oci0\<lparr>Spec_Reference := Some \<lparr>Ref_Digest = ''sha256:4f5e'', Ref_SemVer = [], Ref_Tag = ''v1''\<rparr>\<rparr>"
  let ?ref = "\<lparr>RegistryStr = ''ghcr.io'', RepositoryStr = ''org/app''\<rparr>"
  have pr: "ParseReference remote0 ''ghcr.io/org/app'' = Inr ?ref"
    "ParseReference remote0 ''ghcr.io/org/app:v1'' = Inr ?ref"
    "ParseReference remote0 ''ghcr.io/org/app@sha256:4f5e'' = Inr ?ref"
    by (simp_all add: remote0_def parseReference0_def Let_def)
  have name: "parseRepositoryURL remote0 oci0 = Inr ''ghcr.io/org/app''"
    "parseRepositoryURL remote0 ?t = Inr ''ghcr.io/org/app''"
    "parseRepositoryURL remote0 ?d = Inr ''ghcr.io/org/app''"
    by (simp_all add: parseRepositoryURL_def oci0_def OCIRepositoryPrefix_def HasPrefix_def
        TrimPrefix_def pr ContextName_def Let_def)
  have url: "getArtifactURL core_semver remote0 oci0 [] = Inr ''ghcr.io/org/app''"
    "getArtifactURL core_semver remote0 ?t [] = Inr ''ghcr.io/org/app:v1''"
    "getArtifactURL core_semver remote0 ?d [] = Inr ''ghcr.io/org/app@sha256:4f5e''"
    by (simp_all add: getArtifactURL_def name) (simp_all add: oci0_def)
  have dig: "\<And>u. Digest remote0 u [] = Inr ''sha256:4f5e''" "NewHash remote0 ''sha256:4f5e'' = Inr ''4f5e''"
    by (simp_all add: remote0_def HasPrefix_def)
  have refs: "Spec_Reference oci0 = None"
    by (simp add: oci0_def)
  have reg: "''ghcr.io/org/app'' = RegistryStr ?ref @ ''/org/app''"
    and path: "CHR '':'' \<notin> set ''/org/app''" "CHR ''@'' \<notin> set ''/org/app''"
    by simp_all
  have tw1: "\<forall>t. ''ghcr.io/org/app'' = ''ghcr.io/org/app'' @ '':'' @ t \<longrightarrow>
               t \<noteq> [] \<and> CHR '':'' \<notin> set t \<and> CHR ''@'' \<notin> set t"
    and tw2: "\<forall>t. ''ghcr.io/org/app:v1'' = ''ghcr.io/org/app'' @ '':'' @ t \<longrightarrow>
               t \<noteq> [] \<and> CHR '':'' \<notin> set t \<and> CHR ''@'' \<notin> set t"
    and tw3: "\<forall>t. ''ghcr.io/org/app@sha256:4f5e'' = ''ghcr.io/org/app'' @ '':'' @ t \<longrightarrow>
               t \<noteq> [] \<and> CHR '':'' \<notin> set t \<and> CHR ''@'' \<notin> set t"
    by simp_all
  have a: "getRevision remote0 ''ghcr.io/org/app'' [] = Inr ''latest/4f5e''"
    using getRevision_shape[OF name(1) url(1) pr(1) reg path tw1 dig(1) dig(2)] refs
    by simp
  have b: "getRevision remote0 ''ghcr.io/org/app:v1'' [] = Inr ''v1/4f5e''"
    using getRevision_shape[OF name(2) url(2) pr(2) reg path tw2 dig(1) dig(2)]
    by simp
  have c: "getRevision remote0 ''ghcr.io/org/app@sha256:4f5e'' [] = Inr ''4f5e''"
    using getRevision_shape[OF name(3) url(3) pr(3) reg path tw3 dig(1) dig(2)]
    by simp
  from name url a b c show ?thesis by simp
qed

lemma parseRepositoryURL_conditions:
  "parseRepositoryURL r (obj\<lparr>Status_Conditions := c\<rparr>) = parseRepositoryURL r obj"
  by (simp add: parseRepositoryURL_def)

lemma getArtifactURL_conditions:
  "getArtifactURL lib r (obj\<lparr>Status_Conditions := c\<rparr>) options = getArtifactURL lib r obj options"
  by (simp add: getArtifactURL_def parseRepositoryURL_conditions split: sum.splits option.splits)

lemma ociContentConfigChanged_conditions:
  "ociContentConfigChanged (obj\<lparr>Status_Conditions := c\<rparr>) = ociContentConfigChanged obj"
  by (simp add: ociContentConfigChanged_def)

lemma failWith_parts:
  "failWith t obj md w e = (obj', md', w', res, err) \<Longrightarrow> md' = md \<and> err = Some e"
  by (auto simp: failWith_def)

lemma OCI_pull_revision:
  assumes "OCI_pull env obj md dir w url opts = (obj', md', w', res, err)"
  shows "Revision md' = Revision md"
proof (cases "Pull (remote env) url (craneOpts opts)")
  case (Inl e)
  with assms show ?thesis by (auto simp: OCI_pull_def Let_def dest!: failWith_parts)
next
  case (Inr img)
  show ?thesis
  proof (cases "Image_Manifest img")
    case (Inl e)
    with assms Inr show ?thesis by (auto simp: OCI_pull_def Let_def dest!: failWith_parts)
  next
    case man: (Inr annotations)
    show ?thesis
    proof (cases "selectLayer obj img")
      case (Inl e)
      with assms Inr man show ?thesis by (auto simp: OCI_pull_def Let_def dest!: failWith_parts)
    next
      case blob: (Inr blob)
      show ?thesis
        using assms Inr man blob
        by (auto simp: OCI_pull_def Let_def dest!: failWith_parts split: option.splits if_splits)
    qed
  qed
qed

lemma OCI_fetch_revision:
  "OCI_fetch env obj md dir w url revision opts = (obj', md', w', res, err) \<Longrightarrow>
     Revision md' = Revision md"
  by (auto simp: OCI_fetch_def dest: OCI_pull_revision split: if_splits)

lemma OCI_verify_revision:
  assumes "OCI_verify env obj md dir w url revision opts = (obj', md', w', res, err)"
  shows "Revision md' = Revision md"
proof (cases "Spec_Verify obj")
  case None
  with assms show ?thesis by (auto simp: OCI_verify_def dest: OCI_fetch_revision)
next
  case (Some v)
  show ?thesis
  proof (cases "verificationDue obj revision")
    case False
    with assms Some show ?thesis by (auto simp: OCI_verify_def dest: OCI_fetch_revision)
  next
    case True
    show ?thesis
    proof (cases "Spec_Insecure obj")
      case True
      with assms Some \<open>verificationDue obj revision\<close> show ?thesis
        by (auto simp: OCI_verify_def Let_def)
    next
      case False
      show ?thesis
      proof (cases "verifySignature_result (remote env) url (verifyOpts opts)")
        case None
        with assms Some \<open>verificationDue obj revision\<close> False show ?thesis
          by (auto simp: OCI_verify_def verifySignature_def dest: OCI_fetch_revision)
      next
        case (Some e)
        with assms \<open>Spec_Verify obj = Some v\<close> \<open>verificationDue obj revision\<close> False show ?thesis
          by (auto simp: OCI_verify_def verifySignature_def Let_def)
      qed
    qed
  qed
qed

lemma OCI_observeRevision_revision:
  "OCI_observeRevision env url revision ret = (obj', md', w', res, err) \<Longrightarrow>
     md' = fst (snd ret) \<and> err = snd (snd (snd (snd ret)))"
  by (cases ret) (auto simp: OCI_observeRevision_def Let_def split: if_splits)

lemma OCI_resolve_revision:
  assumes run: "OCI_resolve env obj md dir w kc auth = (obj', md', w', res, None)"
  shows "\<exists>rt url.
           transport env obj = Inr rt \<and>
           getArtifactURL (semverLib env) (remote env) obj (craneOpts (makeRemoteOptions obj rt kc auth)) =
             Inr url \<and>
           getRevision (remote env) url (craneOpts (makeRemoteOptions obj rt kc auth)) = Inr (Revision md')"
proof (cases "transport env obj")
  case (Inl e)
  with run show ?thesis by (simp add: OCI_resolve_def failWith_def)
next
  case (Inr rt)
  let ?opts = "makeRemoteOptions obj rt kc auth"
  show ?thesis
  proof (cases "getArtifactURL (semverLib env) (remote env) obj (craneOpts ?opts)")
    case (Inl e)
    with run Inr show ?thesis
      by (simp add: OCI_resolve_def failWith_def Let_def split: error.splits)
  next
    case url: (Inr url)
    show ?thesis
    proof (cases "getRevision (remote env) url (craneOpts ?opts)")
      case (Inl e)
      with run Inr url show ?thesis by (simp add: OCI_resolve_def failWith_def Let_def)
    next
      case rev: (Inr revision)
      obtain o1 m1 v1 r1 e1 where ver:
        "OCI_verify env obj (emptyArtifact\<lparr>Revision := revision\<rparr>) dir w url revision ?opts =
           (o1, m1, v1, r1, e1)"
        by (metis prod_cases5)
      have m1: "Revision m1 = revision"
        using OCI_verify_revision[OF ver] by simp
      have "OCI_observeRevision env url revision (o1, m1, v1, r1, e1) = (obj', md', w', res, None)"
        using run Inr url rev ver by (simp add: OCI_resolve_def Let_def)
      from OCI_observeRevision_revision[OF this] have "md' = m1" by simp
      with m1 Inr url rev show ?thesis by simp
    qed
  qed
qed

lemma OCI_reconcileSource_revision:
  assumes run: "OCI_reconcileSource env obj md dir w = (obj', md', w', res, None)"
  shows "\<exists>options url.
           getArtifactURL (semverLib env) (remote env) obj options = Inr url \<and>
           getRevision (remote env) url options = Inr (Revision md')"
proof -
  let ?o = "if IsFalse obj SourceVerifiedCondition then Delete obj SourceVerifiedCondition else obj"
  have o: "?o = obj\<lparr>Status_Conditions := Status_Conditions ?o\<rparr>"
    by (simp add: Delete_def)
  obtain w0 k where kcr: "keychain env ?o w = (w0, k)"
    by (cases "keychain env ?o w") auto
  have "\<exists>w1 kc auth. OCI_resolve env ?o md dir w1 kc auth = (obj', md', w', res, None)"
  proof (cases k)
    case (Inl e)
    with run kcr show ?thesis
      by (auto simp: OCI_reconcileSource_def Let_def dest!: failWith_parts)
  next
    case (Inr kch)
    have "(\<exists>au. OCI_resolve env ?o md dir w0 kch au = (obj', md', w', res, None)) \<or>
          (\<exists>e. failWith FetchFailedCondition ?o md w0 e = (obj', md', w', res, None))"
      using run kcr Inr
      by (auto simp: OCI_reconcileSource_def Let_def split: if_splits sum.splits)
    then show ?thesis
    proof
      assume "\<exists>au. OCI_resolve env ?o md dir w0 kch au = (obj', md', w', res, None)"
      then show ?thesis by blast
    next
      assume "\<exists>e. failWith FetchFailedCondition ?o md w0 e = (obj', md', w', res, None)"
      then obtain e where "failWith FetchFailedCondition ?o md w0 e = (obj', md', w', res, None)" ..
      from failWith_parts[OF this] show ?thesis by simp
    qed
  qed
  then obtain w1 kc auth where "OCI_resolve env ?o md dir w1 kc auth = (obj', md', w', res, None)"
    by blast
  from OCI_resolve_revision[OF this] obtain rt url where
    "getArtifactURL (semverLib env) (remote env) ?o (craneOpts (makeRemoteOptions ?o rt kc auth)) = Inr url"
    "getRevision (remote env) url (craneOpts (makeRemoteOptions ?o rt kc auth)) = Inr (Revision md')"
    by blast
  moreover have "getArtifactURL (semverLib env) (remote env) ?o (craneOpts (makeRemoteOptions ?o rt kc auth)) =
                 getArtifactURL (semverLib env) (remote env) obj (craneOpts (makeRemoteOptions ?o rt kc auth))"
    by (subst o) (rule getArtifactURL_conditions)
  ultimately show ?thesis by metis
qed

lemma getRevision_parts:
  "getRevision r url options = Inr revision \<Longrightarrow>
     \<exists>ref digest hex. ParseReference r url = Inr ref \<and> Digest r url options = Inr digest \<and>
       NewHash r digest = Inr hex"
  by (auto simp: getRevision_def Let_def split: sum.splits)

lemma getArtifactURL_name:
  "getArtifactURL lib r obj options = Inr url \<Longrightarrow> \<exists>name. parseRepositoryURL r obj = Inr name"
  by (auto simp: getArtifactURL_def split: sum.splits)

lemma reference_wellformed:
  assumes wf: "\<forall>options name url ref.
               parseRepositoryURL (remote env) obj = Inr name \<longrightarrow>
               getArtifactURL (semverLib env) (remote env) obj options = Inr url \<longrightarrow>
               ParseReference (remote env) url = Inr ref \<longrightarrow>
                 (\<exists>path. name = RegistryStr ref @ path \<and>
                         CHR '':'' \<notin> set path \<and> CHR ''@'' \<notin> set path) \<and>
                 (\<forall>t. url = name @ '':'' @ t \<longrightarrow>
                      t \<noteq> [] \<and> CHR '':'' \<notin> set t \<and> CHR ''@'' \<notin> set t)"
   and name: "parseRepositoryURL (remote env) obj = Inr name"
   and url: "getArtifactURL (semverLib env) (remote env) obj options = Inr url"
   and ref: "ParseReference (remote env) url = Inr ref"
  shows "\<exists>path. name = RegistryStr ref @ path \<and> CHR '':'' \<notin> set path \<and> CHR ''@'' \<notin> set path"
    and "\<forall>t. url = name @ '':'' @ t \<longrightarrow> t \<noteq> [] \<and> CHR '':'' \<notin> set t \<and> CHR ''@'' \<notin> set t"
proof -
  from wf have "parseRepositoryURL (remote env) obj = Inr name \<longrightarrow>
               getArtifactURL (semverLib env) (remote env) obj options = Inr url \<longrightarrow>
               ParseReference (remote env) url = Inr ref \<longrightarrow>
                 (\<exists>path. name = RegistryStr ref @ path \<and>
                         CHR '':'' \<notin> set path \<and> CHR ''@'' \<notin> set path) \<and>
                 (\<forall>t. url = name @ '':'' @ t \<longrightarrow>
                      t \<noteq> [] \<and> CHR '':'' \<notin> set t \<and> CHR ''@'' \<notin> set t)"
    by (elim allE[of _ options] allE[of _ name] allE[of _ url] allE[of _ ref])
  with name url ref have both: "(\<exists>path. name = RegistryStr ref @ path \<and>
                         CHR '':'' \<notin> set path \<and> CHR ''@'' \<notin> set path) \<and>
                 (\<forall>t. url = name @ '':'' @ t \<longrightarrow>
                      t \<noteq> [] \<and> CHR '':'' \<notin> set t \<and> CHR ''@'' \<notin> set t)"
    by (elim impE) assumption+
  from both show "\<exists>path. name = RegistryStr ref @ path \<and> CHR '':'' \<notin> set path \<and> CHR ''@'' \<notin> set path"
    by (rule conjunct1)
  from both show "\<forall>t. url = name @ '':'' @ t \<longrightarrow> t \<noteq> [] \<and> CHR '':'' \<notin> set t \<and> CHR ''@'' \<notin> set t"
    by (rule conjunct2)
qed

text \<open>
  Claim C6. Let the source phase of an OCIRepository return without an error, and let the
  references be well formed: the repository name is the registry followed by a path with
  neither \<open>:\<close> nor \<open>@\<close>, and the tag of the reference, when there is one, is non-empty with
  neither \<open>:\<close> nor \<open>@\<close>. Then the revision that the phase returns in the metadata is the
  one \<open>getRevision\<close> gives for the reference that \<open>getArtifactURL\<close> resolved, and with
  \<open>hex\<close> the hex part of the digest the registry answered: it is \<open>latest/hex\<close> when the
  object names no digest, no semver range and no tag; it is \<open>hex\<close> alone when the object
  pins a digest; it is \<open>tag/hex\<close> for the tag that the semver range resolves to, or else
  for the tag of the object.
\<close>

theorem reconcileSource_revision_format:
  assumes run: "OCI_reconcileSource env obj metadata dir w = (obj', md', w', res, None)"
    and wf: "\<forall>options name url ref.
               parseRepositoryURL (remote env) obj = Inr name \<longrightarrow>
               getArtifactURL (semverLib env) (remote env) obj options = Inr url \<longrightarrow>
               ParseReference (remote env) url = Inr ref \<longrightarrow>
                 (\<exists>path. name = RegistryStr ref @ path \<and>
                         CHR '':'' \<notin> set path \<and> CHR ''@'' \<notin> set path) \<and>
                 (\<forall>t. url = name @ '':'' @ t \<longrightarrow>
                      t \<noteq> [] \<and> CHR '':'' \<notin> set t \<and> CHR ''@'' \<notin> set t)"
  shows "\<exists>options name url digest hex.
           parseRepositoryURL (remote env) obj = Inr name \<and>
           getArtifactURL (semverLib env) (remote env) obj options = Inr url \<and>
           Digest (remote env) url options = Inr digest \<and>
           NewHash (remote env) digest = Inr hex \<and>
           getRevision (remote env) url options = Inr (Revision md') \<and>
           (Spec_Reference obj = None \<or>
            (\<exists>s. Spec_Reference obj = Some s \<and> Ref_Digest s = [] \<and> Ref_SemVer s = [] \<and> Ref_Tag s = []) \<longrightarrow>
              url = name \<and> Revision md' = ''latest'' @ ''/'' @ hex) \<and>
           (\<forall>s. Spec_Reference obj = Some s \<longrightarrow> Ref_Digest s \<noteq> [] \<longrightarrow>
              url = name @ ''@'' @ Ref_Digest s \<and> Revision md' = hex) \<and>
           (\<forall>s. Spec_Reference obj = Some s \<longrightarrow> Ref_Digest s = [] \<longrightarrow> Ref_SemVer s \<noteq> [] \<longrightarrow>
              (\<exists>tag. getTagBySemver (semverLib env) (\<lambda>u. ListTags (remote env) u options) name
                        (Ref_SemVer s) = Inr tag \<and>
                 url = name @ '':'' @ tag \<and> Revision md' = tag @ ''/'' @ hex)) \<and>
           (\<forall>s. Spec_Reference obj = Some s \<longrightarrow> Ref_Digest s = [] \<longrightarrow> Ref_SemVer s = [] \<longrightarrow>
              Ref_Tag s \<noteq> [] \<longrightarrow>
              url = name @ '':'' @ Ref_Tag s \<and> Revision md' = Ref_Tag s @ ''/'' @ hex)"
proof -
  from OCI_reconcileSource_revision[OF run] obtain options url where
    url: "getArtifactURL (semverLib env) (remote env) obj options = Inr url"
    and rev: "getRevision (remote env) url options = Inr (Revision md')"
    by blast
  from getArtifactURL_name[OF url] obtain name where
    name: "parseRepositoryURL (remote env) obj = Inr name" ..
  from getRevision_parts[OF rev] obtain ref digest hex where
    ref: "ParseReference (remote env) url = Inr ref"
    and dig: "Digest (remote env) url options = Inr digest"
    and hex: "NewHash (remote env) digest = Inr hex"
    by blast
  from reference_wellformed(1)[OF wf name url ref] obtain path where
    reg: "name = RegistryStr ref @ path"
    and path: "CHR '':'' \<notin> set path" "CHR ''@'' \<notin> set path"
    by (elim exE conjE)
  note tagwf = reference_wellformed(2)[OF wf name url ref]
  note fmt = getRevision_shape[OF name url ref reg path tagwf dig hex]
  have "(Spec_Reference obj = None \<or>
            (\<exists>s. Spec_Reference obj = Some s \<and> Ref_Digest s = [] \<and> Ref_SemVer s = [] \<and> Ref_Tag s = []) \<longrightarrow>
              url = name \<and> Revision md' = ''latest'' @ ''/'' @ hex) \<and>
           (\<forall>s. Spec_Reference obj = Some s \<longrightarrow> Ref_Digest s \<noteq> [] \<longrightarrow>
              url = name @ ''@'' @ Ref_Digest s \<and> Revision md' = hex) \<and>
           (\<forall>s. Spec_Reference obj = Some s \<longrightarrow> Ref_Digest s = [] \<longrightarrow> Ref_SemVer s \<noteq> [] \<longrightarrow>
              (\<exists>tag. getTagBySemver (semverLib env) (\<lambda>u. ListTags (remote env) u options) name
                        (Ref_SemVer s) = Inr tag \<and>
                 url = name @ '':'' @ tag \<and> Revision md' = tag @ ''/'' @ hex)) \<and>
           (\<forall>s. Spec_Reference obj = Some s \<longrightarrow> Ref_Digest s = [] \<longrightarrow> Ref_SemVer s = [] \<longrightarrow>
              Ref_Tag s \<noteq> [] \<longrightarrow>
              url = name @ '':'' @ Ref_Tag s \<and> Revision md' = Ref_Tag s @ ''/'' @ hex)"
    using fmt unfolding rev sum.inject .
  note body = this
  have "parseRepositoryURL (remote env) obj = Inr name \<and>
           getArtifactURL (semverLib env) (remote env) obj options = Inr url \<and>
           Digest (remote env) url options = Inr digest \<and>
           NewHash (remote env) digest = Inr hex \<and>
           getRevision (remote env) url options = Inr (Revision md') \<and>
           (Spec_Reference obj = None \<or>
            (\<exists>s. Spec_Reference obj = Some s \<and> Ref_Digest s = [] \<and> Ref_SemVer s = [] \<and> Ref_Tag s = []) \<longrightarrow>
              url = name \<and> Revision md' = ''latest'' @ ''/'' @ hex) \<and>
           (\<forall>s. Spec_Reference obj = Some s \<longrightarrow> Ref_Digest s \<noteq> [] \<longrightarrow>
              url = name @ ''@'' @ Ref_Digest s \<and> Revision md' = hex) \<and>
           (\<forall>s. Spec_Reference obj = Some s \<longrightarrow> Ref_Digest s = [] \<longrightarrow> Ref_SemVer s \<noteq> [] \<longrightarrow>
              (\<exists>tag. getTagBySemver (semverLib env) (\<lambda>u. ListTags (remote env) u options) name
                        (Ref_SemVer s) = Inr tag \<and>
                 url = name @ '':'' @ tag \<and> Revision md' = tag @ ''/'' @ hex)) \<and>
           (\<forall>s. Spec_Reference obj = Some s \<longrightarrow> Ref_Digest s = [] \<longrightarrow> Ref_SemVer s = [] \<longrightarrow>
              Ref_Tag s \<noteq> [] \<longrightarrow>
              url = name @ '':'' @ Ref_Tag s \<and> Revision md' = Ref_Tag s @ ''/'' @ hex)"
    by (intro conjI name url dig hex rev body[THEN conjunct1] body[THEN conjunct2, THEN conjunct1]
        body[THEN conjunct2, THEN conjunct2, THEN conjunct1]
        body[THEN conjunct2, THEN conjunct2, THEN conjunct2])
  then show ?thesis
    by (intro exI)
qed

theorem reconcileSource_revision_format_witness:
  "OCI_reconcileSource oci_env0 (oci0\<lparr>Status_Artifact := Some artifact0\<rparr>) emptyArtifact ''/tmp'' world0 =
     (Delete (Delete (oci0\<lparr>Status_Artifact := Some artifact0\<rparr>) SourceVerifiedCondition)
        FetchFailedCondition,
      emptyArtifact\<lparr>Revision := ''latest/4f5e''\<rparr>, world0, ResultSuccess, None) \<and>
   Spec_Reference (oci0\<lparr>Status_Artifact := Some artifact0\<rparr>) = None \<and>
   (\<exists>options name url digest hex.
      parseRepositoryURL (remote oci_env0) (oci0\<lparr>Status_Artifact := Some artifact0\<rparr>) = Inr name \<and>
      getArtifactURL (semverLib oci_env0) (remote oci_env0)
        (oci0\<lparr>Status_Artifact := Some artifact0\<rparr>) options = Inr url \<and>
      Digest (remote oci_env0) url options = Inr digest \<and>
      NewHash (remote oci_env0) digest = Inr hex \<and>
      url = name \<and>
      Revision (emptyArtifact\<lparr>Revision := ''latest/4f5e''\<rparr>) = ''latest'' @ ''/'' @ hex)"
proof -
  let ?o = "oci0\<lparr>Status_Artifact := Some artifact0\<rparr>"
  let ?ref = "\<lparr>RegistryStr = ''ghcr.io'', RepositoryStr = ''org/app''\<rparr>"
  let ?md = "emptyArtifact\<lparr>Revision := ''latest/4f5e''\<rparr>"
  have env: "remote oci_env0 = remote0" "semverLib oci_env0 = core_semver"
    by (simp_all add: oci_env0_def)
  have nsv: "\<not> IsFalse ?o SourceVerifiedCondition"
    by (simp add: IsFalse_def oci0_def)
  have kc: "keychain oci_env0 ?o world0 = (world0, Inr Anonymous)"
    by (simp add: keychain_def oci0_def Let_def)
  have prov: "Spec_Provider ?o = GenericOCIProvider"
    by (simp add: oci0_def)
  have rt: "transport oci_env0 ?o = Inr None"
    by (simp add: transport_def oci0_def)
  have pr: "ParseReference remote0 ''ghcr.io/org/app'' = Inr ?ref"
    by (simp add: remote0_def parseReference0_def Let_def)
  have name: "parseRepositoryURL remote0 ?o = Inr ''ghcr.io/org/app''"
    by (simp add: parseRepositoryURL_def oci0_def OCIRepositoryPrefix_def HasPrefix_def
        TrimPrefix_def pr ContextName_def Let_def)
  have sref: "Spec_Reference ?o = None"
    by (simp add: oci0_def)
  have aurl: "\<And>options. getArtifactURL core_semver remote0 ?o options = Inr ''ghcr.io/org/app''"
    by (simp add: getArtifactURL_def name sref)
  have rev: "\<And>options. getRevision remote0 ''ghcr.io/org/app'' options = Inr ''latest/4f5e''"
    by (simp add: getRevision_def pr TrimPrefix_def HasPrefix_def Contains_def Let_def)
      (simp add: remote0_def HasPrefix_def)
  have has: "HasRevision (Status_Artifact ?o) ''latest/4f5e''"
    by (simp add: HasRevision_def artifact0_def)
  have cfg: "\<not> ociContentConfigChanged ?o"
    by (simp add: ociContentConfigChanged_def layerSelectorEqual_def oci0_def)
  have nover: "Spec_Verify ?o = None"
    by (simp add: oci0_def)
  have ver: "OCI_verify oci_env0 ?o ?md ''/tmp'' world0 ''ghcr.io/org/app'' ''latest/4f5e''
               (makeRemoteOptions ?o None Anonymous None) =
             (Delete (Delete ?o SourceVerifiedCondition) FetchFailedCondition, ?md, world0,
              ResultSuccess, None)"
    using has cfg
    by (simp add: OCI_verify_def nover OCI_fetch_def Delete_def ociContentConfigChanged_conditions)
  have has2: "HasRevision (Status_Artifact (Delete (Delete ?o SourceVerifiedCondition) FetchFailedCondition))
                ''latest/4f5e''"
    using has by (simp add: Delete_def)
  have res: "OCI_resolve oci_env0 ?o emptyArtifact ''/tmp'' world0 Anonymous None =
             (Delete (Delete ?o SourceVerifiedCondition) FetchFailedCondition, ?md, world0,
              ResultSuccess, None)"
    by (simp add: OCI_resolve_def rt env aurl rev ver Let_def)
      (simp add: OCI_observeRevision_def has2)
  have run: "OCI_reconcileSource oci_env0 ?o emptyArtifact ''/tmp'' world0 =
             (Delete (Delete ?o SourceVerifiedCondition) FetchFailedCondition, ?md, world0,
              ResultSuccess, None)"
    using nsv by (simp add: OCI_reconcileSource_def kc prov res Let_def)
  have wf: "\<forall>options name url ref.
               parseRepositoryURL (remote oci_env0) ?o = Inr name \<longrightarrow>
               getArtifactURL (semverLib oci_env0) (remote oci_env0) ?o options = Inr url \<longrightarrow>
               ParseReference (remote oci_env0) url = Inr ref \<longrightarrow>
                 (\<exists>path. name = RegistryStr ref @ path \<and>
                         CHR '':'' \<notin> set path \<and> CHR ''@'' \<notin> set path) \<and>
                 (\<forall>t. url = name @ '':'' @ t \<longrightarrow>
                      t \<noteq> [] \<and> CHR '':'' \<notin> set t \<and> CHR ''@'' \<notin> set t)"
  proof (intro allI impI)
    fix options name url ref
    assume n: "parseRepositoryURL (remote oci_env0) ?o = Inr name"
      and u: "getArtifactURL (semverLib oci_env0) (remote oci_env0) ?o options = Inr url"
      and r: "ParseReference (remote oci_env0) url = Inr ref"
    from n name have n': "name = ''ghcr.io/org/app''" by (simp add: env)
    from u aurl have u': "url = ''ghcr.io/org/app''" by (simp add: env)
    from r pr have r': "ref = ?ref" by (simp add: env u')
    have "name = RegistryStr ref @ ''/org/app'' \<and>
          CHR '':'' \<notin> set ''/org/app'' \<and> CHR ''@'' \<notin> set ''/org/app''"
      by (simp add: n' r')
    then have p: "\<exists>path. name = RegistryStr ref @ path \<and>
                    CHR '':'' \<notin> set path \<and> CHR ''@'' \<notin> set path"
      by (rule exI)
    have t: "\<forall>t. url = name @ '':'' @ t \<longrightarrow>
                 t \<noteq> [] \<and> CHR '':'' \<notin> set t \<and> CHR ''@'' \<notin> set t"
      by (simp add: n' u')
    from p t show "(\<exists>path. name = RegistryStr ref @ path \<and>
                         CHR '':'' \<notin> set path \<and> CHR ''@'' \<notin> set path) \<and>
                 (\<forall>t. url = name @ '':'' @ t \<longrightarrow>
                      t \<noteq> [] \<and> CHR '':'' \<notin> set t \<and> CHR ''@'' \<notin> set t)"
      by (rule conjI)
  qed
  from reconcileSource_revision_format[OF run wf]
  obtain options name url digest hex where
    a: "parseRepositoryURL (remote oci_env0) ?o = Inr name"
    and b: "getArtifactURL (semverLib oci_env0) (remote oci_env0) ?o options = Inr url"
    and c: "Digest (remote oci_env0) url options = Inr digest"
    and d: "NewHash (remote oci_env0) digest = Inr hex"
    and e: "Spec_Reference ?o = None \<or>
            (\<exists>s. Spec_Reference ?o = Some s \<and> Ref_Digest s = [] \<and> Ref_SemVer s = [] \<and> Ref_Tag s = []) \<longrightarrow>
              url = name \<and> Revision ?md = ''latest'' @ ''/'' @ hex"
    by (elim exE conjE)
  from e sref have f: "url = name \<and> Revision ?md = ''latest'' @ ''/'' @ hex"
    by (elim impE) (rule disjI1, assumption)
  have "parseRepositoryURL (remote oci_env0) ?o = Inr name \<and>
      getArtifactURL (semverLib oci_env0) (remote oci_env0) ?o options = Inr url \<and>
      Digest (remote oci_env0) url options = Inr digest \<and>
      NewHash (remote oci_env0) digest = Inr hex \<and>
      url = name \<and>
      Revision ?md = ''latest'' @ ''/'' @ hex"
    by (intro conjI a b c d f[THEN conjunct1] f[THEN conjunct2])
  then have ex: "\<exists>options name url digest hex.
      parseRepositoryURL (remote oci_env0) ?o = Inr name \<and>
      getArtifactURL (semverLib oci_env0) (remote oci_env0) ?o options = Inr url \<and>
      Digest (remote oci_env0) url options = Inr digest \<and>
      NewHash (remote oci_env0) digest = Inr hex \<and>
      url = name \<and>
      Revision ?md = ''latest'' @ ''/'' @ hex"
    by (intro exI)
  show ?thesis
    by (intro conjI run sref ex)
qed

section \<open>Properties of verification on an insecure registry\<close>

lemma lookupPullSecrets_world:
  "lookupPullSecrets env obj w ns = (w1, Inr secrets) \<Longrightarrow> w1 = w"
  by (induction ns arbitrary: secrets) (auto split: sum.splits prod.splits)

lemma keychain_world: "keychain env obj w = (w1, Inr kc) \<Longrightarrow> w1 = w"
  by (auto simp: keychain_def Let_def dest: lookupPullSecrets_world
      split: sum.splits prod.splits if_splits option.splits)

lemma verificationDue_after_delete:
  assumes "verificationDue obj revision" and "Generation obj \<noteq> 0"
  shows "verificationDue (if IsFalse obj SourceVerifiedCondition
                          then Delete obj SourceVerifiedCondition else obj) revision"
  using assms
  by (auto simp: verificationDue_def Delete_def GetObservedGeneration_def IsFalse_def)

text \<open>
  Claim C8. Let the object have \<open>spec.verify\<close> set and \<open>spec.insecure\<close> true, and a
  generation other than zero. Let the source phase get as far as the revision (keychain,
  cloud credentials, transport, reference and digest all succeed), and let verification be
  due for that revision: the artifact of the status has another revision, or the
  condition \<open>SourceVerified\<close> was observed at another generation, or it is false. Then
  the phase returns the empty result with the error \<open>cosign does not support insecure
  registries\<close>, whose reason is \<open>VerificationError\<close>; it touches no file, and its only
  possible effect is the patch of the deferred observation of a new revision: there is no
  signature verification and no pull. The condition \<open>SourceVerified\<close> is false with the
  reason \<open>VerificationError\<close>, provided \<open>ProgressiveStatus\<close> leaves that condition alone.
\<close>

theorem reconcileSource_insecure_verification:
  assumes verify: "Spec_Verify obj = Some v"
    and insecure: "Spec_Insecure obj"
    and gen: "Generation obj \<noteq> 0"
    and obj1: "obj1 = (if IsFalse obj SourceVerifiedCondition
                       then Delete obj SourceVerifiedCondition else obj)"
    and kc: "keychain env obj1 w = (w1, Inr kc)"
    and auth: "if Spec_Provider obj \<noteq> GenericOCIProvider \<and> kc = Anonymous
               then oidcAuth (remote env) (Spec_URL obj) (Spec_Provider obj) = Inr auth \<or>
                    (\<exists>e. oidcAuth (remote env) (Spec_URL obj) (Spec_Provider obj) = Inl e \<and>
                         errors_Is e ErrUnconfiguredProvider \<and> auth = None)
               else auth = None"
    and rt: "transport env obj1 = Inr rt"
    and opts: "opts = makeRemoteOptions obj1 rt kc auth"
    and url: "getArtifactURL (semverLib env) (remote env) obj1 (craneOpts opts) = Inr url"
    and rev: "getRevision (remote env) url (craneOpts opts) = Inr revision"
    and due: "verificationDue obj revision"
    and e: "e = Generic (New ''cosign does not support insecure registries'') VerificationError"
  shows "\<exists>obj' w'.
           OCI_reconcileSource env obj metadata dir w =
             (obj', emptyArtifact\<lparr>Revision := revision\<rparr>, w', ResultEmpty, Some e) \<and>
           errReason e = VerificationError \<and>
           Files w' = Files w \<and>
           Trace w' = Trace w @ (if HasRevision (Status_Artifact obj) revision then [] else [E_Patch False]) \<and>
           (\<forall>u. E_VerifySignature u \<notin> set (Trace w') - set (Trace w)) \<and>
           (\<forall>u. E_Pull u \<notin> set (Trace w') - set (Trace w)) \<and>
           ((\<forall>d r m g cs. ProgressiveStatus (kube env) d r m g cs SourceVerifiedCondition =
                           cs SourceVerifiedCondition) \<longrightarrow>
              IsFalse obj' SourceVerifiedCondition \<and>
              map_option Reason (Status_Conditions obj' SourceVerifiedCondition) = Some VerificationError)"
proof -
  have w1: "w1 = w" using kc by (rule keychain_world)
  have due1: "verificationDue obj1 revision"
    unfolding obj1 using due gen by (rule verificationDue_after_delete)
  have spec: "Spec_Verify obj1 = Some v" "Spec_Insecure obj1" "Spec_Provider obj1 = Spec_Provider obj"
    "Spec_URL obj1 = Spec_URL obj" "Status_Artifact obj1 = Status_Artifact obj"
    using verify insecure by (auto simp: obj1 Delete_def)
  have ver: "OCI_verify env obj1 (emptyArtifact\<lparr>Revision := revision\<rparr>) dir w url revision opts =
               (MarkFalse obj1 SourceVerifiedCondition (errReason e) (Error e),
                emptyArtifact\<lparr>Revision := revision\<rparr>, w, ResultEmpty, Some e)"
    by (simp add: OCI_verify_def spec due1 e Let_def)
  have res: "OCI_resolve env obj1 metadata dir w kc auth =
               OCI_observeRevision env url revision
                 (MarkFalse obj1 SourceVerifiedCondition (errReason e) (Error e),
                  emptyArtifact\<lparr>Revision := revision\<rparr>, w, ResultEmpty, Some e)"
    using url rev by (simp add: OCI_resolve_def rt opts[symmetric] ver Let_def)
  have src: "OCI_reconcileSource env obj metadata dir w = OCI_resolve env obj1 metadata dir w kc auth"
    using auth kc
    by (auto simp: OCI_reconcileSource_def obj1[symmetric] w1 spec Let_def split: if_splits)
  show ?thesis
    unfolding src res
    by (auto simp: OCI_observeRevision_def Let_def e emit_def MarkFalse_def MarkTrue_def
        conditions_Set_def progressiveStatus_def IsFalse_def spec HasRevision_def
        split: option.splits)
qed


theorem reconcileSource_insecure_verification_witness:
  "Spec_Insecure (oci0\<lparr>Spec_Verify := Some \<lparr>Verify_Provider = ''cosign'', Verify_SecretRef = None\<rparr>,
                        Spec_Insecure := True\<rparr>) \<and>
   getRevision remote0 ''ghcr.io/org/app''
     (craneOpts (makeRemoteOptions
        (oci0\<lparr>Spec_Verify := Some \<lparr>Verify_Provider = ''cosign'', Verify_SecretRef = None\<rparr>,
              Spec_Insecure := True\<rparr>) None Anonymous None)) = Inr ''latest/4f5e'' \<and>
   verificationDue (oci0\<lparr>Spec_Verify := Some \<lparr>Verify_Provider = ''cosign'', Verify_SecretRef = None\<rparr>,
                         Spec_Insecure := True\<rparr>) ''latest/4f5e'' \<and>
   (\<exists>obj' w'.
      OCI_reconcileSource oci_env0
        (oci0\<lparr>Spec_Verify := Some \<lparr>Verify_Provider = ''cosign'', Verify_SecretRef = None\<rparr>,
              Spec_Insecure := True\<rparr>) emptyArtifact ''/tmp'' world0 =
        (obj', emptyArtifact\<lparr>Revision := ''latest/4f5e''\<rparr>, w', ResultEmpty,
         Some (Generic (New ''cosign does not support insecure registries'') VerificationError)) \<and>
      Trace w' = [E_Patch False] \<and> Files w' = Files world0 \<and>
      IsFalse obj' SourceVerifiedCondition \<and>
      map_option Reason (Status_Conditions obj' SourceVerifiedCondition) = Some VerificationError)"
proof -
  let ?v = "\<lparr>Verify_Provider = ''cosign'', Verify_SecretRef = None\<rparr>"
  let ?o = "oci0\<lparr>Spec_Verify := Some ?v, Spec_Insecure := True\<rparr>"
  let ?opts = "makeRemoteOptions ?o None Anonymous None"
  let ?ref = "\<lparr>RegistryStr = ''ghcr.io'', RepositoryStr = ''org/app''\<rparr>"
  let ?e = "Generic (New ''cosign does not support insecure registries'') VerificationError"
  have verify: "Spec_Verify ?o = Some ?v" and insecure: "Spec_Insecure ?o"
    by simp_all
  have gen: "Generation ?o \<noteq> 0"
    by (simp add: oci0_def)
  have o1: "?o = (if IsFalse ?o SourceVerifiedCondition then Delete ?o SourceVerifiedCondition else ?o)"
    by (simp add: IsFalse_def oci0_def)
  have kc: "keychain oci_env0 ?o world0 = (world0, Inr Anonymous)"
    by (simp add: keychain_def oci0_def Let_def)
  have auth: "if Spec_Provider ?o \<noteq> GenericOCIProvider \<and> Anonymous = Anonymous
              then oidcAuth (remote oci_env0) (Spec_URL ?o) (Spec_Provider ?o) = Inr None \<or>
                   (\<exists>e. oidcAuth (remote oci_env0) (Spec_URL ?o) (Spec_Provider ?o) = Inl e \<and>
                        errors_Is e ErrUnconfiguredProvider \<and> None = None)
              else None = None"
    by (simp add: oci0_def)
  have rt: "transport oci_env0 ?o = Inr None"
    by (simp add: transport_def oci0_def)
  have pr: "ParseReference remote0 ''ghcr.io/org/app'' = Inr ?ref"
    by (simp add: remote0_def parseReference0_def Let_def)
  have name: "parseRepositoryURL remote0 ?o = Inr ''ghcr.io/org/app''"
    by (simp add: parseRepositoryURL_def oci0_def OCIRepositoryPrefix_def HasPrefix_def
        TrimPrefix_def pr ContextName_def Let_def)
  have env: "remote oci_env0 = remote0" "semverLib oci_env0 = core_semver" "kube oci_env0 = kube0"
    by (simp_all add: oci_env0_def)
  have url: "getArtifactURL (semverLib oci_env0) (remote oci_env0) ?o (craneOpts ?opts) =
               Inr ''ghcr.io/org/app''"
    by (simp add: getArtifactURL_def env name) (simp add: oci0_def)
  have rev0: "\<And>options. getRevision remote0 ''ghcr.io/org/app'' options = Inr ''latest/4f5e''"
    by (simp add: getRevision_def pr TrimPrefix_def HasPrefix_def Contains_def Let_def)
      (simp add: remote0_def HasPrefix_def)
  have rev: "getRevision (remote oci_env0) ''ghcr.io/org/app'' (craneOpts ?opts) = Inr ''latest/4f5e''"
    by (simp add: env rev0)
  have due: "verificationDue ?o ''latest/4f5e''"
    by (simp add: verificationDue_def HasRevision_def oci0_def)
  have frame: "\<forall>d r m g cs. ProgressiveStatus (kube oci_env0) d r m g cs SourceVerifiedCondition =
                 cs SourceVerifiedCondition"
    by (simp add: env kube0_def)
  have nohas: "\<not> HasRevision (Status_Artifact ?o) ''latest/4f5e''"
    by (simp add: HasRevision_def oci0_def)
  have tr: "Trace world0 = []"
    by (simp add: world0_def)
  have "\<exists>obj' w'.
           OCI_reconcileSource oci_env0 ?o emptyArtifact ''/tmp'' world0 =
             (obj', emptyArtifact\<lparr>Revision := ''latest/4f5e''\<rparr>, w', ResultEmpty, Some ?e) \<and>
           errReason ?e = VerificationError \<and>
           Files w' = Files world0 \<and>
           Trace w' = Trace world0 @
             (if HasRevision (Status_Artifact ?o) ''latest/4f5e'' then [] else [E_Patch False]) \<and>
           (\<forall>u. E_VerifySignature u \<notin> set (Trace w') - set (Trace world0)) \<and>
           (\<forall>u. E_Pull u \<notin> set (Trace w') - set (Trace world0)) \<and>
           ((\<forall>d r m g cs. ProgressiveStatus (kube oci_env0) d r m g cs SourceVerifiedCondition =
                           cs SourceVerifiedCondition) \<longrightarrow>
              IsFalse obj' SourceVerifiedCondition \<and>
              map_option Reason (Status_Conditions obj' SourceVerifiedCondition) = Some VerificationError)"
    by (rule reconcileSource_insecure_verification[OF verify insecure gen o1 kc auth rt refl url rev due refl])
  then obtain obj' w' where
    run: "OCI_reconcileSource oci_env0 ?o emptyArtifact ''/tmp'' world0 =
             (obj', emptyArtifact\<lparr>Revision := ''latest/4f5e''\<rparr>, w', ResultEmpty, Some ?e)"
    and files: "Files w' = Files world0"
    and trace: "Trace w' = Trace world0 @
             (if HasRevision (Status_Artifact ?o) ''latest/4f5e'' then [] else [E_Patch False])"
    and sv: "(\<forall>d r m g cs. ProgressiveStatus (kube oci_env0) d r m g cs SourceVerifiedCondition =
                           cs SourceVerifiedCondition) \<longrightarrow>
              IsFalse obj' SourceVerifiedCondition \<and>
              map_option Reason (Status_Conditions obj' SourceVerifiedCondition) = Some VerificationError"
    by blast
  from sv frame have sv': "IsFalse obj' SourceVerifiedCondition \<and>
      map_option Reason (Status_Conditions obj' SourceVerifiedCondition) = Some VerificationError"
    by blast
  from trace nohas tr have trace': "Trace w' = [E_Patch False]"
    by simp
  from insecure rev0 due run files trace' sv' show ?thesis
    by blast
qed

section \<open>Properties of a reconciliation on an unchanged input\<close>

lemma noNewArtifactWork_iff:
  "noNewArtifactWork w w' \<longleftrightarrow>
     (\<exists>es. Trace w' = Trace w @ es \<and> (\<forall>e\<in>set es. \<not> newArtifactWork e)) \<and>
     set (Files w') \<subseteq> set (Files w)"
proof -
  have "(take (length (Trace w)) (Trace w') = Trace w \<and>
         list_all (\<lambda>e. \<not> newArtifactWork e) (drop (length (Trace w)) (Trace w'))) \<longleftrightarrow>
        (\<exists>es. Trace w' = Trace w @ es \<and> (\<forall>e\<in>set es. \<not> newArtifactWork e))"
  proof
    assume h: "take (length (Trace w)) (Trace w') = Trace w \<and>
         list_all (\<lambda>e. \<not> newArtifactWork e) (drop (length (Trace w)) (Trace w'))"
    have "Trace w' = take (length (Trace w)) (Trace w') @ drop (length (Trace w)) (Trace w')"
      by simp
    with h have "Trace w' = Trace w @ drop (length (Trace w)) (Trace w')" by simp
    with h show "\<exists>es. Trace w' = Trace w @ es \<and> (\<forall>e\<in>set es. \<not> newArtifactWork e)"
      by (auto simp: list_all_iff)
  next
    assume "\<exists>es. Trace w' = Trace w @ es \<and> (\<forall>e\<in>set es. \<not> newArtifactWork e)"
    then show "take (length (Trace w)) (Trace w') = Trace w \<and>
         list_all (\<lambda>e. \<not> newArtifactWork e) (drop (length (Trace w)) (Trace w'))"
      by (auto simp: list_all_iff)
  qed
  then show ?thesis unfolding noNewArtifactWork_def by blast
qed

lemma noNewArtifactWork_refl: "noNewArtifactWork w w"
  by (simp add: noNewArtifactWork_def)

lemma noNewArtifactWork_trans:
  assumes "noNewArtifactWork w w1" and "noNewArtifactWork w1 w2"
  shows "noNewArtifactWork w w2"
proof -
  from assms(1) obtain es where a: "Trace w1 = Trace w @ es" "\<forall>e\<in>set es. \<not> newArtifactWork e"
    and fa: "set (Files w1) \<subseteq> set (Files w)"
    by (auto simp: noNewArtifactWork_iff)
  from assms(2) obtain fs where b: "Trace w2 = Trace w1 @ fs" "\<forall>e\<in>set fs. \<not> newArtifactWork e"
    and fb: "set (Files w2) \<subseteq> set (Files w1)"
    by (auto simp: noNewArtifactWork_iff)
  have "Trace w2 = Trace w @ (es @ fs)" using a b by simp
  moreover have "\<forall>e\<in>set (es @ fs). \<not> newArtifactWork e" using a b by auto
  ultimately show ?thesis
    using fa fb unfolding noNewArtifactWork_iff by blast
qed

lemma noNewArtifactWork_emit: "\<not> newArtifactWork e \<Longrightarrow> noNewArtifactWork w (emit e w)"
  by (simp add: noNewArtifactWork_def emit_def)

lemma noNewArtifactWork_trace_event:
  "noNewArtifactWork w (eventLogf w EventTypeTrace reason)"
  by (simp add: eventLogf_def noNewArtifactWork_emit EventTypeTrace_def EventTypeNormal_def)

lemma GarbageCollect_noNew:
  "GarbageCollect s w a = (w1, del, e) \<Longrightarrow> noNewArtifactWork w w1"
  by (auto simp: GarbageCollect_def noNewArtifactWork_def emit_def Let_def split: option.splits)

lemma OCI_garbageCollect_noNew:
  assumes "IsZero (DeletionTimestamp obj)" and "OCI_garbageCollect env obj w = (obj1, w1, e)"
  shows "noNewArtifactWork w w1"
proof (cases "Status_Artifact obj")
  case None
  then show ?thesis using assms by (simp add: OCI_garbageCollect_def noNewArtifactWork_refl)
next
  case (Some a)
  obtain w0 del e0 where gc: "GarbageCollect (storage env) w a = (w0, del, e0)"
    by (cases "GarbageCollect (storage env) w a") auto
  have n0: "noNewArtifactWork w w0" using gc by (rule GarbageCollect_noNew)
  have "w1 = w0 \<or> w1 = eventLogf w0 EventTypeTrace ''GarbageCollectionSucceeded''"
    using assms Some gc by (auto simp: OCI_garbageCollect_def split: option.splits if_splits)
  then show ?thesis
    using n0 noNewArtifactWork_trace_event noNewArtifactWork_trans by blast
qed

lemma OCI_reconcileStorage_unchanged:
  assumes live: "IsZero (DeletionTimestamp obj)"
    and art: "Status_Artifact obj = Some a"
    and there: "ArtifactExist w a"
    and seturl: "SetArtifactURL (storage env) a = a"
  shows "\<exists>w1. OCI_reconcileStorage env obj md dir w =
                 (obj\<lparr>Status_URL := SetHostname (storage env) (Status_URL obj)\<rparr>, md, w1,
                  ResultSuccess, None) \<and>
              noNewArtifactWork w w1 \<and> ArtifactExist w1 a"
proof -
  obtain obj1 w1 e where gc: "OCI_garbageCollect env obj w = (obj1, w1, e)"
    by (cases "OCI_garbageCollect env obj w") auto
  have o1: "obj1 = obj" and ex: "ArtifactExist w1 a = ArtifactExist w a"
    using OCI_garbageCollect_live[OF live gc] art by auto
  have n: "noNewArtifactWork w w1" using live gc by (rule OCI_garbageCollect_noNew)
  have a: "obj\<lparr>Status_Artifact := Some a\<rparr> = obj"
    unfolding art[symmetric] by simp
  have "OCI_reconcileStorage env obj md dir w =
          (obj\<lparr>Status_URL := SetHostname (storage env) (Status_URL obj)\<rparr>, md, w1, ResultSuccess, None)"
    using art there a by (simp add: OCI_reconcileStorage_def gc o1 ex Let_def seturl)
  with n ex there show ?thesis by blast
qed

lemma lookupPullSecrets_noNew:
  "lookupPullSecrets env obj w ns = (w1, r) \<Longrightarrow> noNewArtifactWork w w1"
proof (induction ns arbitrary: w1 r)
  case Nil
  then show ?case by (simp add: noNewArtifactWork_refl)
next
  case (Cons n ns)
  show ?case
  proof (cases "GetSecret (kube env) (Namespace obj) n")
    case (Inl e)
    with Cons.prems show ?thesis by (auto simp: noNewArtifactWork_trace_event)
  next
    case (Inr s)
    obtain w2 r2 where rec: "lookupPullSecrets env obj w ns = (w2, r2)"
      by (cases "lookupPullSecrets env obj w ns") auto
    from Cons.IH[OF rec] have "noNewArtifactWork w w2" .
    moreover have "w1 = w2" using Cons.prems Inr rec by (auto split: sum.splits)
    ultimately show ?thesis by simp
  qed
qed

lemma keychain_noNew: "keychain env obj w = (w1, r) \<Longrightarrow> noNewArtifactWork w w1"
  by (auto simp: keychain_def Let_def noNewArtifactWork_refl dest: lookupPullSecrets_noNew
      split: sum.splits prod.splits if_splits option.splits)

lemma failWith_same:
  "failWith t obj md w e = (obj', md', w', res, err) \<Longrightarrow>
     (\<exists>c. obj' = obj\<lparr>Status_Conditions := c\<rparr>) \<and> md' = md \<and> w' = w \<and> res = ResultEmpty \<and> err = Some e"
  by (auto simp: failWith_def MarkTrue_def conditions_Set_def)

lemma OCI_verify_same:
  assumes has: "HasRevision (Status_Artifact obj) revision"
    and cfg: "\<not> ociContentConfigChanged obj"
    and run: "OCI_verify env obj md dir w url revision opts = (obj', md', w', res, err)"
  shows "(\<exists>c. obj' = obj\<lparr>Status_Conditions := c\<rparr>) \<and> md' = md \<and> noNewArtifactWork w w' \<and>
         res \<noteq> ResultRequeue"
  using assms
  by (auto simp: OCI_verify_def OCI_fetch_def verifySignature_def Delete_def MarkTrue_def
      MarkFalse_def conditions_Set_def ociContentConfigChanged_def noNewArtifactWork_refl
      noNewArtifactWork_emit Let_def
      split: option.splits if_splits prod.splits)

lemma OCI_observeRevision_known:
  "HasRevision (Status_Artifact obj) revision \<Longrightarrow>
     OCI_observeRevision env url revision (obj, md, w, res, err) = (obj, md, w, res, err)"
  by (simp add: OCI_observeRevision_def)

lemma OCI_resolve_same:
  assumes art: "Status_Artifact obj = Some a"
    and cfg: "\<not> ociContentConfigChanged obj"
    and up: "\<forall>options url revision.
               getArtifactURL (semverLib env) (remote env) obj options = Inr url \<longrightarrow>
               getRevision (remote env) url options = Inr revision \<longrightarrow> revision = Revision a"
    and run: "OCI_resolve env obj md dir w kc auth = (obj', md', w', res, err)"
  shows "(\<exists>c. obj' = obj\<lparr>Status_Conditions := c\<rparr>) \<and> noNewArtifactWork w w' \<and>
         res \<noteq> ResultRequeue \<and> (err = None \<longrightarrow> Revision md' = Revision a)"
proof (cases "transport env obj")
  case (Inl e)
  with run show ?thesis
    by (auto simp: OCI_resolve_def noNewArtifactWork_refl dest!: failWith_same)
next
  case (Inr rt)
  let ?opts = "makeRemoteOptions obj rt kc auth"
  show ?thesis
  proof (cases "getArtifactURL (semverLib env) (remote env) obj (craneOpts ?opts)")
    case (Inl e)
    with run Inr show ?thesis
      by (auto simp: OCI_resolve_def Let_def noNewArtifactWork_refl dest!: failWith_same
          split: error.splits)
  next
    case url: (Inr url)
    show ?thesis
    proof (cases "getRevision (remote env) url (craneOpts ?opts)")
      case (Inl e)
      with run Inr url show ?thesis
        by (auto simp: OCI_resolve_def Let_def noNewArtifactWork_refl dest!: failWith_same)
    next
      case rev: (Inr revision)
      have r: "revision = Revision a" using up url rev by blast
      have has: "HasRevision (Status_Artifact obj) revision"
        by (simp add: HasRevision_def art r)
      obtain o1 m1 v1 r1 e1 where ver:
        "OCI_verify env obj (emptyArtifact\<lparr>Revision := revision\<rparr>) dir w url revision ?opts =
           (o1, m1, v1, r1, e1)"
        by (metis prod_cases5)
      from OCI_verify_same[OF has cfg ver]
      obtain c where o1: "o1 = obj\<lparr>Status_Conditions := c\<rparr>"
        and m1: "m1 = emptyArtifact\<lparr>Revision := revision\<rparr>"
        and n: "noNewArtifactWork w v1" and rq: "r1 \<noteq> ResultRequeue"
        by blast
      have has1: "HasRevision (Status_Artifact o1) revision"
        using has by (simp add: o1)
      have "OCI_resolve env obj md dir w kc auth = (o1, m1, v1, r1, e1)"
        using Inr url rev ver has1
        by (simp add: OCI_resolve_def Let_def OCI_observeRevision_known)
      with run have "obj' = o1" "md' = m1" "w' = v1" "res = r1" "err = e1" by simp_all
      with o1 m1 n rq r show ?thesis by auto
    qed
  qed
qed

lemma OCI_reconcileSource_same:
  assumes art: "Status_Artifact obj = Some a"
    and cfg: "\<not> ociContentConfigChanged obj"
    and up: "\<forall>options url revision.
               getArtifactURL (semverLib env) (remote env) obj options = Inr url \<longrightarrow>
               getRevision (remote env) url options = Inr revision \<longrightarrow> revision = Revision a"
    and run: "OCI_reconcileSource env obj md dir w = (obj', md', w', res, err)"
  shows "(\<exists>c. obj' = obj\<lparr>Status_Conditions := c\<rparr>) \<and> noNewArtifactWork w w' \<and>
         res \<noteq> ResultRequeue \<and> (err = None \<longrightarrow> Revision md' = Revision a)"
proof -
  let ?o = "if IsFalse obj SourceVerifiedCondition then Delete obj SourceVerifiedCondition else obj"
  obtain c0 where o: "?o = obj\<lparr>Status_Conditions := c0\<rparr>"
    by (cases "IsFalse obj SourceVerifiedCondition") (auto simp: Delete_def intro: that[of "Status_Conditions obj"])
  have art1: "Status_Artifact ?o = Some a" using art by (simp add: Delete_def)
  have cfg1: "\<not> ociContentConfigChanged ?o"
    unfolding o ociContentConfigChanged_conditions using cfg .
  have up1: "\<forall>options url revision.
               getArtifactURL (semverLib env) (remote env) ?o options = Inr url \<longrightarrow>
               getRevision (remote env) url options = Inr revision \<longrightarrow> revision = Revision a"
    unfolding o getArtifactURL_conditions using up .
  obtain w1 k where kc: "keychain env ?o w = (w1, k)"
    by (cases "keychain env ?o w") auto
  have n1: "noNewArtifactWork w w1" using kc by (rule keychain_noNew)
  have "(\<exists>c. obj' = ?o\<lparr>Status_Conditions := c\<rparr>) \<and> noNewArtifactWork w1 w' \<and>
         res \<noteq> ResultRequeue \<and> (err = None \<longrightarrow> Revision md' = Revision a)"
  proof (cases k)
    case (Inl e)
    with run kc show ?thesis
      by (auto simp: OCI_reconcileSource_def Let_def noNewArtifactWork_refl dest!: failWith_same)
  next
    case (Inr kch)
    have "(\<exists>au. OCI_resolve env ?o md dir w1 kch au = (obj', md', w', res, err)) \<or>
          (\<exists>e. failWith FetchFailedCondition ?o md w1 e = (obj', md', w', res, err))"
      using run kc Inr
      by (auto simp: OCI_reconcileSource_def Let_def split: if_splits sum.splits)
    then show ?thesis
    proof
      assume "\<exists>au. OCI_resolve env ?o md dir w1 kch au = (obj', md', w', res, err)"
      then obtain au where "OCI_resolve env ?o md dir w1 kch au = (obj', md', w', res, err)" ..
      from OCI_resolve_same[OF art1 cfg1 up1 this] show ?thesis .
    next
      assume "\<exists>e. failWith FetchFailedCondition ?o md w1 e = (obj', md', w', res, err)"
      then show ?thesis
        by (auto simp: noNewArtifactWork_refl dest!: failWith_same)
    qed
  qed
  then obtain c where "obj' = ?o\<lparr>Status_Conditions := c\<rparr>" and n2: "noNewArtifactWork w1 w'"
    and rest: "res \<noteq> ResultRequeue" "err = None \<longrightarrow> Revision md' = Revision a"
    by blast
  then have "obj' = obj\<lparr>Status_Conditions := c\<rparr>" by (simp add: o)
  with n1 n2 rest show ?thesis
    using noNewArtifactWork_trans by blast
qed

lemma OCI_reconcileArtifact_uptodate:
  assumes art: "Status_Artifact obj = Some a"
    and cfg: "\<not> ociContentConfigChanged obj"
    and rev: "Revision md = Revision a"
  shows "OCI_reconcileArtifact env obj md dir w =
           (MarkTrue (Delete obj ArtifactOutdatedCondition) ArtifactInStorageCondition SucceededReason
              (''stored artifact for digest '' @ Revision a),
            md, eventLogf w EventTypeTrace ArtifactUpToDateReason, ResultSuccess, None)"
  using assms
  by (simp add: OCI_reconcileArtifact_def OCI_archive_def NewArtifactFor_def SetArtifactURL_def
      HasRevision_def Let_def)

lemma ociContentConfigChanged_url:
  "ociContentConfigChanged (obj\<lparr>Status_URL := u\<rparr>) = ociContentConfigChanged obj"
  by (simp add: ociContentConfigChanged_def)

lemma OCI_runReconcilers_unchanged:
  assumes live: "IsZero (DeletionTimestamp obj)"
    and art: "Status_Artifact obj = Some a"
    and there: "ArtifactExist w a"
    and cfg: "\<not> ociContentConfigChanged obj"
    and seturl: "SetArtifactURL (storage env) a = a"
    and up: "\<forall>options url revision.
               getArtifactURL (semverLib env) (remote env) obj options = Inr url \<longrightarrow>
               getRevision (remote env) url options = Inr revision \<longrightarrow> revision = Revision a"
    and run: "OCI_runReconcilers env [OCI_reconcileStorage, OCI_reconcileSource, OCI_reconcileArtifact]
                dir obj md w res0 = ((obj', md', w', res, err), requeue)"
  shows "(\<exists>c u. obj' = obj\<lparr>Status_Conditions := c, Status_URL := u\<rparr>) \<and> noNewArtifactWork w w'"
proof -
  let ?oS = "obj\<lparr>Status_URL := SetHostname (storage env) (Status_URL obj)\<rparr>"
  obtain wS where st: "OCI_reconcileStorage env obj md dir w = (?oS, md, wS, ResultSuccess, None)"
    and nS: "noNewArtifactWork w wS"
    using OCI_reconcileStorage_unchanged[OF live art there seturl] by blast
  have artS: "Status_Artifact ?oS = Some a" using art by simp
  have cfgS: "\<not> ociContentConfigChanged ?oS" using cfg by (simp add: ociContentConfigChanged_url)
  have pS: "parseRepositoryURL (remote env) ?oS = parseRepositoryURL (remote env) obj"
    by (simp add: parseRepositoryURL_def)
  have gS: "\<And>options. getArtifactURL (semverLib env) (remote env) ?oS options =
                         getArtifactURL (semverLib env) (remote env) obj options"
    by (simp add: getArtifactURL_def pS split: sum.splits option.splits)
  have upS: "\<forall>options url revision.
               getArtifactURL (semverLib env) (remote env) ?oS options = Inr url \<longrightarrow>
               getRevision (remote env) url options = Inr revision \<longrightarrow> revision = Revision a"
    unfolding gS using up .
  obtain o2 m2 w2 r2 e2 where src: "OCI_reconcileSource env ?oS md dir wS = (o2, m2, w2, r2, e2)"
    by (metis prod_cases5)
  from OCI_reconcileSource_same[OF artS cfgS upS src]
  obtain c where o2: "o2 = ?oS\<lparr>Status_Conditions := c\<rparr>" and n2: "noNewArtifactWork wS w2"
    and rq: "r2 \<noteq> ResultRequeue" and rev: "e2 = None \<longrightarrow> Revision m2 = Revision a"
    by blast
  have n02: "noNewArtifactWork w w2" using nS n2 by (rule noNewArtifactWork_trans)
  have shape2: "\<exists>c u. o2 = obj\<lparr>Status_Conditions := c, Status_URL := u\<rparr>"
    by (rule exI[of _ c], rule exI[of _ "SetHostname (storage env) (Status_URL obj)"])
      (simp add: o2)
  show ?thesis
  proof (cases e2)
    case (Some e)
    have "OCI_runReconcilers env [OCI_reconcileStorage, OCI_reconcileSource, OCI_reconcileArtifact]
            dir obj md w res0 = ((o2, m2, w2, r2, Some e), False)"
      using st src rq Some by simp
    with run have "obj' = o2" "w' = w2" by simp_all
    with shape2 n02 show ?thesis by simp
  next
    case None
    have art2: "Status_Artifact o2 = Some a" using art by (simp add: o2)
    have cfg2: "\<not> ociContentConfigChanged o2"
      using cfg by (simp add: o2 ociContentConfigChanged_conditions ociContentConfigChanged_url)
    have rev2: "Revision m2 = Revision a" using rev None by simp
    let ?o3 = "MarkTrue (Delete o2 ArtifactOutdatedCondition) ArtifactInStorageCondition SucceededReason
                 (''stored artifact for digest '' @ Revision a)"
    let ?w3 = "eventLogf w2 EventTypeTrace ArtifactUpToDateReason"
    have ar: "OCI_reconcileArtifact env o2 m2 dir w2 = (?o3, m2, ?w3, ResultSuccess, None)"
      using art2 cfg2 rev2 by (rule OCI_reconcileArtifact_uptodate)
    have "\<exists>r. OCI_runReconcilers env [OCI_reconcileStorage, OCI_reconcileSource, OCI_reconcileArtifact]
            dir obj md w res0 = ((?o3, m2, ?w3, r, None), False)"
      using st src rq None ar by simp
    with run have eq: "obj' = ?o3" "w' = ?w3" by auto
    have n3: "noNewArtifactWork w ?w3"
      using n02 noNewArtifactWork_trace_event by (rule noNewArtifactWork_trans)
    have "\<exists>c'. ?o3 = o2\<lparr>Status_Conditions := c'\<rparr>"
      by (auto simp: MarkTrue_def Delete_def conditions_Set_def)
    then obtain c' where "?o3 = o2\<lparr>Status_Conditions := c'\<rparr>" ..
    then have "?o3 = obj\<lparr>Status_Conditions := c', Status_URL := SetHostname (storage env) (Status_URL obj)\<rparr>"
      by (simp add: o2)
    then have "\<exists>c u. ?o3 = obj\<lparr>Status_Conditions := c, Status_URL := u\<rparr>"
      by blast
    with eq n3 show ?thesis by simp
  qed
qed

lemma OCI_notify_same_artifact:
  assumes "Status_Artifact oldObj = Some a" and "Status_Artifact newObj = Some a"
  shows "noNewArtifactWork w (OCI_notify env oldObj newObj res resErr w)"
  using assms
  by (simp add: OCI_notify_def Let_def noNewArtifactWork_refl noNewArtifactWork_emit
      SucceededReason_def)

lemma OCI_notify_NewArtifact:
  assumes "Trace (OCI_notify env oldObj newObj r e v) = Trace v @ [E_Event EventTypeNormal ''NewArtifact'']"
  shows "\<exists>n. Status_Artifact newObj = Some n \<and>
           (case Status_Artifact oldObj of None \<Rightarrow> [] | Some x \<Rightarrow> Checksum x) \<noteq> Checksum n"
  using assms
  by (auto simp: OCI_notify_def emit_def Let_def SucceededReason_def split: option.splits if_splits)

text \<open>
  Claim C3. Let an OCIRepository, not under deletion, have in its status an artifact \<open>a\<close>
  whose file is in storage and whose URL is the one the storage gives it now; let the
  ignore rules and the layer selector be the observed ones; and let the registry resolve
  the reference of the object to the revision of \<open>a\<close>. Then a reconciliation (the storage,
  source and artifact phases, and the notification) ends with the same artifact \<open>a\<close> in
  the status, whatever its result; it pulls nothing, archives and copies nothing, adds no
  file to storage and emits no \<open>NewArtifact\<close> event. The notification emits that event
  only for a new artifact whose checksum differs from the old one.
\<close>

theorem reconcile_unchanged_input:
  assumes live: "IsZero (DeletionTimestamp obj)"
    and art: "Status_Artifact obj = Some a"
    and there: "ArtifactExist w a"
    and cfg: "\<not> ociContentConfigChanged obj"
    and url: "URL a = ArtifactURL (storage env) (Path a)"
    and up: "\<forall>options url revision.
               getArtifactURL (semverLib env) (remote env) obj options = Inr url \<longrightarrow>
               getRevision (remote env) url options = Inr revision \<longrightarrow> revision = Revision a"
    and run: "OCI_reconcile env obj w [OCI_reconcileStorage, OCI_reconcileSource, OCI_reconcileArtifact] =
                (obj', w', res, err)"
  shows "Status_Artifact obj' = Some a \<and> noNewArtifactWork w w' \<and>
         (\<forall>oldObj newObj r e v.
            Trace (OCI_notify env oldObj newObj r e v) =
              Trace v @ [E_Event EventTypeNormal ''NewArtifact''] \<longrightarrow>
            (\<exists>n. Status_Artifact newObj = Some n \<and>
                 (case Status_Artifact oldObj of None \<Rightarrow> [] | Some x \<Rightarrow> Checksum x) \<noteq> Checksum n))"
proof -
  have main: "Status_Artifact obj' = Some a \<and> noNewArtifactWork w w'"
  proof -
  let ?recs = "[OCI_reconcileStorage, OCI_reconcileSource, OCI_reconcileArtifact]"
  let ?o1 = "progressiveStatus (kube env) False obj ProgressingReason ''reconciliation in progress''"
  let ?at = "case ReconcileAnnotationValue (Annotations ?o1) of None \<Rightarrow> [] | Some v \<Rightarrow> v"
  let ?o2 = "progressiveStatus (kube env) False ?o1 ProgressingReason
               (''processing object: new generation '' @
                FormatInt (Status_ObservedGeneration ?o1) @ '' -> '' @ FormatInt (Generation ?o1))"
  let ?first = "if Generation ?o1 \<noteq> Status_ObservedGeneration ?o1 then
                  (?o2, emit (E_Patch False) w, Patch (kube env) ?o2)
                else if ?at \<noteq> Status_LastHandledReconcileAt ?o1 then
                  (?o1, emit (E_Patch False) w, Patch (kube env) ?o1)
                else (?o1, w, None)"
  have seturl: "SetArtifactURL (storage env) a = a"
    by (simp add: SetArtifactURL_def url[symmetric])
  obtain p w1 pe where first: "?first = (p, w1, pe)"
    by (metis prod_cases3)
  have pshape: "\<exists>c. p = obj\<lparr>Status_Conditions := c\<rparr>"
    using first by (auto simp: progressiveStatus_def split: if_splits)
  have w1: "w1 = w \<or> w1 = emit (E_Patch False) w"
    using first by (auto split: if_splits)
  have n1: "noNewArtifactWork w w1"
    using w1 by (auto simp: noNewArtifactWork_refl noNewArtifactWork_emit)
  have f1: "Files w1 = Files w"
    using w1 by (auto simp: emit_def)
  from pshape obtain c where p: "p = obj\<lparr>Status_Conditions := c\<rparr>" ..
  have unfold: "OCI_reconcile env obj w ?recs =
      (case (p, w1, pe) of
         (obj2, w1, Some err) \<Rightarrow> (obj2, w1, ResultEmpty, Some err)
       | (obj2, w1, None) \<Rightarrow>
           (case TempDirForObj (fs env) of
              Inl err \<Rightarrow>
                (let e = Generic (Errorf ''failed to create temporary working directory: '' err)
                           DirCreationFailedReason
                 in (MarkTrue obj2 StorageOperationFailedCondition (errReason e) (Error e),
                     w1, ResultEmpty, Some e))
            | Inr tmpDir \<Rightarrow>
                (case OCI_runReconcilers env ?recs tmpDir
                        (Delete obj2 StorageOperationFailedCondition) emptyArtifact w1 ResultEmpty of
                   ((obj3, metadata, w2, res, resErr), requeue) \<Rightarrow>
                     if requeue then (obj3, w2, ResultRequeue, None)
                     else (obj3, OCI_notify env obj obj3 res resErr w2, res, resErr))))"
    unfolding OCI_reconcile_def Let_def first[symmetric] ..
  show ?thesis
  proof (cases pe)
    case (Some e)
    with run unfold have "obj' = p" "w' = w1" by simp_all
    with p art n1 show ?thesis by simp
  next
    case None
    show ?thesis
    proof (cases "TempDirForObj (fs env)")
      case (Inl e)
      with run unfold None have "obj' = MarkTrue p StorageOperationFailedCondition
          (errReason (Generic (Errorf ''failed to create temporary working directory: '' e)
                               DirCreationFailedReason))
          (Error (Generic (Errorf ''failed to create temporary working directory: '' e)
                               DirCreationFailedReason))" "w' = w1"
        by (simp_all add: Let_def)
      with p art n1 show ?thesis by (simp add: MarkTrue_def conditions_Set_def)
    next
      case (Inr tmpDir)
      let ?d = "Delete p StorageOperationFailedCondition"
      obtain cd where d: "?d = obj\<lparr>Status_Conditions := cd\<rparr>"
        by (simp add: p Delete_def)
      have lived: "IsZero (DeletionTimestamp ?d)" using live by (simp add: d)
      have artd: "Status_Artifact ?d = Some a" using art by (simp add: d)
      have thered: "ArtifactExist w1 a" using there f1 by (simp add: ArtifactExist_def)
      have cfgd: "\<not> ociContentConfigChanged ?d"
        unfolding d ociContentConfigChanged_conditions using cfg .
      have upd: "\<forall>options url revision.
               getArtifactURL (semverLib env) (remote env) ?d options = Inr url \<longrightarrow>
               getRevision (remote env) url options = Inr revision \<longrightarrow> revision = Revision a"
        unfolding d getArtifactURL_conditions using up .
      obtain o3 m3 w2 r3 e3 rq where rr:
        "OCI_runReconcilers env ?recs tmpDir ?d emptyArtifact w1 ResultEmpty =
           ((o3, m3, w2, r3, e3), rq)"
        by (metis prod_cases5 surj_pair)
      from OCI_runReconcilers_unchanged[OF lived artd thered cfgd seturl upd rr]
      obtain c3 u3 where o3: "o3 = ?d\<lparr>Status_Conditions := c3, Status_URL := u3\<rparr>"
        and n2: "noNewArtifactWork w1 w2"
        by blast
      have art3: "Status_Artifact o3 = Some a" using artd by (simp add: o3)
      have n02: "noNewArtifactWork w w2" using n1 n2 by (rule noNewArtifactWork_trans)
      have n03: "noNewArtifactWork w (OCI_notify env obj o3 r3 e3 w2)"
        using n02 OCI_notify_same_artifact[OF art art3] by (rule noNewArtifactWork_trans)
      have "obj' = o3 \<and> (w' = w2 \<or> w' = OCI_notify env obj o3 r3 e3 w2)"
        using run unfold None Inr rr by (auto split: if_splits)
      with art3 n02 n03 show ?thesis by auto
    qed
  qed
qed
  then show ?thesis
    using OCI_notify_NewArtifact by blast
qed

theorem reconcile_unchanged_input_witness:
  "IsZero (DeletionTimestamp (oci0\<lparr>Status_Artifact := Some artifact0\<rparr>)) \<and>
   ArtifactExist world0 artifact0 \<and>
   \<not> ociContentConfigChanged (oci0\<lparr>Status_Artifact := Some artifact0\<rparr>) \<and>
   getArtifactURL core_semver remote0 (oci0\<lparr>Status_Artifact := Some artifact0\<rparr>) [] =
     Inr ''ghcr.io/org/app'' \<and>
   getRevision remote0 ''ghcr.io/org/app'' [] = Inr (Revision artifact0) \<and>
   (\<exists>obj' w' res err.
      OCI_reconcile oci_env0 (oci0\<lparr>Status_Artifact := Some artifact0\<rparr>) world0
        [OCI_reconcileStorage, OCI_reconcileSource, OCI_reconcileArtifact] = (obj', w', res, err) \<and>
      Status_Artifact obj' = Some artifact0 \<and> noNewArtifactWork world0 w')"
proof -
  let ?o = "oci0\<lparr>Status_Artifact := Some artifact0\<rparr>"
  let ?ref = "\<lparr>RegistryStr = ''ghcr.io'', RepositoryStr = ''org/app''\<rparr>"
  have live: "IsZero (DeletionTimestamp ?o)"
    by (simp add: IsZero_def oci0_def)
  have art: "Status_Artifact ?o = Some artifact0"
    by simp
  have there: "ArtifactExist world0 artifact0"
    by (simp add: ArtifactExist_def world0_def artifact0_def)
  have cfg: "\<not> ociContentConfigChanged ?o"
    by (simp add: ociContentConfigChanged_def layerSelectorEqual_def oci0_def)
  have url: "URL artifact0 = ArtifactURL (storage oci_env0) (Path artifact0)"
    by (simp add: artifact0_def oci_env0_def storage0_def)
  have env: "remote oci_env0 = remote0" "semverLib oci_env0 = core_semver"
    by (simp_all add: oci_env0_def)
  have pr: "ParseReference remote0 ''ghcr.io/org/app'' = Inr ?ref"
    by (simp add: remote0_def parseReference0_def Let_def)
  have name: "parseRepositoryURL remote0 ?o = Inr ''ghcr.io/org/app''"
    by (simp add: parseRepositoryURL_def oci0_def OCIRepositoryPrefix_def HasPrefix_def
        TrimPrefix_def pr ContextName_def Let_def)
  have aurl: "\<And>options. getArtifactURL core_semver remote0 ?o options = Inr ''ghcr.io/org/app''"
    by (simp add: getArtifactURL_def name) (simp add: oci0_def)
  have rev: "\<And>options. getRevision remote0 ''ghcr.io/org/app'' options = Inr ''latest/4f5e''"
    by (simp add: getRevision_def pr TrimPrefix_def HasPrefix_def Contains_def Let_def)
      (simp add: remote0_def HasPrefix_def)
  have ra: "Revision artifact0 = ''latest/4f5e''"
    by (simp add: artifact0_def)
  have up: "\<forall>options url revision.
              getArtifactURL (semverLib oci_env0) (remote oci_env0) ?o options = Inr url \<longrightarrow>
              getRevision (remote oci_env0) url options = Inr revision \<longrightarrow>
              revision = Revision artifact0"
    by (simp add: env aurl rev ra)
  obtain obj' w' res err where run:
    "OCI_reconcile oci_env0 ?o world0 [OCI_reconcileStorage, OCI_reconcileSource, OCI_reconcileArtifact] =
       (obj', w', res, err)"
    by (metis prod_cases4)
  have "Status_Artifact obj' = Some artifact0 \<and> noNewArtifactWork world0 w'"
    using reconcile_unchanged_input[OF live art there cfg url up run] by blast
  with run have "\<exists>obj' w' res err.
      OCI_reconcile oci_env0 ?o world0 [OCI_reconcileStorage, OCI_reconcileSource, OCI_reconcileArtifact] =
        (obj', w', res, err) \<and>
      Status_Artifact obj' = Some artifact0 \<and> noNewArtifactWork world0 w'"
    by blast
  with live there cfg aurl rev ra show ?thesis
    by simp
qed

end
